theory Spec2Isabelle
  imports Complex_Main "HOL-Library.Log_Nat"
begin

section \<open>The JavaScript values the service computes with\<close>

text \<open>
  The image service is an Express application (\<^verbatim>\<open>src/index.js\<close>) on top of a storage
  layer (\<^verbatim>\<open>src/storage/StorageManager.js\<close>, \<^verbatim>\<open>src/storage/FilesystemAdapter.js\<close>).
  Strings are modelled as byte sequences (UTF-8), buffers as lists of numbers.  Errors
  thrown by the code or by the runtime are values of \<open>js_error\<close>; a function that may
  throw returns \<open>js_error + 'a\<close>, with \<open>Inl\<close> for the thrown error.
\<close>

type_synonym buffer = "nat list"

datatype js_error =
    TypeError string      \<comment> \<open>thrown by the runtime: calling something that is no function\<close>
  | Error string          \<comment> \<open>\<^verbatim>\<open>new Error(message)\<close>, also an SDK or library failure\<close>
  | SystemError string string
      \<comment> \<open>a Node \<^verbatim>\<open>fs\<close> failure: \<^verbatim>\<open>error.code\<close> and \<^verbatim>\<open>error.message\<close>\<close>

fun message :: "js_error \<Rightarrow> string" where
  "message (TypeError m) = m"
| "message (Error m) = m"
| "message (SystemError c m) = m"

definition ENOENT :: js_error where
  "ENOENT = SystemError ''ENOENT'' ''ENOENT: no such file or directory''"

definition EACCES :: js_error where
  "EACCES = SystemError ''EACCES'' ''EACCES: permission denied''"

subsection \<open>Numbers\<close>

text \<open>
  A JavaScript number is an IEEE 754 double.  A finite double is kept as the rational it
  denotes; negative zero is identified with zero, because the handlers observe a
  dimension only through \<^verbatim>\<open>isNaN\<close> and its conversion to a string, which do not tell the
  two apart.  \<open>number_of_rat\<close> rounds a rational to the nearest double, ties to even, with
  subnormals and overflow to infinity.
\<close>

datatype jsnum = NaN | PosInfinity | NegInfinity | Finite rat

definition pow2 :: "int \<Rightarrow> rat" where
  "pow2 e = (if 0 \<le> e then 2 ^ nat e else 1 / 2 ^ nat (- e))"

definition pow10 :: "int \<Rightarrow> rat" where
  "pow10 e = (if 0 \<le> e then 10 ^ nat e else 1 / 10 ^ nat (- e))"

definition floor_log2 :: "rat \<Rightarrow> int" where
  "floor_log2 q =
     (let (a, b) = quotient_of q;
          k = bitlen a - bitlen b
      in if pow2 k \<le> q then k else k - 1)"

definition round_half_even :: "rat \<Rightarrow> int" where
  "round_half_even q =
     (let f = \<lfloor>q\<rfloor>; d = q - of_int f
      in if d < 1 / 2 then f else if 1 / 2 < d then f + 1 else if even f then f else f + 1)"

definition round_pos :: "rat \<Rightarrow> jsnum" where
  "round_pos q =
     (let e = max (floor_log2 q) (- 1022) - 52;
          v = of_int (round_half_even (q / pow2 e)) * pow2 e
      in if pow2 1024 \<le> v then PosInfinity else Finite v)"

definition negate :: "jsnum \<Rightarrow> jsnum" where
  "negate x = (case x of NaN \<Rightarrow> NaN | PosInfinity \<Rightarrow> NegInfinity
                | NegInfinity \<Rightarrow> PosInfinity | Finite v \<Rightarrow> Finite (- v))"

definition number_of_rat :: "rat \<Rightarrow> jsnum" where
  "number_of_rat q =
     (if q = 0 then Finite 0 else if 0 < q then round_pos q else negate (round_pos (- q)))"

subsection \<open>Strings\<close>

definition js_startsWith :: "string \<Rightarrow> string \<Rightarrow> bool" where
  "js_startsWith s p = (take (length p) s = p)"

definition js_includes :: "string \<Rightarrow> char \<Rightarrow> bool" where
  "js_includes s c = (c \<in> set s)"

text \<open>\<^verbatim>\<open>s.split(c)\<close> for a one-character separator: the pieces between the occurrences.\<close>

fun js_split :: "char \<Rightarrow> string \<Rightarrow> string list" where
  "js_split c [] = [[]]"
| "js_split c (d # ds) =
     (if d = c then [] # js_split c ds
      else (case js_split c ds of
              [] \<Rightarrow> [[d]]
            | p # ps \<Rightarrow> (d # p) # ps))"

text \<open>
  \<^verbatim>\<open>toLowerCase\<close> on the ASCII letters.  The handler compares the result with ASCII words
  without the letter k only, and no character outside ASCII other than the Kelvin sign
  lowers to an ASCII letter, so the comparison comes out as in JavaScript.
\<close>

definition lower_char :: "char \<Rightarrow> char" where
  "lower_char c =
     (if 65 \<le> (of_char c :: nat) \<and> (of_char c :: nat) \<le> 90
      then char_of ((of_char c :: nat) + 32) else c)"

definition js_toLowerCase :: "string \<Rightarrow> string" where
  "js_toLowerCase s = map lower_char s"

subsection \<open>\<^verbatim>\<open>Number(string)\<close>\<close>

text \<open>
  The StringNumericLiteral grammar of ECMAScript: white space is trimmed, the empty
  string is 0, then a binary, octal or hexadecimal integer without sign, or a signed
  decimal literal with optional fraction and exponent, or a signed \<^verbatim>\<open>Infinity\<close>; anything
  else is NaN.
\<close>

definition is_digit :: "char \<Rightarrow> bool" where
  "is_digit c = (48 \<le> (of_char c :: int) \<and> (of_char c :: int) \<le> 57)"

definition digit_val :: "char \<Rightarrow> int option" where
  "digit_val c =
     (let n = (of_char c :: int)
      in if 48 \<le> n \<and> n \<le> 57 then Some (n - 48)
         else if 97 \<le> n \<and> n \<le> 102 then Some (n - 87)
         else if 65 \<le> n \<and> n \<le> 70 then Some (n - 55)
         else None)"

fun radix_val :: "int \<Rightarrow> int \<Rightarrow> string \<Rightarrow> int option" where
  "radix_val r acc [] = Some acc"
| "radix_val r acc (c # cs) =
     (case digit_val c of
        None \<Rightarrow> None
      | Some d \<Rightarrow> if d < r then radix_val r (acc * r + d) cs else None)"

text \<open>The white space and line terminator characters, each as its UTF-8 bytes.\<close>

definition white_space :: "string list" where
  "white_space =
     [[CHR 0x09], [CHR 0x0A], [CHR 0x0B], [CHR 0x0C], [CHR 0x0D], [CHR 0x20],
      [CHR 0xC2, CHR 0xA0], [CHR 0xEF, CHR 0xBB, CHR 0xBF],
      [CHR 0xE1, CHR 0x9A, CHR 0x80],
      [CHR 0xE2, CHR 0x80, CHR 0x80], [CHR 0xE2, CHR 0x80, CHR 0x81],
      [CHR 0xE2, CHR 0x80, CHR 0x82], [CHR 0xE2, CHR 0x80, CHR 0x83],
      [CHR 0xE2, CHR 0x80, CHR 0x84], [CHR 0xE2, CHR 0x80, CHR 0x85],
      [CHR 0xE2, CHR 0x80, CHR 0x86], [CHR 0xE2, CHR 0x80, CHR 0x87],
      [CHR 0xE2, CHR 0x80, CHR 0x88], [CHR 0xE2, CHR 0x80, CHR 0x89],
      [CHR 0xE2, CHR 0x80, CHR 0x8A], [CHR 0xE2, CHR 0x80, CHR 0xA8],
      [CHR 0xE2, CHR 0x80, CHR 0xA9], [CHR 0xE2, CHR 0x80, CHR 0xAF],
      [CHR 0xE2, CHR 0x81, CHR 0x9F], [CHR 0xE3, CHR 0x80, CHR 0x80]]"

function strip_leading :: "string list \<Rightarrow> string \<Rightarrow> string" where
  "strip_leading ws s =
     (case find (\<lambda>w. w \<noteq> [] \<and> js_startsWith s w) ws of
        None \<Rightarrow> s
      | Some w \<Rightarrow> if w = [] \<or> length s < length w then s
                  else strip_leading ws (drop (length w) s))"
  by pat_completeness auto
termination
proof (relation "measure (\<lambda>(ws, s). length s)")
  show "wf (measure (\<lambda>(ws, s). length s))"
    by simp
next
  fix ws :: "string list" and s w :: string
  assume "\<not> (w = [] \<or> length s < length w)"
  then show "((ws, drop (length w) s), (ws, s)) \<in> measure (\<lambda>(ws, s). length s)"
    by (cases w) auto
qed

declare strip_leading.simps [simp del]

definition js_trim :: "string \<Rightarrow> string" where
  "js_trim s = rev (strip_leading (map rev white_space) (rev (strip_leading white_space s)))"

definition parse_exponent :: "string \<Rightarrow> int option" where
  "parse_exponent s =
     (case s of
        [] \<Rightarrow> Some 0
      | c # r \<Rightarrow>
          if c = CHR ''e'' \<or> c = CHR ''E'' then
            (case r of
               [] \<Rightarrow> None
             | d # r' \<Rightarrow>
                 if d = CHR ''+'' then
                   (if r' \<noteq> [] \<and> list_all is_digit r' then radix_val 10 0 r' else None)
                 else if d = CHR ''-'' then
                   (if r' \<noteq> [] \<and> list_all is_digit r'
                    then map_option uminus (radix_val 10 0 r') else None)
                 else
                   (if list_all is_digit r then radix_val 10 0 r else None))
          else None)"

definition unsigned_decimal :: "string \<Rightarrow> rat option" where
  "unsigned_decimal s =
     (let ip = takeWhile is_digit s; r1 = dropWhile is_digit s
      in case r1 of
           [] \<Rightarrow> if ip = [] then None else map_option of_int (radix_val 10 0 ip)
         | c # r \<Rightarrow>
             if c = CHR ''.'' then
               (let fp = takeWhile is_digit r; r2 = dropWhile is_digit r
                in if ip = [] \<and> fp = [] then None
                   else (case (radix_val 10 0 (ip @ fp), parse_exponent r2) of
                           (Some m, Some e) \<Rightarrow> Some (of_int m * pow10 (e - int (length fp)))
                         | _ \<Rightarrow> None))
             else if ip = [] then None
             else (case (radix_val 10 0 ip, parse_exponent r1) of
                     (Some m, Some e) \<Rightarrow> Some (of_int m * pow10 e)
                   | _ \<Rightarrow> None))"

definition non_decimal :: "string \<Rightarrow> int option" where
  "non_decimal s =
     (case s of
        z # c # ds \<Rightarrow>
          if z \<noteq> CHR ''0'' \<or> ds = [] then None
          else if c = CHR ''x'' \<or> c = CHR ''X'' then radix_val 16 0 ds
          else if c = CHR ''o'' \<or> c = CHR ''O'' then radix_val 8 0 ds
          else if c = CHR ''b'' \<or> c = CHR ''B'' then radix_val 2 0 ds
          else None
      | _ \<Rightarrow> None)"

definition signed_decimal :: "string \<Rightarrow> jsnum" where
  "signed_decimal s =
     (case s of
        [] \<Rightarrow> NaN
      | c # r \<Rightarrow>
          if c = CHR ''+'' then
            (if r = ''Infinity'' then PosInfinity
             else case unsigned_decimal r of None \<Rightarrow> NaN | Some q \<Rightarrow> number_of_rat q)
          else if c = CHR ''-'' then
            (if r = ''Infinity'' then NegInfinity
             else case unsigned_decimal r of None \<Rightarrow> NaN | Some q \<Rightarrow> negate (number_of_rat q))
          else
            (if s = ''Infinity'' then PosInfinity
             else case unsigned_decimal s of None \<Rightarrow> NaN | Some q \<Rightarrow> number_of_rat q))"

definition js_Number :: "string \<Rightarrow> jsnum" where
  "js_Number s =
     (let t = js_trim s
      in if t = [] then Finite 0
         else case non_decimal t of
                Some n \<Rightarrow> number_of_rat (of_int n)
              | None \<Rightarrow> signed_decimal t)"

subsection \<open>Converting a number to a string\<close>

text \<open>
  \<^verbatim>\<open>Number::toString\<close>: the shortest decimal digit string \<open>s\<close> with \<open>k\<close> digits and the
  exponent \<open>n\<close> such that \<open>s \<times> 10\<^sup>n\<^sup>-\<^sup>k\<close> rounds to the number (the closest such, then the
  even one), printed in positional notation when \<open>-6 < n \<le> 21\<close> and in exponent notation
  otherwise.
\<close>

definition digit_char :: "int \<Rightarrow> char" where
  "digit_char d = ''0123456789'' ! nat d"

function decimal :: "int \<Rightarrow> string" where
  "decimal n =
     (if n < 10 then [digit_char n] else decimal (n div 10) @ [digit_char (n mod 10)])"
  by pat_completeness auto
termination
  by (relation "measure nat") auto

declare decimal.simps [simp del]

definition decade :: "rat \<Rightarrow> int" where
  "decade x =
     (let (a, b) = quotient_of x;
          k = int (floorlog 10 (nat a)) - int (floorlog 10 (nat b))
      in if pow10 k \<le> x then k + 1 else k)"

definition candidates :: "rat \<Rightarrow> nat \<Rightarrow> (int \<times> int) list" where
  "candidates x k =
     concat (map (\<lambda>n.
       (let f = \<lfloor>x / pow10 (n - int k)\<rfloor>
        in filter (\<lambda>(n, s). 10 ^ (k - 1) \<le> s \<and> s < 10 ^ k
                            \<and> number_of_rat (of_int s * pow10 (n - int k)) = Finite x)
             [(n, f), (n, f + 1)]))
       [decade x, decade x + 1])"

definition distance :: "rat \<Rightarrow> nat \<Rightarrow> int \<times> int \<Rightarrow> rat" where
  "distance x k c = \<bar>of_int (snd c) * pow10 (fst c - int k) - x\<bar>"

fun closest :: "rat \<Rightarrow> nat \<Rightarrow> int \<times> int \<Rightarrow> (int \<times> int) list \<Rightarrow> int \<times> int" where
  "closest x k best [] = best"
| "closest x k best (c # cs) =
     (if distance x k c < distance x k best
         \<or> (distance x k c = distance x k best \<and> even (snd c) \<and> odd (snd best))
      then closest x k c cs else closest x k best cs)"

definition shortest :: "rat \<Rightarrow> int \<times> nat \<times> int" where
  "shortest x =
     (case find (\<lambda>k. candidates x k \<noteq> []) [1, 2, 3, 4, 5, 6, 7, 8, 9, 10, 11, 12, 13, 14, 15, 16, 17] of
        None \<Rightarrow> (decade x, 17, \<lfloor>x / pow10 (decade x - 17)\<rfloor>)
      | Some k \<Rightarrow>
          (case candidates x k of
             [] \<Rightarrow> (decade x, 17, \<lfloor>x / pow10 (decade x - 17)\<rfloor>)
           | c # cs \<Rightarrow> (let (n, s) = closest x k c cs in (n, k, s))))"

definition positive_to_string :: "rat \<Rightarrow> string" where
  "positive_to_string x =
     (let (n, k, s) = shortest x; ds = decimal s
      in if int k \<le> n \<and> n \<le> 21 then ds @ replicate (nat (n - int k)) (CHR ''0'')
         else if 0 < n \<and> n \<le> 21 then take (nat n) ds @ ''.'' @ drop (nat n) ds
         else if - 6 < n \<and> n \<le> 0 then ''0.'' @ replicate (nat (- n)) (CHR ''0'') @ ds
         else (let e = n - 1;
                   es = (if e < 0 then ''-'' else ''+'') @ decimal \<bar>e\<bar>
               in if k = 1 then ds @ ''e'' @ es
                  else take 1 ds @ ''.'' @ drop 1 ds @ ''e'' @ es))"

definition number_to_string :: "jsnum \<Rightarrow> string" where
  "number_to_string x =
     (case x of
        NaN \<Rightarrow> ''NaN''
      | PosInfinity \<Rightarrow> ''Infinity''
      | NegInfinity \<Rightarrow> ''-Infinity''
      | Finite v \<Rightarrow> if v = 0 then ''0''
                    else if v < 0 then ''-'' @ positive_to_string (- v)
                    else positive_to_string v)"

section \<open>Objects, properties and methods\<close>

text \<open>
  A property read \<^verbatim>\<open>obj.name\<close> looks at the object's own properties first and at its
  prototype chain after that.  An own property therefore hides a method of the same name
  that the class declares.  \<open>Method c m\<close> is the function \<open>m\<close> declared by class \<open>c\<close>;
  \<open>Opaque d\<close> is an object of a library that the model does not look into.
\<close>

datatype js_value = Undefined | Str string | Opaque string | Method string string

type_synonym js_object = "(string \<times> js_value) list"

fun truthy :: "js_value \<Rightarrow> bool" where
  "truthy Undefined = False"
| "truthy (Str s) = (s \<noteq> [])"
| "truthy (Opaque d) = True"
| "truthy (Method c m) = True"

definition or_else :: "js_value \<Rightarrow> js_value \<Rightarrow> js_value" where
  \<comment> \<open>\<^verbatim>\<open>a || b\<close>\<close>
  "or_else a b = (if truthy a then a else b)"

text \<open>
  A configuration object, as \<^verbatim>\<open>config/index.js\<close> builds it from the environment: the
  fields that are set are strings, a field that is not set reads as \<^verbatim>\<open>undefined\<close>.
\<close>

type_synonym js_config = "(string \<times> string) list"

definition field :: "js_config \<Rightarrow> string \<Rightarrow> js_value" where
  "field obj name = (case map_of obj name of Some v \<Rightarrow> Str v | None \<Rightarrow> Undefined)"

fun template :: "js_value \<Rightarrow> string" where
  \<comment> \<open>a value inside a template literal\<close>
  "template Undefined = ''undefined''"
| "template (Str s) = s"
| "template (Opaque d) = ''[object Object]''"
| "template (Method c m) = m"

text \<open>The names every plain object inherits from \<^verbatim>\<open>Object.prototype\<close>; all are truthy.\<close>

definition object_prototype_keys :: "string list" where
  "object_prototype_keys =
     [''constructor'', ''__defineGetter__'', ''__defineSetter__'', ''hasOwnProperty'',
      ''__lookupGetter__'', ''__lookupSetter__'', ''isPrototypeOf'',
      ''propertyIsEnumerable'', ''toString'', ''valueOf'', ''__proto__'',
      ''toLocaleString'']"

section \<open>Storage drivers (\<^verbatim>\<open>FilesystemAdapter.js\<close>)\<close>

datatype driver = LocalDriver | S3Driver | AzureDriver | GCSDriver

record driver_instance =
  cls :: driver
  own :: js_object

fun class_name :: "driver \<Rightarrow> string" where
  "class_name LocalDriver = ''LocalDriver''"
| "class_name S3Driver = ''S3Driver''"
| "class_name AzureDriver = ''AzureDriver''"
| "class_name GCSDriver = ''GCSDriver''"

fun prototype_methods :: "driver \<Rightarrow> string list" where
  "prototype_methods LocalDriver =
     [''ensureDirectory'', ''getFullPath'', ''exists'', ''get'', ''put'', ''delete'', ''copy'',
      ''size'', ''lastModified'', ''mimeType'', ''url'', ''temporaryUrl'']"
| "prototype_methods c =
     [''exists'', ''get'', ''put'', ''delete'', ''copy'', ''size'', ''lastModified'',
      ''mimeType'', ''url'', ''temporaryUrl'']"

definition get_property :: "driver_instance \<Rightarrow> string \<Rightarrow> js_value" where
  "get_property obj name =
     (case map_of (own obj) name of
        Some v \<Rightarrow> v
      | None \<Rightarrow> if name \<in> set (prototype_methods (cls obj))
                then Method (class_name (cls obj)) name else Undefined)"

definition resolve_method :: "driver_instance \<Rightarrow> string \<Rightarrow> string \<Rightarrow> js_error + unit" where
  \<comment> \<open>the check a call \<^verbatim>\<open>obj.name(...)\<close> makes before it runs the body; \<open>expr\<close> is the
      callee as the error message prints it\<close>
  "resolve_method obj name expr =
     (case get_property obj name of
        Method c m \<Rightarrow> Inr ()
      | _ \<Rightarrow> Inl (TypeError (expr @ '' is not a function'')))"

text \<open>
  What the code takes from its platform: the value of
  \<^verbatim>\<open>path.join(process.cwd(), 'storage')\<close>, whether an SDK builds its client from a
  configuration (\<open>None\<close>) or throws, and the URL the Azure SDK gives a blob.
\<close>

record platform =
  cwd_storage :: string
  sdk_init :: "driver \<Rightarrow> js_config \<Rightarrow> js_error option"
  blob_url :: "js_object \<Rightarrow> string \<Rightarrow> string"

subsection \<open>Constructors\<close>

definition new_LocalDriver :: "platform \<Rightarrow> js_config \<Rightarrow> js_error + driver_instance" where
  "new_LocalDriver pf config =
     Inr \<lparr>cls = LocalDriver,
          own = [(''root'', or_else (field config ''root'') (Str (cwd_storage pf))),
                 (''url'', or_else (field config ''url'') (Str ''/storage''))]\<rparr>"

definition new_S3Driver :: "platform \<Rightarrow> js_config \<Rightarrow> js_error + driver_instance" where
  "new_S3Driver pf config =
     (case sdk_init pf S3Driver config of
        Some e \<Rightarrow> Inl e
      | None \<Rightarrow>
          Inr \<lparr>cls = S3Driver,
               own = [(''bucket'', field config ''bucket''),
                      (''region'', or_else (field config ''region'') (Str ''us-east-1'')),
                      (''url'', field config ''url''),
                      (''client'', Opaque ''S3Client'')]\<rparr>)"

definition new_AzureDriver :: "platform \<Rightarrow> js_config \<Rightarrow> js_error + driver_instance" where
  "new_AzureDriver pf config =
     (case sdk_init pf AzureDriver config of
        Some e \<Rightarrow> Inl e
      | None \<Rightarrow>
          Inr \<lparr>cls = AzureDriver,
               own = [(''containerName'', or_else (field config ''container'') (Str ''files'')),
                      (''connectionString'', field config ''connectionString''),
                      (''url'', field config ''url''),
                      (''client'', Opaque ''BlobServiceClient''),
                      (''containerClient'', Opaque ''ContainerClient'')]\<rparr>)"

definition new_GCSDriver :: "platform \<Rightarrow> js_config \<Rightarrow> js_error + driver_instance" where
  "new_GCSDriver pf config =
     (case sdk_init pf GCSDriver config of
        Some e \<Rightarrow> Inl e
      | None \<Rightarrow>
          Inr \<lparr>cls = GCSDriver,
               own = [(''bucketName'', field config ''bucket''),
                      (''projectId'', field config ''projectId''),
                      (''keyFilename'', field config ''keyFilename''),
                      (''url'', field config ''url''),
                      (''storage'', Opaque ''Storage''),
                      (''bucket'', Opaque ''Bucket'')]\<rparr>)"

record adapter =
  driver_name :: string
  config :: js_config
  client :: driver_instance

definition new_FilesystemAdapter ::
  "platform \<Rightarrow> string option \<Rightarrow> js_config option \<Rightarrow> js_error + adapter" where
  \<comment> \<open>\<^verbatim>\<open>constructor(driver = 'local', config = {})\<close> and \<^verbatim>\<open>initializeDriver\<close>\<close>
  "new_FilesystemAdapter pf driver_arg config_arg =
     (let d = (case driver_arg of None \<Rightarrow> ''local'' | Some d \<Rightarrow> d);
          c = (case config_arg of None \<Rightarrow> [] | Some c \<Rightarrow> c);
          made = (if d = ''local'' then new_LocalDriver pf c
                  else if d = ''s3'' then new_S3Driver pf c
                  else if d = ''azure'' then new_AzureDriver pf c
                  else if d = ''gcs'' then new_GCSDriver pf c
                  else Inl (Error (''Unsupported storage driver: '' @ d)))
      in case made of
           Inl e \<Rightarrow> Inl e
         | Inr i \<Rightarrow> Inr \<lparr>driver_name = d, config = c, client = i\<rparr>)"

subsection \<open>\<^verbatim>\<open>url\<close> and \<^verbatim>\<open>temporaryUrl\<close>\<close>

definition url_body :: "platform \<Rightarrow> driver_instance \<Rightarrow> string \<Rightarrow> string" where
  \<comment> \<open>the bodies of the four \<^verbatim>\<open>url(filePath)\<close> methods\<close>
  "url_body pf this filePath =
     (case cls this of
        LocalDriver \<Rightarrow> template (get_property this ''url'') @ ''/'' @ filePath
      | S3Driver \<Rightarrow>
          if truthy (get_property this ''url'')
          then template (get_property this ''url'') @ ''/'' @ filePath
          else ''https://'' @ template (get_property this ''bucket'') @ ''.s3.''
               @ template (get_property this ''region'') @ ''.amazonaws.com/'' @ filePath
      | AzureDriver \<Rightarrow>
          if truthy (get_property this ''url'')
          then template (get_property this ''url'') @ ''/'' @ filePath
          else blob_url pf (own this) filePath
      | GCSDriver \<Rightarrow>
          if truthy (get_property this ''url'')
          then template (get_property this ''url'') @ ''/'' @ filePath
          else ''https://storage.googleapis.com/''
               @ template (get_property this ''bucketName'') @ ''/'' @ filePath)"

definition call_url :: "platform \<Rightarrow> driver_instance \<Rightarrow> string \<Rightarrow> string \<Rightarrow> js_error + string" where
  \<comment> \<open>the call \<^verbatim>\<open>obj.url(filePath)\<close>, written \<open>expr\<close> in the source\<close>
  "call_url pf obj expr filePath =
     (case resolve_method obj ''url'' expr of
        Inl e \<Rightarrow> Inl e
      | Inr u \<Rightarrow> Inr (url_body pf obj filePath))"

definition FilesystemAdapter_url :: "platform \<Rightarrow> adapter \<Rightarrow> string \<Rightarrow> js_error + string" where
  \<comment> \<open>\<^verbatim>\<open>return this.client.url(filePath)\<close>\<close>
  "FilesystemAdapter_url pf a filePath = call_url pf (client a) ''this.client.url'' filePath"

definition LocalDriver_temporaryUrl :: "platform \<Rightarrow> driver_instance \<Rightarrow> string \<Rightarrow> js_error + string" where
  \<comment> \<open>\<^verbatim>\<open>return this.url(filePath)\<close>\<close>
  "LocalDriver_temporaryUrl pf this filePath = call_url pf this ''this.url'' filePath"

subsection \<open>What a backend holds\<close>

text \<open>
  A backend (a directory tree under the local root, a bucket, a container) is a map from
  the path the driver is given to the bytes stored there.  Every call into \<^verbatim>\<open>fs\<close> or
  into an SDK either fails with the error \<open>fault\<close> names for it (a permission, network or
  credential failure) or takes effect on the map.  A state-changing operation returns its
  result and the store, so that the effect of a call that threw later is still visible.

  A copy inside an Azure container is made by the service on its own time:
  \<^verbatim>\<open>beginCopyFromURL\<close> resolves once the service has accepted the request, and the code
  does not wait for the poller it gets.  \<open>lag\<close> says for which copies the service is still
  at work when the call resolves; such a copy is kept in \<open>started\<close> and the destination
  is not written.
\<close>

datatype call =
    Probe string              \<comment> \<open>\<^verbatim>\<open>fs.access\<close>, HeadObject, \<^verbatim>\<open>getProperties\<close>, \<^verbatim>\<open>file.exists\<close>\<close>
  | Remove string             \<comment> \<open>\<^verbatim>\<open>fs.unlink\<close>, DeleteObject, \<^verbatim>\<open>blobClient.delete\<close>, \<^verbatim>\<open>file.delete\<close>\<close>
  | Duplicate string string   \<comment> \<open>\<^verbatim>\<open>fs.copyFile\<close>, \<^verbatim>\<open>beginCopyFromURL\<close>, \<^verbatim>\<open>file.copy\<close>\<close>
  | Put string                \<comment> \<open>\<^verbatim>\<open>fs.writeFile\<close>, PutObject, \<^verbatim>\<open>upload\<close>, \<^verbatim>\<open>file.save\<close>\<close>
  | MakeDir string            \<comment> \<open>\<^verbatim>\<open>fs.mkdir\<close> for the directory of a path\<close>

record store =
  objects :: "string \<rightharpoonup> buffer"
  fault :: "call \<Rightarrow> js_error option"
  lag :: "string \<Rightarrow> string \<Rightarrow> bool"
  started :: "(string \<times> string) list"

fun code :: "js_error \<Rightarrow> string option" where
  \<comment> \<open>\<^verbatim>\<open>error.code\<close>\<close>
  "code (SystemError c m) = Some c"
| "code (TypeError m) = None"
| "code (Error m) = None"

definition fs_access :: "store \<Rightarrow> string \<Rightarrow> js_error + unit" where
  "fs_access st p =
     (case fault st (Probe p) of
        Some e \<Rightarrow> Inl e
      | None \<Rightarrow> if objects st p = None then Inl (ENOENT) else Inr ())"

definition fs_unlink :: "store \<Rightarrow> string \<Rightarrow> (js_error + unit) \<times> store" where
  "fs_unlink st p =
     (case fault st (Remove p) of
        Some e \<Rightarrow> (Inl e, st)
      | None \<Rightarrow> if objects st p = None then (Inl (ENOENT), st)
                else (Inr (), st\<lparr>objects := (objects st)(p := None)\<rparr>))"

definition fs_mkdir :: "store \<Rightarrow> string \<Rightarrow> js_error + unit" where
  \<comment> \<open>\<^verbatim>\<open>fs.mkdir(dir, {recursive: true})\<close>: no error when the directory is there\<close>
  "fs_mkdir st p = (case fault st (MakeDir p) of Some e \<Rightarrow> Inl e | None \<Rightarrow> Inr ())"

definition fs_copyFile :: "store \<Rightarrow> string \<Rightarrow> string \<Rightarrow> (js_error + unit) \<times> store" where
  "fs_copyFile st from to =
     (case fault st (Duplicate from to) of
        Some e \<Rightarrow> (Inl e, st)
      | None \<Rightarrow>
          (case objects st from of
             None \<Rightarrow> (Inl (ENOENT), st)
           | Some b \<Rightarrow> (Inr (), st\<lparr>objects := (objects st)(to \<mapsto> b)\<rparr>)))"

definition fs_writeFile :: "store \<Rightarrow> string \<Rightarrow> buffer \<Rightarrow> (js_error + unit) \<times> store" where
  "fs_writeFile st p b =
     (case fault st (Put p) of
        Some e \<Rightarrow> (Inl e, st)
      | None \<Rightarrow> (Inr (), st\<lparr>objects := (objects st)(p \<mapsto> b)\<rparr>))"

text \<open>
  The SDK calls.  A metadata probe of an absent object is an error of the service.  The
  removal of an absent object is left to \<open>fault\<close>: a service that rejects it is a \<open>fault\<close>
  that says so, and without one the call returns normally, as DeleteObject does.
\<close>

definition sdk_head :: "store \<Rightarrow> string \<Rightarrow> js_error + unit" where
  "sdk_head st p =
     (case fault st (Probe p) of
        Some e \<Rightarrow> Inl e
      | None \<Rightarrow> if objects st p = None then Inl (Error ''NotFound'') else Inr ())"

definition sdk_exists :: "store \<Rightarrow> string \<Rightarrow> js_error + bool" where
  \<comment> \<open>\<^verbatim>\<open>file.exists()\<close> of the GCS SDK answers with a boolean\<close>
  "sdk_exists st p =
     (case fault st (Probe p) of
        Some e \<Rightarrow> Inl e
      | None \<Rightarrow> Inr (objects st p \<noteq> None))"

definition sdk_delete :: "store \<Rightarrow> string \<Rightarrow> (js_error + unit) \<times> store" where
  "sdk_delete st p =
     (case fault st (Remove p) of
        Some e \<Rightarrow> (Inl e, st)
      | None \<Rightarrow> (Inr (), st\<lparr>objects := (objects st)(p := None)\<rparr>))"

definition sdk_copy :: "store \<Rightarrow> string \<Rightarrow> string \<Rightarrow> (js_error + unit) \<times> store" where
  \<comment> \<open>\<^verbatim>\<open>await sourceFile.copy(destFile)\<close> of the GCS SDK resolves when the copy is made\<close>
  "sdk_copy st from to =
     (case fault st (Duplicate from to) of
        Some e \<Rightarrow> (Inl e, st)
      | None \<Rightarrow>
          (case objects st from of
             None \<Rightarrow> (Inl (Error ''NotFound''), st)
           | Some b \<Rightarrow> (Inr (), st\<lparr>objects := (objects st)(to \<mapsto> b)\<rparr>)))"

definition sdk_put :: "store \<Rightarrow> string \<Rightarrow> buffer \<Rightarrow> (js_error + unit) \<times> store" where
  "sdk_put st p b =
     (case fault st (Put p) of
        Some e \<Rightarrow> (Inl e, st)
      | None \<Rightarrow> (Inr (), st\<lparr>objects := (objects st)(p \<mapsto> b)\<rparr>))"

definition sdk_begin_copy :: "store \<Rightarrow> string \<Rightarrow> string \<Rightarrow> (js_error + unit) \<times> store" where
  \<comment> \<open>\<^verbatim>\<open>await destBlob.beginCopyFromURL(sourceBlob.url)\<close>: the service looks the source up
      when it accepts the request\<close>
  "sdk_begin_copy st from to =
     (case fault st (Duplicate from to) of
        Some e \<Rightarrow> (Inl e, st)
      | None \<Rightarrow>
          (case objects st from of
             None \<Rightarrow> (Inl (Error ''BlobNotFound''), st)
           | Some b \<Rightarrow>
               if lag st from to then (Inr (), st\<lparr>started := (from, to) # started st\<rparr>)
               else (Inr (), st\<lparr>objects := (objects st)(to \<mapsto> b)\<rparr>)))"

subsection \<open>\<^verbatim>\<open>LocalDriver\<close>\<close>

definition ensureDirectory :: "store \<Rightarrow> string \<Rightarrow> js_error + unit" where
  "ensureDirectory st dirPath =
     (case fs_mkdir st dirPath of
        Inr u \<Rightarrow> Inr ()
      | Inl e \<Rightarrow> if code e \<noteq> Some ''EEXIST'' then Inl e else Inr ())"

definition LocalDriver_exists :: "store \<Rightarrow> string \<Rightarrow> js_error + bool" where
  "LocalDriver_exists st filePath =
     (case fs_access st filePath of
        Inr u \<Rightarrow> Inr True
      | Inl e \<Rightarrow> Inr False)"

definition LocalDriver_delete :: "store \<Rightarrow> string \<Rightarrow> (js_error + bool) \<times> store" where
  "LocalDriver_delete st filePath =
     (case fs_unlink st filePath of
        (Inr u, st') \<Rightarrow> (Inr True, st')
      | (Inl e, st') \<Rightarrow> if code e = Some ''ENOENT'' then (Inr False, st') else (Inl e, st'))"

definition LocalDriver_copy :: "store \<Rightarrow> string \<Rightarrow> string \<Rightarrow> (js_error + bool) \<times> store" where
  "LocalDriver_copy st from to =
     (case ensureDirectory st to of
        Inl e \<Rightarrow> (Inl e, st)
      | Inr u \<Rightarrow>
          (case fs_copyFile st from to of
             (Inl e, st') \<Rightarrow> (Inl e, st')
           | (Inr u, st') \<Rightarrow> (Inr True, st')))"

definition LocalDriver_put :: "store \<Rightarrow> string \<Rightarrow> buffer \<Rightarrow> (js_error + bool) \<times> store" where
  "LocalDriver_put st filePath contents =
     (case ensureDirectory st filePath of
        Inl e \<Rightarrow> (Inl e, st)
      | Inr u \<Rightarrow>
          (case fs_writeFile st filePath contents of
             (Inl e, st') \<Rightarrow> (Inl e, st')
           | (Inr u, st') \<Rightarrow> (Inr True, st')))"

subsection \<open>\<^verbatim>\<open>S3Driver\<close>\<close>

definition S3Driver_exists :: "store \<Rightarrow> string \<Rightarrow> js_error + bool" where
  "S3Driver_exists st filePath =
     (case sdk_head st filePath of
        Inr u \<Rightarrow> Inr True
      | Inl e \<Rightarrow> Inr False)"

definition S3Driver_delete :: "store \<Rightarrow> string \<Rightarrow> (js_error + bool) \<times> store" where
  "S3Driver_delete st filePath =
     (case sdk_delete st filePath of
        (Inr u, st') \<Rightarrow> (Inr True, st')
      | (Inl e, st') \<Rightarrow> (Inr False, st'))"

definition S3Driver_copy :: "store \<Rightarrow> string \<Rightarrow> string \<Rightarrow> (js_error + bool) \<times> store" where
  \<comment> \<open>the command is \<^verbatim>\<open>PutObjectCommand({Bucket, Key: to, CopySource})\<close>, with no \<^verbatim>\<open>Body\<close>:
      a PutObject of no bytes under \<^verbatim>\<open>to\<close>; the object under \<^verbatim>\<open>from\<close> is not read\<close>
  "S3Driver_copy st from to =
     (case sdk_put st to [] of
        (Inl e, st') \<Rightarrow> (Inl e, st')
      | (Inr u, st') \<Rightarrow> (Inr True, st'))"

definition S3Driver_put :: "store \<Rightarrow> string \<Rightarrow> buffer \<Rightarrow> (js_error + bool) \<times> store" where
  "S3Driver_put st filePath contents =
     (case sdk_put st filePath contents of
        (Inl e, st') \<Rightarrow> (Inl e, st')
      | (Inr u, st') \<Rightarrow> (Inr True, st'))"

subsection \<open>\<^verbatim>\<open>AzureDriver\<close>\<close>

definition AzureDriver_exists :: "store \<Rightarrow> string \<Rightarrow> js_error + bool" where
  "AzureDriver_exists st filePath =
     (case sdk_head st filePath of
        Inr u \<Rightarrow> Inr True
      | Inl e \<Rightarrow> Inr False)"

definition AzureDriver_delete :: "store \<Rightarrow> string \<Rightarrow> (js_error + bool) \<times> store" where
  "AzureDriver_delete st filePath =
     (case sdk_delete st filePath of
        (Inr u, st') \<Rightarrow> (Inr True, st')
      | (Inl e, st') \<Rightarrow> (Inr False, st'))"

definition AzureDriver_copy :: "store \<Rightarrow> string \<Rightarrow> string \<Rightarrow> (js_error + bool) \<times> store" where
  "AzureDriver_copy st from to =
     (case sdk_begin_copy st from to of
        (Inl e, st') \<Rightarrow> (Inl e, st')
      | (Inr u, st') \<Rightarrow> (Inr True, st'))"

definition AzureDriver_put :: "store \<Rightarrow> string \<Rightarrow> buffer \<Rightarrow> (js_error + bool) \<times> store" where
  "AzureDriver_put st filePath contents =
     (case sdk_put st filePath contents of
        (Inl e, st') \<Rightarrow> (Inl e, st')
      | (Inr u, st') \<Rightarrow> (Inr True, st'))"

subsection \<open>\<^verbatim>\<open>GCSDriver\<close>\<close>

definition GCSDriver_exists :: "store \<Rightarrow> string \<Rightarrow> js_error + bool" where
  \<comment> \<open>no \<^verbatim>\<open>try\<close> here: \<^verbatim>\<open>const [exists] = await file.exists(); return exists\<close>\<close>
  "GCSDriver_exists st filePath = sdk_exists st filePath"

definition GCSDriver_delete :: "store \<Rightarrow> string \<Rightarrow> (js_error + bool) \<times> store" where
  "GCSDriver_delete st filePath =
     (case sdk_delete st filePath of
        (Inr u, st') \<Rightarrow> (Inr True, st')
      | (Inl e, st') \<Rightarrow> (Inr False, st'))"

definition GCSDriver_copy :: "store \<Rightarrow> string \<Rightarrow> string \<Rightarrow> (js_error + bool) \<times> store" where
  "GCSDriver_copy st from to =
     (case sdk_copy st from to of
        (Inl e, st') \<Rightarrow> (Inl e, st')
      | (Inr u, st') \<Rightarrow> (Inr True, st'))"

definition GCSDriver_put :: "store \<Rightarrow> string \<Rightarrow> buffer \<Rightarrow> (js_error + bool) \<times> store" where
  "GCSDriver_put st filePath contents =
     (case sdk_put st filePath contents of
        (Inl e, st') \<Rightarrow> (Inl e, st')
      | (Inr u, st') \<Rightarrow> (Inr True, st'))"

subsection \<open>\<^verbatim>\<open>FilesystemAdapter\<close>: every method forwards to \<^verbatim>\<open>this.client\<close>\<close>

definition FilesystemAdapter_exists :: "adapter \<Rightarrow> store \<Rightarrow> string \<Rightarrow> js_error + bool" where
  "FilesystemAdapter_exists a st filePath =
     (case resolve_method (client a) ''exists'' ''this.client.exists'' of
        Inl e \<Rightarrow> Inl e
      | Inr u \<Rightarrow>
          (case cls (client a) of
             LocalDriver \<Rightarrow> LocalDriver_exists st filePath
           | S3Driver \<Rightarrow> S3Driver_exists st filePath
           | AzureDriver \<Rightarrow> AzureDriver_exists st filePath
           | GCSDriver \<Rightarrow> GCSDriver_exists st filePath))"

definition FilesystemAdapter_delete ::
  "adapter \<Rightarrow> store \<Rightarrow> string \<Rightarrow> (js_error + bool) \<times> store" where
  "FilesystemAdapter_delete a st filePath =
     (case resolve_method (client a) ''delete'' ''this.client.delete'' of
        Inl e \<Rightarrow> (Inl e, st)
      | Inr u \<Rightarrow>
          (case cls (client a) of
             LocalDriver \<Rightarrow> LocalDriver_delete st filePath
           | S3Driver \<Rightarrow> S3Driver_delete st filePath
           | AzureDriver \<Rightarrow> AzureDriver_delete st filePath
           | GCSDriver \<Rightarrow> GCSDriver_delete st filePath))"

definition FilesystemAdapter_copy ::
  "adapter \<Rightarrow> store \<Rightarrow> string \<Rightarrow> string \<Rightarrow> (js_error + bool) \<times> store" where
  "FilesystemAdapter_copy a st from to =
     (case resolve_method (client a) ''copy'' ''this.client.copy'' of
        Inl e \<Rightarrow> (Inl e, st)
      | Inr u \<Rightarrow>
          (case cls (client a) of
             LocalDriver \<Rightarrow> LocalDriver_copy st from to
           | S3Driver \<Rightarrow> S3Driver_copy st from to
           | AzureDriver \<Rightarrow> AzureDriver_copy st from to
           | GCSDriver \<Rightarrow> GCSDriver_copy st from to))"

definition FilesystemAdapter_put ::
  "adapter \<Rightarrow> store \<Rightarrow> string \<Rightarrow> buffer \<Rightarrow> (js_error + bool) \<times> store" where
  "FilesystemAdapter_put a st filePath contents =
     (case resolve_method (client a) ''put'' ''this.client.put'' of
        Inl e \<Rightarrow> (Inl e, st)
      | Inr u \<Rightarrow>
          (case cls (client a) of
             LocalDriver \<Rightarrow> LocalDriver_put st filePath contents
           | S3Driver \<Rightarrow> S3Driver_put st filePath contents
           | AzureDriver \<Rightarrow> AzureDriver_put st filePath contents
           | GCSDriver \<Rightarrow> GCSDriver_put st filePath contents))"

definition FilesystemAdapter_move ::
  "adapter \<Rightarrow> store \<Rightarrow> string \<Rightarrow> string \<Rightarrow> (js_error + bool) \<times> store" where
  \<comment> \<open>\<^verbatim>\<open>await this.copy(from, to); await this.delete(from); return true;\<close>\<close>
  "FilesystemAdapter_move a st from to =
     (case FilesystemAdapter_copy a st from to of
        (Inl e, st1) \<Rightarrow> (Inl e, st1)
      | (Inr copied, st1) \<Rightarrow>
          (case FilesystemAdapter_delete a st1 from of
             (Inl e, st2) \<Rightarrow> (Inl e, st2)
           | (Inr deleted, st2) \<Rightarrow> (Inr True, st2)))"

section \<open>The disk registry (\<^verbatim>\<open>StorageManager.js\<close>)\<close>

record disk_config =
  dc_driver :: "string option"        \<comment> \<open>\<^verbatim>\<open>diskConfig.driver\<close>\<close>
  dc_config :: "js_config option"     \<comment> \<open>\<^verbatim>\<open>diskConfig.config\<close>\<close>

record storage_config =
  sc_default :: "string option"                      \<comment> \<open>\<^verbatim>\<open>config.storage.default\<close>\<close>
  sc_local :: "js_config option"                     \<comment> \<open>\<^verbatim>\<open>config.storage.local\<close>\<close>
  sc_disks :: "(string \<times> disk_config) list option"  \<comment> \<open>\<^verbatim>\<open>config.storage.disks\<close>\<close>

definition config_default :: "storage_config option \<Rightarrow> string" where
  \<comment> \<open>\<^verbatim>\<open>config.storage?.default || 'local'\<close>\<close>
  "config_default cfg =
     (case cfg of
        None \<Rightarrow> ''local''
      | Some sc \<Rightarrow> (case sc_default sc of
                     None \<Rightarrow> ''local''
                   | Some d \<Rightarrow> if d = [] then ''local'' else d))"

definition config_local :: "storage_config option \<Rightarrow> string \<Rightarrow> string \<Rightarrow> string" where
  \<comment> \<open>\<^verbatim>\<open>config.storage?.local?.root || 'storage'\<close> and the same for \<^verbatim>\<open>url\<close>\<close>
  "config_local cfg name dflt =
     (case cfg of
        None \<Rightarrow> dflt
      | Some sc \<Rightarrow>
          (case sc_local sc of
             None \<Rightarrow> dflt
           | Some l \<Rightarrow> (case map_of l name of
                          None \<Rightarrow> dflt
                        | Some v \<Rightarrow> if v = [] then dflt else v)))"

record manager =
  disks :: "(string \<times> adapter) list"
  defaultDisk :: string

text \<open>
  \<^verbatim>\<open>this.disks\<close> is a plain object: \<^verbatim>\<open>this.disks[name]\<close> is the adapter registered under
  the name and otherwise what \<^verbatim>\<open>Object.prototype\<close> has under it, which is no adapter.
\<close>

datatype disk_ref = Disk adapter | Inherited string

definition lookup_disk :: "(string \<times> adapter) list \<Rightarrow> string \<Rightarrow> disk_ref option" where
  "lookup_disk ds name =
     (case map_of ds name of
        Some a \<Rightarrow> Some (Disk a)
      | None \<Rightarrow> if name \<in> set object_prototype_keys then Some (Inherited name) else None)"

fun register_disks ::
  "platform \<Rightarrow> (string \<times> disk_config) list \<Rightarrow> (string \<times> adapter) list
     \<Rightarrow> js_error + (string \<times> adapter) list" where
  "register_disks pf [] acc = Inr acc"
| "register_disks pf ((name, dc) # rest) acc =
     (case new_FilesystemAdapter pf (dc_driver dc) (dc_config dc) of
        Inl e \<Rightarrow> Inl e
      | Inr a \<Rightarrow> register_disks pf rest ((name, a) # acc))"

definition initializeDisks ::
  "platform \<Rightarrow> storage_config option \<Rightarrow> string \<Rightarrow> js_error + (string \<times> adapter) list" where
  "initializeDisks pf cfg dflt =
     (let configured = (case cfg of
                          None \<Rightarrow> []
                        | Some sc \<Rightarrow> (case sc_disks sc of None \<Rightarrow> [] | Some ds \<Rightarrow> ds))
      in case register_disks pf configured [] of
           Inl e \<Rightarrow> Inl e
         | Inr ds \<Rightarrow>
             if lookup_disk ds dflt = None then
               (case new_FilesystemAdapter pf (Some ''local'')
                       (Some [(''root'', config_local cfg ''root'' ''storage''),
                              (''url'', config_local cfg ''url'' ''/storage'')]) of
                  Inl e \<Rightarrow> Inl e
                | Inr a \<Rightarrow> Inr ((dflt, a) # ds))
             else Inr ds)"

definition new_StorageManager :: "platform \<Rightarrow> storage_config option \<Rightarrow> js_error + manager" where
  "new_StorageManager pf cfg =
     (case initializeDisks pf cfg (config_default cfg) of
        Inl e \<Rightarrow> Inl e
      | Inr ds \<Rightarrow> Inr \<lparr>disks = ds, defaultDisk = config_default cfg\<rparr>)"

definition disk :: "manager \<Rightarrow> string option \<Rightarrow> js_error + disk_ref" where
  \<comment> \<open>\<^verbatim>\<open>disk(name = null)\<close>\<close>
  "disk m name =
     (let diskName = (case name of
                        None \<Rightarrow> defaultDisk m
                      | Some n \<Rightarrow> if n = [] then defaultDisk m else n)
      in case lookup_disk (disks m) diskName of
           None \<Rightarrow> Inl (Error (''Storage disk '' @ [CHR 0x22] @ diskName @ [CHR 0x22]
                               @ '' is not configured''))
         | Some d \<Rightarrow> Inr d)"

subsection \<open>The configuration the registry is built from (\<^verbatim>\<open>config/index.js\<close>)\<close>

text \<open>
  \<^verbatim>\<open>process.env\<close>, after \<^verbatim>\<open>dotenv\<close> has filled it, is a map from names to strings.  The
  loader validates it against a Joi schema and builds the configuration from the validated
  values.  Of the schema the model has the keys the storage section reads, in the order
  of the schema, each with its default; all of them are \<^verbatim>\<open>Joi.string()\<close>, which refuses
  the empty string.  The other keys of the schema are taken to pass.
\<close>

type_synonym environment = "string \<rightharpoonup> string"

definition joi_strings :: "(string \<times> string option) list" where
  "joi_strings =
     [(''AWS_ACCESS_KEY_ID'', None),
      (''AWS_SECRET_ACCESS_KEY'', None),
      (''STORAGE_DEFAULT'', Some ''local''),
      (''STORAGE_LOCAL_ROOT'', Some ''storage''),
      (''STORAGE_LOCAL_URL'', Some ''/storage''),
      (''STORAGE_S3_BUCKET'', None),
      (''STORAGE_S3_REGION'', Some ''us-east-1''),
      (''STORAGE_S3_URL'', None),
      (''STORAGE_AZURE_CONTAINER'', Some ''files''),
      (''STORAGE_AZURE_CONNECTION_STRING'', None),
      (''STORAGE_AZURE_URL'', None),
      (''STORAGE_GCS_BUCKET'', None),
      (''STORAGE_GCS_PROJECT_ID'', None),
      (''STORAGE_GCS_KEY_FILENAME'', None),
      (''STORAGE_GCS_URL'', None)]"

definition validate :: "environment \<Rightarrow> js_error + environment" where
  \<comment> \<open>\<^verbatim>\<open>envVarsSchema.validate(process.env)\<close> and the \<^verbatim>\<open>throw\<close> on its error; the result is
      \<^verbatim>\<open>envVars\<close>, the environment with the defaults filled in\<close>
  "validate env =
     (case find (\<lambda>(key, dflt). env key = Some []) joi_strings of
        Some (key, dflt) \<Rightarrow>
          Inl (Error (''Config validation error: '' @ [CHR 0x22] @ key @ [CHR 0x22]
                      @ '' is not allowed to be empty''))
      | None \<Rightarrow>
          Inr (\<lambda>key. case env key of
                       Some v \<Rightarrow> Some v
                     | None \<Rightarrow> (case map_of joi_strings key of
                                  Some dflt \<Rightarrow> dflt
                                | None \<Rightarrow> None)))"

definition env_set :: "environment \<Rightarrow> string \<Rightarrow> bool" where
  \<comment> \<open>\<^verbatim>\<open>envVars.KEY\<close> as a condition\<close>
  "env_set vars key = (case vars key of None \<Rightarrow> False | Some v \<Rightarrow> v \<noteq> [])"

definition config_field :: "environment \<Rightarrow> string \<Rightarrow> string \<Rightarrow> js_config" where
  \<comment> \<open>the field \<^verbatim>\<open>name: envVars.KEY\<close>; a field that holds \<^verbatim>\<open>undefined\<close> reads like a field
      that is not there\<close>
  "config_field vars name key = (case vars key of None \<Rightarrow> [] | Some v \<Rightarrow> [(name, v)])"

definition storage_section :: "environment \<Rightarrow> storage_config" where
  \<comment> \<open>the \<^verbatim>\<open>storage\<close> field of \<^verbatim>\<open>module.exports\<close>; the two fields of \<^verbatim>\<open>credentials\<close>, which
      only the S3 client gets, are written with dotted names\<close>
  "storage_section vars =
     \<lparr>sc_default = vars ''STORAGE_DEFAULT'',
      sc_local = Some (config_field vars ''root'' ''STORAGE_LOCAL_ROOT''
                       @ config_field vars ''url'' ''STORAGE_LOCAL_URL''),
      sc_disks = Some
        ([(''local'',
           \<lparr>dc_driver = Some ''local'',
            dc_config = Some (config_field vars ''root'' ''STORAGE_LOCAL_ROOT''
                              @ config_field vars ''url'' ''STORAGE_LOCAL_URL'')\<rparr>)]
         @ (if env_set vars ''STORAGE_S3_BUCKET'' then
              [(''s3'',
                \<lparr>dc_driver = Some ''s3'',
                 dc_config = Some
                   (config_field vars ''bucket'' ''STORAGE_S3_BUCKET''
                    @ config_field vars ''region'' ''STORAGE_S3_REGION''
                    @ config_field vars ''url'' ''STORAGE_S3_URL''
                    @ (if env_set vars ''AWS_ACCESS_KEY_ID''
                          \<and> env_set vars ''AWS_SECRET_ACCESS_KEY''
                       then config_field vars ''credentials.key'' ''AWS_ACCESS_KEY_ID''
                            @ config_field vars ''credentials.secret'' ''AWS_SECRET_ACCESS_KEY''
                       else []))\<rparr>)]
            else [])
         @ (if env_set vars ''STORAGE_AZURE_CONNECTION_STRING'' then
              [(''azure'',
                \<lparr>dc_driver = Some ''azure'',
                 dc_config = Some
                   (config_field vars ''container'' ''STORAGE_AZURE_CONTAINER''
                    @ config_field vars ''connectionString'' ''STORAGE_AZURE_CONNECTION_STRING''
                    @ config_field vars ''url'' ''STORAGE_AZURE_URL'')\<rparr>)]
            else [])
         @ (if env_set vars ''STORAGE_GCS_BUCKET'' then
              [(''gcs'',
                \<lparr>dc_driver = Some ''gcs'',
                 dc_config = Some
                   (config_field vars ''bucket'' ''STORAGE_GCS_BUCKET''
                    @ config_field vars ''projectId'' ''STORAGE_GCS_PROJECT_ID''
                    @ config_field vars ''keyFilename'' ''STORAGE_GCS_KEY_FILENAME''
                    @ config_field vars ''url'' ''STORAGE_GCS_URL'')\<rparr>)]
            else []))\<rparr>"

definition load_storage :: "environment \<Rightarrow> js_error + storage_config" where
  \<comment> \<open>\<^verbatim>\<open>require('../config').storage\<close>\<close>
  "load_storage env =
     (case validate env of
        Inl e \<Rightarrow> Inl e
      | Inr vars \<Rightarrow> Inr (storage_section vars))"

definition storage_singleton :: "platform \<Rightarrow> environment \<Rightarrow> js_error + manager" where
  \<comment> \<open>\<^verbatim>\<open>module.exports = new StorageManager()\<close>, the only registry the service has\<close>
  "storage_singleton pf env =
     (case load_storage env of
        Inl e \<Rightarrow> Inl e
      | Inr cfg \<Rightarrow> new_StorageManager pf (Some cfg))"

section \<open>The request handlers (\<^verbatim>\<open>index.js\<close>)\<close>

subsection \<open>The state the handlers work on\<close>

text \<open>
  \<^verbatim>\<open>UPLOAD_DIR\<close> and \<^verbatim>\<open>CACHE_DIR\<close> are flat directories: a list of entries, name and
  content, in the order \<^verbatim>\<open>fs.readdir\<close> lists them.  An entry name contains no slash, so
  \<^verbatim>\<open>path.join(dir, name)\<close> names the entry \<open>name\<close> of \<open>dir\<close>.  The two directories are
  distinct from the roots of the storage backends.  The backends are kept by location, so
  that two disks on one bucket share their content.  \<open>fs_fault\<close> names the \<^verbatim>\<open>fs\<close> calls
  that fail, and \<open>sharp\<close> is the image library: the bytes it renders from an original for
  a width, a height and an encoder, or the error it throws (an undecodable original, a
  dimension it rejects).
\<close>

datatype dir = UPLOAD_DIR | CACHE_DIR

datatype fs_call = Readdir dir | Access dir string | WriteFile dir string | Unlink dir string

datatype encoder = Jpeg nat | Png nat | Webp nat | Gif

type_synonym dim = "jsnum option"   \<comment> \<open>\<open>None\<close> is \<^verbatim>\<open>undefined\<close>\<close>

type_synonym location = "driver \<times> js_value list"

record world =
  uploads :: "(string \<times> buffer) list"
  cache :: "(string \<times> buffer) list"
  stores :: "location \<Rightarrow> store"
  fs_fault :: "fs_call \<Rightarrow> js_error option"
  sharp :: "buffer \<Rightarrow> dim \<Rightarrow> dim \<Rightarrow> encoder option \<Rightarrow> js_error + buffer"

definition location :: "driver_instance \<Rightarrow> location" where
  "location i =
     (case cls i of
        LocalDriver \<Rightarrow> (LocalDriver, [get_property i ''root''])
      | S3Driver \<Rightarrow> (S3Driver, [get_property i ''bucket''])
      | AzureDriver \<Rightarrow>
          (AzureDriver, [get_property i ''connectionString'', get_property i ''containerName''])
      | GCSDriver \<Rightarrow> (GCSDriver, [get_property i ''bucketName'']))"

definition entries :: "world \<Rightarrow> dir \<Rightarrow> (string \<times> buffer) list" where
  "entries w d = (case d of UPLOAD_DIR \<Rightarrow> uploads w | CACHE_DIR \<Rightarrow> cache w)"

definition set_entries :: "world \<Rightarrow> dir \<Rightarrow> (string \<times> buffer) list \<Rightarrow> world" where
  "set_entries w d es =
     (case d of UPLOAD_DIR \<Rightarrow> w\<lparr>uploads := es\<rparr> | CACHE_DIR \<Rightarrow> w\<lparr>cache := es\<rparr>)"

definition readdir :: "world \<Rightarrow> dir \<Rightarrow> js_error + string list" where
  "readdir w d =
     (case fs_fault w (Readdir d) of
        Some e \<Rightarrow> Inl e
      | None \<Rightarrow> Inr (map fst (entries w d)))"

definition access :: "world \<Rightarrow> dir \<Rightarrow> string \<Rightarrow> js_error + unit" where
  "access w d name =
     (case fs_fault w (Access d name) of
        Some e \<Rightarrow> Inl e
      | None \<Rightarrow> if name \<in> fst ` set (entries w d) then Inr ()
                else Inl (ENOENT))"

fun replace_entry :: "string \<Rightarrow> buffer \<Rightarrow> (string \<times> buffer) list \<Rightarrow> (string \<times> buffer) list" where
  "replace_entry name b [] = [(name, b)]"
| "replace_entry name b ((n, c) # es) =
     (if n = name then (name, b) # es else (n, c) # replace_entry name b es)"

definition writeFile :: "world \<Rightarrow> dir \<Rightarrow> string \<Rightarrow> buffer \<Rightarrow> (js_error + unit) \<times> world" where
  "writeFile w d name b =
     (case fs_fault w (WriteFile d name) of
        Some e \<Rightarrow> (Inl e, w)
      | None \<Rightarrow> (Inr (), set_entries w d (replace_entry name b (entries w d))))"

definition unlink :: "world \<Rightarrow> dir \<Rightarrow> string \<Rightarrow> (js_error + unit) \<times> world" where
  "unlink w d name =
     (case fs_fault w (Unlink d name) of
        Some e \<Rightarrow> (Inl e, w)
      | None \<Rightarrow> if name \<in> fst ` set (entries w d)
                then (Inr (), set_entries w d (filter (\<lambda>(n, c). n \<noteq> name) (entries w d)))
                else (Inl (ENOENT), w))"

subsection \<open>Responses\<close>

datatype json = JString string | JBool bool | JNumber int | JObject "(string \<times> json) list"

datatype response =
    Json nat json                \<comment> \<open>\<^verbatim>\<open>res.status(n).json(body)\<close>; \<^verbatim>\<open>res.json(body)\<close> has status 200\<close>
  | SendFile dir string          \<comment> \<open>\<^verbatim>\<open>res.sendFile(path)\<close>\<close>
  | Send string string buffer    \<comment> \<open>Content-Type, Cache-Control and the body of \<^verbatim>\<open>res.send\<close>\<close>

fun status :: "response \<Rightarrow> nat" where
  "status (Json n body) = n"
| "status (SendFile d name) = 200"
| "status (Send ct cc body) = 200"

definition error_body :: "string \<Rightarrow> json" where
  "error_body e = JObject [(''error'', JString e)]"

definition error_message_body :: "string \<Rightarrow> js_error \<Rightarrow> json" where
  "error_message_body e err = JObject [(''error'', JString e), (''message'', JString (message err))]"

subsection \<open>\<^verbatim>\<open>GET /api/image/:id\<close>\<close>

definition get_image :: "world \<Rightarrow> string \<Rightarrow> response" where
  "get_image w image_id =
     (case readdir w UPLOAD_DIR of
        Inl e \<Rightarrow> Json 500 (error_body ''Failed to serve image'')
      | Inr files \<Rightarrow>
          (case find (\<lambda>f. js_startsWith f image_id) files of
             None \<Rightarrow> Json 404 (error_body ''Image not found'')
           | Some file \<Rightarrow> SendFile UPLOAD_DIR file))"

subsection \<open>\<^verbatim>\<open>GET /api/image/:id/:size/:format\<close>\<close>

definition supportedFormats :: "string list" where
  "supportedFormats = [''jpeg'', ''jpg'', ''png'', ''webp'', ''gif'']"

definition presetSizes :: "(string \<times> jsnum \<times> jsnum) list" where
  "presetSizes =
     [(''thumbnail'', Finite 150, Finite 150),
      (''small'', Finite 300, Finite 300),
      (''medium'', Finite 800, Finite 800),
      (''large'', Finite 1920, Finite 1080)]"

definition js_isNaN :: "dim \<Rightarrow> bool" where
  \<comment> \<open>the global \<^verbatim>\<open>isNaN\<close>; \<^verbatim>\<open>undefined\<close> converts to NaN\<close>
  "js_isNaN d = (case d of None \<Rightarrow> True | Some x \<Rightarrow> x = NaN)"

definition nth_opt :: "'a list \<Rightarrow> nat \<Rightarrow> 'a option" where
  \<comment> \<open>an array element, \<^verbatim>\<open>undefined\<close> past the end\<close>
  "nth_opt xs i = (if i < length xs then Some (xs ! i) else None)"

text \<open>
  The size block of the handler.  \<^verbatim>\<open>presetSizes[size]\<close> is truthy for the four preset
  names and for the names a plain object inherits; the inherited values have neither a
  \<^verbatim>\<open>width\<close> nor a \<^verbatim>\<open>height\<close>, so both come out \<^verbatim>\<open>undefined\<close>.  \<open>Inl\<close> is the message of
  the 400 response.
\<close>

definition parse_size :: "string \<Rightarrow> string + (dim \<times> dim)" where
  "parse_size size_token =
     (case map_of presetSizes size_token of
        Some (w, h) \<Rightarrow> Inr (Some w, Some h)
      | None \<Rightarrow>
          if size_token \<in> set object_prototype_keys then Inr (None, None)
          else if js_includes size_token (CHR ''x'') then
            (let parts = map js_Number (js_split (CHR ''x'') size_token);
                 width = nth_opt parts 0;
                 height = nth_opt parts 1
             in if js_isNaN width \<or> js_isNaN height then Inl ''Invalid size format''
                else Inr (width, height))
          else Inl ''Invalid size parameter'')"

definition dim_to_string :: "dim \<Rightarrow> string" where
  "dim_to_string d = (case d of None \<Rightarrow> ''undefined'' | Some x \<Rightarrow> number_to_string x)"

definition cacheKey :: "string \<Rightarrow> dim \<Rightarrow> dim \<Rightarrow> string \<Rightarrow> string" where
  \<comment> \<open>\<^verbatim>\<open>`${id}_${width}x${height}_${format}`\<close>\<close>
  "cacheKey image_id width height format =
     image_id @ ''_'' @ dim_to_string width @ ''x'' @ dim_to_string height @ ''_'' @ format"

definition cachePath :: "string \<Rightarrow> string \<Rightarrow> string" where
  \<comment> \<open>the entry of \<^verbatim>\<open>CACHE_DIR\<close> that \<^verbatim>\<open>path.join(CACHE_DIR, `${cacheKey}.${format}`)\<close> names\<close>
  "cachePath key format = key @ ''.'' @ format"

definition select_encoder :: "string \<Rightarrow> encoder option" where
  \<comment> \<open>the \<^verbatim>\<open>switch (format.toLowerCase())\<close>\<close>
  "select_encoder format =
     (let f = js_toLowerCase format
      in if f = ''jpeg'' \<or> f = ''jpg'' then Some (Jpeg 85)
         else if f = ''png'' then Some (Png 8)
         else if f = ''webp'' then Some (Webp 85)
         else if f = ''gif'' then Some Gif
         else None)"

definition contentType :: "string \<Rightarrow> string" where
  "contentType format = ''image/'' @ (if format = ''jpg'' then ''jpeg'' else format)"

definition toBuffer :: "world \<Rightarrow> string \<Rightarrow> dim \<Rightarrow> dim \<Rightarrow> encoder option \<Rightarrow> js_error + buffer" where
  \<comment> \<open>\<^verbatim>\<open>sharp(originalPath).resize(...).<encoder>(...).toBuffer()\<close>\<close>
  "toBuffer w originalFile width height enc =
     (case map_of (uploads w) originalFile of
        None \<Rightarrow> Inl (Error ''Input file is missing'')
      | Some b \<Rightarrow> sharp w b width height enc)"

definition get_variant :: "world \<Rightarrow> string \<Rightarrow> string \<Rightarrow> string \<Rightarrow> response \<times> world" where
  "get_variant w image_id size_token format =
     (if js_toLowerCase format \<notin> set supportedFormats
      then (Json 400 (error_body ''Unsupported format''), w)
      else case readdir w UPLOAD_DIR of
        Inl e \<Rightarrow> (Json 500 (error_message_body ''Failed to process image'' e), w)
      | Inr files \<Rightarrow>
          (case find (\<lambda>f. js_startsWith f image_id) files of
             None \<Rightarrow> (Json 404 (error_body ''Image not found''), w)
           | Some originalFile \<Rightarrow>
               (case parse_size size_token of
                  Inl msg \<Rightarrow> (Json 400 (error_body msg), w)
                | Inr (width, height) \<Rightarrow>
                    (let key = cacheKey image_id width height format;
                         name = cachePath key format
                     in case access w CACHE_DIR name of
                          Inr u \<Rightarrow> (SendFile CACHE_DIR name, w)
                        | Inl miss \<Rightarrow>
                            (case toBuffer w originalFile width height (select_encoder format) of
                               Inl e \<Rightarrow>
                                 (Json 500 (error_message_body ''Failed to process image'' e), w)
                             | Inr processedBuffer \<Rightarrow>
                                 (case writeFile w CACHE_DIR name processedBuffer of
                                    (Inl e, w') \<Rightarrow>
                                      (Json 500 (error_message_body ''Failed to process image'' e), w')
                                  | (Inr u, w') \<Rightarrow>
                                      (Send (contentType format) ''public, max-age=31536000''
                                         processedBuffer, w')))))))"

subsection \<open>Calls on the disk a handler got from the registry\<close>

definition disk_exists :: "disk_ref \<Rightarrow> world \<Rightarrow> string \<Rightarrow> js_error + bool" where
  "disk_exists d w filePath =
     (case d of
        Inherited n \<Rightarrow> Inl (TypeError ''disk.exists is not a function'')
      | Disk a \<Rightarrow> FilesystemAdapter_exists a (stores w (location (client a))) filePath)"

definition disk_delete :: "disk_ref \<Rightarrow> world \<Rightarrow> string \<Rightarrow> (js_error + bool) \<times> world" where
  "disk_delete d w filePath =
     (case d of
        Inherited n \<Rightarrow> (Inl (TypeError ''disk.delete is not a function''), w)
      | Disk a \<Rightarrow>
          (let l = location (client a);
               (r, st) = FilesystemAdapter_delete a (stores w l) filePath
           in (r, w\<lparr>stores := (stores w)(l := st)\<rparr>)))"

definition disk_put :: "disk_ref \<Rightarrow> world \<Rightarrow> string \<Rightarrow> buffer \<Rightarrow> (js_error + bool) \<times> world" where
  "disk_put d w filePath contents =
     (case d of
        Inherited n \<Rightarrow> (Inl (TypeError ''disk.put is not a function''), w)
      | Disk a \<Rightarrow>
          (let l = location (client a);
               (r, st) = FilesystemAdapter_put a (stores w l) filePath contents
           in (r, w\<lparr>stores := (stores w)(l := st)\<rparr>)))"

definition disk_url :: "platform \<Rightarrow> disk_ref \<Rightarrow> string \<Rightarrow> js_error + string" where
  "disk_url pf d filePath =
     (case d of
        Inherited n \<Rightarrow> Inl (TypeError ''disk.url is not a function'')
      | Disk a \<Rightarrow> FilesystemAdapter_url pf a filePath)"

record app =
  app_platform :: platform
  app_config :: "storage_config option"   \<comment> \<open>\<^verbatim>\<open>config.storage\<close>\<close>
  storage :: manager               \<comment> \<open>the singleton \<^verbatim>\<open>require('./storage/StorageManager')\<close>\<close>

definition request_disk :: "app \<Rightarrow> string option \<Rightarrow> string" where
  \<comment> \<open>\<^verbatim>\<open>req.query.disk || config.storage?.default || 'local'\<close>, the same with \<^verbatim>\<open>req.body.disk\<close>\<close>
  "request_disk ap requested =
     (case requested of
        None \<Rightarrow> config_default (app_config ap)
      | Some n \<Rightarrow> if n = [] then config_default (app_config ap) else n)"

subsection \<open>\<^verbatim>\<open>DELETE /api/image/:id\<close>\<close>

definition unlink_local :: "world \<Rightarrow> string \<Rightarrow> world" where
  \<comment> \<open>\<^verbatim>\<open>try { await fs.unlink(localPath) } catch (err) { }\<close>\<close>
  "unlink_local w originalFile = snd (unlink w UPLOAD_DIR originalFile)"

definition remove_original :: "disk_ref \<Rightarrow> world \<Rightarrow> string \<Rightarrow> world" where
  \<comment> \<open>the first \<^verbatim>\<open>try\<close> block: every error in it is caught and logged\<close>
  "remove_original d w image_id =
     (case readdir w UPLOAD_DIR of
        Inl e \<Rightarrow> w
      | Inr files \<Rightarrow>
          (case find (\<lambda>f. js_startsWith f image_id) files of
             None \<Rightarrow> w
           | Some originalFile \<Rightarrow>
               (let fullPath = ''images/'' @ originalFile
                in case disk_exists d w fullPath of
                     Inl e \<Rightarrow> w
                   | Inr False \<Rightarrow> unlink_local w originalFile
                   | Inr True \<Rightarrow>
                       (case disk_delete d w fullPath of
                          (Inl e, w') \<Rightarrow> w'
                        | (Inr deleted, w') \<Rightarrow> unlink_local w' originalFile))))"

fun unlink_each :: "world \<Rightarrow> string list \<Rightarrow> (js_error + unit) \<times> world" where
  \<comment> \<open>the \<^verbatim>\<open>for\<close> loop over \<^verbatim>\<open>relatedCacheFiles\<close>\<close>
  "unlink_each w [] = (Inr (), w)"
| "unlink_each w (cacheFile # rest) =
     (case unlink w CACHE_DIR cacheFile of
        (Inl e, w') \<Rightarrow> (Inl e, w')
      | (Inr u, w') \<Rightarrow> unlink_each w' rest)"

definition deleted_body :: "string \<Rightarrow> string \<Rightarrow> json" where
  "deleted_body msg userId =
     JObject [(''success'', JBool True), (''message'', JString msg), (''deletedBy'', JString userId)]"

definition purge_cache :: "world \<Rightarrow> string \<Rightarrow> string \<Rightarrow> response \<times> world" where
  \<comment> \<open>the second \<^verbatim>\<open>try\<close> block, with the response of its \<^verbatim>\<open>catch\<close>\<close>
  "purge_cache w image_id userId =
     (case readdir w CACHE_DIR of
        Inl e \<Rightarrow> (Json 200 (deleted_body ''Image deleted from storage'' userId), w)
      | Inr cacheFiles \<Rightarrow>
          (case unlink_each w (filter (\<lambda>f. js_startsWith f image_id) cacheFiles) of
             (Inl e, w') \<Rightarrow> (Json 200 (deleted_body ''Image deleted from storage'' userId), w')
           | (Inr u, w') \<Rightarrow> (Json 200 (deleted_body ''Image deleted successfully'' userId), w')))"

definition delete_image ::
  "app \<Rightarrow> world \<Rightarrow> string option \<Rightarrow> string \<Rightarrow> string \<Rightarrow> response \<times> world" where
  "delete_image ap w query_disk image_id userId =
     (case disk (storage ap) (Some (request_disk ap query_disk)) of
        Inl e \<Rightarrow> (Json 500 (error_message_body ''Failed to delete image'' e), w)
      | Inr d \<Rightarrow> purge_cache (remove_original d w image_id) image_id userId)"

subsection \<open>\<^verbatim>\<open>POST /api/upload\<close>\<close>

text \<open>\<^verbatim>\<open>path.extname\<close> of Node, for POSIX paths.\<close>

definition extname :: "string \<Rightarrow> string" where
  "extname p =
     (let trimmed = rev (dropWhile (\<lambda>c. c = CHR ''/'') (rev p));
          base = rev (takeWhile (\<lambda>c. c \<noteq> CHR ''/'') (rev trimmed))
      in if CHR ''.'' \<notin> set base then []
         else (let ext = CHR ''.'' # rev (takeWhile (\<lambda>c. c \<noteq> CHR ''.'') (rev base));
                   pre = rev (drop 1 (dropWhile (\<lambda>c. c \<noteq> CHR ''.'') (rev base)))
               in if pre = [] then []
                  else if pre = ''.'' \<and> ext = ''.'' then []
                  else ext))"

record upload_file =
  originalname :: string
  mimetype :: string
  contents :: buffer

definition upload_failed :: "js_error \<Rightarrow> response" where
  \<comment> \<open>the \<^verbatim>\<open>catch\<close> of the handler; the \<^verbatim>\<open>details\<close> field, the stack text that development
      mode adds, is left out\<close>
  "upload_failed e = Json 500 (error_message_body ''Upload failed'' e)"

definition file_info ::
  "string \<Rightarrow> upload_file \<Rightarrow> string \<Rightarrow> string \<Rightarrow> string \<Rightarrow> string \<Rightarrow> string \<Rightarrow> string \<Rightarrow> json" where
  "file_info uniqueId f filename filePath diskName userId now url =
     JObject
       [(''id'', JString uniqueId),
        (''originalName'', JString (originalname f)),
        (''filename'', JString filename),
        (''path'', JString filePath),
        (''size'', JNumber (int (length (contents f)))),
        (''mimetype'', JString (mimetype f)),
        (''disk'', JString diskName),
        (''uploadedBy'', JString userId),
        (''uploadedAt'', JString now),
        (''url'', JString url),
        (''urls'', JObject
           [(''original'', JString (''/api/image/'' @ uniqueId)),
            (''thumbnail'', JString (''/api/image/'' @ uniqueId @ ''/thumbnail/jpeg'')),
            (''small'', JString (''/api/image/'' @ uniqueId @ ''/300x300/webp'')),
            (''medium'', JString (''/api/image/'' @ uniqueId @ ''/800x800/webp'')),
            (''large'', JString (''/api/image/'' @ uniqueId @ ''/1920x1080/webp''))])]"

text \<open>
  The handler after \<^verbatim>\<open>authenticate\<close> and \<^verbatim>\<open>upload.single('image')\<close>: \<open>file\<close> is
  \<^verbatim>\<open>req.file\<close>, \<open>uniqueId\<close> the value of \<^verbatim>\<open>uuidv4()\<close> and \<open>now\<close> the time stamp.
\<close>

definition upload_image ::
  "app \<Rightarrow> world \<Rightarrow> upload_file option \<Rightarrow> string option \<Rightarrow> string \<Rightarrow> string \<Rightarrow> string
     \<Rightarrow> response \<times> world" where
  "upload_image ap w file body_disk uniqueId userId now =
     (case file of
        None \<Rightarrow> (Json 400 (error_body ''No file uploaded''), w)
      | Some f \<Rightarrow>
          (let filename = uniqueId @ extname (originalname f);
               filePath = ''images/'' @ filename;
               diskName = request_disk ap body_disk
           in case disk (storage ap) (Some diskName) of
                Inl e \<Rightarrow> (upload_failed e, w)
              | Inr d \<Rightarrow>
                  (case disk_put d w filePath (contents f) of
                     (Inl e, w1) \<Rightarrow> (upload_failed e, w1)
                   | (Inr stored, w1) \<Rightarrow>
                       (case writeFile w1 UPLOAD_DIR filename (contents f) of
                          (Inl e, w2) \<Rightarrow> (upload_failed e, w2)
                        | (Inr u, w2) \<Rightarrow>
                            (case disk_url (app_platform ap) d filePath of
                               Inl e \<Rightarrow> (upload_failed e, w2)
                             | Inr url \<Rightarrow>
                                 (Json 200
                                    (JObject
                                       [(''success'', JBool True),
                                        (''file'', file_info uniqueId f filename filePath
                                                     diskName userId now url)]),
                                  w2))))))"

section \<open>Notions used to state and to test the results\<close>

text \<open>A visible ASCII character: no white space sequence starts or ends with one.\<close>

definition plain :: "char \<Rightarrow> bool" where
  "plain c = (33 \<le> (of_char c :: int) \<and> (of_char c :: int) \<le> 126)"

text \<open>
  A platform on which every SDK client is built, a backend that holds nothing and never
  fails, and a world without failing calls in which the image library hands back the
  bytes of the original it is given.
\<close>

definition plain_platform :: platform where
  "plain_platform =
     \<lparr>cwd_storage = ''/app/storage'', sdk_init = (\<lambda>d c. None), blob_url = (\<lambda>obj p. p)\<rparr>"

definition quiet_store :: store where
  "quiet_store =
     \<lparr>objects = Map.empty, fault = (\<lambda>c. None), lag = (\<lambda>from to. False), started = []\<rparr>"

definition quiet_world :: "(string \<times> buffer) list \<Rightarrow> world" where
  "quiet_world ups =
     \<lparr>uploads = ups, cache = [], stores = (\<lambda>l. quiet_store), fs_fault = (\<lambda>c. None),
      sharp = (\<lambda>b w h e. Inr b)\<rparr>"

text \<open>
  The adapter of a local disk with the root and URL that \<^verbatim>\<open>config/index.js\<close> gives by
  default, and the application whose registry holds just that disk.
\<close>

definition local_adapter :: adapter where
  "local_adapter =
     \<lparr>driver_name = ''local'',
      config = [(''root'', ''storage''), (''url'', ''/storage'')],
      client = \<lparr>cls = LocalDriver,
                 own = [(''root'', Str ''storage''), (''url'', Str ''/storage'')]\<rparr>\<rparr>"

definition local_app :: app where
  "local_app =
     \<lparr>app_platform = plain_platform, app_config = None,
      storage = \<lparr>disks = [(''local'', local_adapter)], defaultDisk = ''local''\<rparr>\<rparr>"

text \<open>An adapter that the constructor of \<^verbatim>\<open>FilesystemAdapter\<close> made.\<close>

definition built :: "platform \<Rightarrow> adapter \<Rightarrow> bool" where
  "built pf a = (\<exists>driver_arg config_arg. new_FilesystemAdapter pf driver_arg config_arg = Inr a)"

text \<open>A store in which one more call fails.\<close>

definition failing :: "call \<Rightarrow> js_error \<Rightarrow> store \<Rightarrow> store" where
  "failing c e st = st\<lparr>fault := (fault st)(c := Some e)\<rparr>"

text \<open>The adapter of an S3 disk on the bucket \<^verbatim>\<open>assets\<close>, with no public URL configured.\<close>

definition s3_adapter :: adapter where
  "s3_adapter =
     \<lparr>driver_name = ''s3'',
      config = [(''bucket'', ''assets'')],
      client = \<lparr>cls = S3Driver,
                 own = [(''bucket'', Str ''assets''), (''region'', Str ''us-east-1''),
                        (''url'', Undefined), (''client'', Opaque ''S3Client'')]\<rparr>\<rparr>"

text \<open>A world in which one more \<^verbatim>\<open>fs\<close> call fails.\<close>

definition failing_fs :: "fs_call \<Rightarrow> js_error \<Rightarrow> world \<Rightarrow> world" where
  "failing_fs c e w = w\<lparr>fs_fault := (fs_fault w)(c := Some e)\<rparr>"

text \<open>
  The disks of a configuration, and the environment that names \<^verbatim>\<open>s3\<close> as default disk
  and sets nothing else.
\<close>

definition configured_disks :: "storage_config option \<Rightarrow> (string \<times> disk_config) list" where
  "configured_disks cfg =
     (case cfg of
        None \<Rightarrow> []
      | Some sc \<Rightarrow> (case sc_disks sc of None \<Rightarrow> [] | Some ds \<Rightarrow> ds))"

definition default_s3_env :: environment where
  "default_s3_env = [''STORAGE_DEFAULT'' \<mapsto> ''s3'']"



section \<open>Numbers and strings: facts\<close>

lemma code_ENOENT [simp]: "code ENOENT = Some ''ENOENT''"
  by (simp add: ENOENT_def)

lemma code_EACCES [simp]: "code EACCES = Some ''EACCES''"
  by (simp add: EACCES_def)

lemma round_pos_not_NaN: "round_pos q \<noteq> NaN"
  by (simp add: round_pos_def Let_def)

lemma negate_not_NaN: "x \<noteq> NaN \<Longrightarrow> negate x \<noteq> NaN"
  by (cases x) (simp_all add: negate_def)

lemma number_of_rat_not_NaN: "number_of_rat q \<noteq> NaN"
  by (simp add: number_of_rat_def round_pos_not_NaN negate_not_NaN)

lemma round_half_even_of_int: "round_half_even (of_int z) = z"
  by (simp add: round_half_even_def Let_def)

lemma floor_log2_of_int:
  assumes "0 < n"
  shows "floor_log2 (of_int n) = bitlen n - 1"
proof -
  have b: "2 ^ nat (bitlen n - 1) \<le> n"
    using bitlen_bounds [OF assms] by simp
  have nn: "0 \<le> bitlen n - 1"
    using assms by (simp add: bitlen_alt_def)
  have "pow2 (bitlen n - 1) \<le> of_int n"
  proof -
    have "(of_int (2 ^ nat (bitlen n - 1)) :: rat) \<le> of_int n"
      using b by (simp only: of_int_le_iff)
    then show ?thesis
      using nn by (simp add: pow2_def)
  qed
  moreover have "bitlen 1 = 1"
    by (simp add: bitlen_alt_def)
  ultimately show ?thesis
    by (simp add: floor_log2_def Let_def)
qed

text \<open>An integer below \<open>2\<^sup>5\<^sup>3\<close> is a double.\<close>

lemma number_of_rat_of_int:
  assumes "0 \<le> n" and "n < 2 ^ 53"
  shows "number_of_rat (of_int n) = Finite (of_int n)"
proof (cases "n = 0")
  case True
  then show ?thesis by (simp add: number_of_rat_def)
next
  case False
  with assms have pos: "0 < n" by simp
  define e where "e = bitlen n - 1"
  have e0: "0 \<le> e"
    using pos by (simp add: e_def bitlen_alt_def)
  have "bitlen n \<le> 53"
    using assms pos by (simp add: bitlen_le_iff_power)
  then have e52: "e \<le> 52"
    by (simp add: e_def)
  have fl: "floor_log2 (of_int n) = e"
    using floor_log2_of_int [OF pos] by (simp add: e_def)
  have m: "max e (- 1022) - 52 = e - 52"
    using e0 by simp
  have p: "pow2 (e - 52) = 1 / 2 ^ nat (52 - e)"
    using e52 by (cases "e = 52") (simp_all add: pow2_def)
  have q: "(of_int n :: rat) / pow2 (e - 52) = of_int (n * 2 ^ nat (52 - e))"
    by (simp add: p)
  have v: "of_int (round_half_even (of_int n / pow2 (e - 52))) * pow2 (e - 52) = (of_int n :: rat)"
    unfolding q round_half_even_of_int by (simp add: p)
  have small: "\<not> pow2 1024 \<le> (of_int n :: rat)"
  proof -
    have "(of_int n :: rat) < of_int (2 ^ 53)"
      using assms(2) by (simp only: of_int_less_iff)
    also have "\<dots> \<le> 2 ^ 1024"
      by simp
    finally show ?thesis
      by (simp add: pow2_def)
  qed
  show ?thesis
    using pos small by (simp add: number_of_rat_def round_pos_def Let_def fl m v)
qed

lemma number_of_rat_numeral:
  "numeral k < (2::int) ^ 53 \<Longrightarrow> number_of_rat (numeral k) = Finite (numeral k)"
  using number_of_rat_of_int [of "numeral k"] by simp

lemma floor_rat_numeral: "\<lfloor>(numeral a :: rat) / numeral b\<rfloor> = numeral a div numeral b"
  using floor_divide_of_int_eq [of "numeral a" "numeral b", where ?'a = rat] by simp

lemmas to_string_eval =
  number_to_string_def positive_to_string_def shortest_def candidates_def decade_def
  pow10_def Let_def compute_floorlog number_of_rat_numeral floor_rat_numeral
  decimal.simps digit_char_def

lemma to_string_150: "number_to_string (Finite 150) = ''150''"
  by (simp add: to_string_eval)

lemma to_string_300: "number_to_string (Finite 300) = ''300''"
  by (simp add: to_string_eval numeral_2_eq_2)

lemma to_string_800: "number_to_string (Finite 800) = ''800''"
  by (simp add: to_string_eval numeral_2_eq_2)

lemma to_string_1920: "number_to_string (Finite 1920) = ''1920''"
  by (simp add: to_string_eval)

lemma to_string_1080: "number_to_string (Finite 1080) = ''1080''"
  by (simp add: to_string_eval)

lemma to_string_0: "number_to_string (Finite 0) = ''0''"
  by (simp add: number_to_string_def)

subsection \<open>Trimming\<close>

lemma white_space_not_plain: "\<forall>w \<in> set white_space. w \<noteq> [] \<and> \<not> plain (hd w)"
  by (simp add: white_space_def plain_def)

lemma rev_white_space_not_plain: "\<forall>w \<in> set (map rev white_space). w \<noteq> [] \<and> \<not> plain (hd w)"
  by (simp add: white_space_def plain_def)

lemma find_prefix_plain:
  assumes "\<forall>w \<in> set ws. w \<noteq> [] \<and> \<not> plain (hd w)" and "plain c"
  shows "find (\<lambda>w. w \<noteq> [] \<and> js_startsWith (c # cs) w) ws = None"
proof -
  have "\<not> (w \<noteq> [] \<and> js_startsWith (c # cs) w)" if "w \<in> set ws" for w
  proof
    assume h: "w \<noteq> [] \<and> js_startsWith (c # cs) w"
    then obtain d ds where w: "w = d # ds"
      by (cases w) auto
    from h have "d = c"
      by (simp add: js_startsWith_def w)
    with assms that w show False
      by auto
  qed
  then show ?thesis
    by (simp add: find_None_iff)
qed

lemma strip_leading_plain:
  "plain c \<Longrightarrow> strip_leading white_space (c # cs) = c # cs"
  by (subst strip_leading.simps)
     (simp add: find_prefix_plain [OF white_space_not_plain])

lemma strip_trailing_plain:
  "plain c \<Longrightarrow> strip_leading (map rev white_space) (c # cs) = c # cs"
  by (subst strip_leading.simps)
     (simp add: find_prefix_plain [OF rev_white_space_not_plain])

lemma strip_leading_Nil: "strip_leading ws [] = []"
proof -
  have "find (\<lambda>w. w \<noteq> [] \<and> js_startsWith [] w) ws = None"
    by (auto simp add: find_None_iff js_startsWith_def)
  then show ?thesis
    by (subst strip_leading.simps) simp
qed

lemma js_trim_Nil: "js_trim [] = []"
  by (simp add: js_trim_def strip_leading_Nil)

lemma js_trim_plain:
  assumes "s \<noteq> []" and "plain (hd s)" and "plain (last s)"
  shows "js_trim s = s"
proof -
  obtain c cs where s: "s = c # cs"
    using assms(1) by (cases s) auto
  have a: "strip_leading white_space s = s"
    using assms(2) by (simp add: s strip_leading_plain)
  obtain d ds where r: "rev s = d # ds"
    using assms(1) by (cases "rev s") auto
  have "d = last s"
    using r assms(1) by (metis hd_rev list.sel(1))
  then have b: "strip_leading (map rev white_space) (rev s) = rev s"
    using assms(3) by (simp add: r strip_trailing_plain)
  show ?thesis
    by (simp add: js_trim_def a b)
qed

subsection \<open>\<^verbatim>\<open>Number\<close> of a digit string\<close>

lemma is_digit_plain: "is_digit c \<Longrightarrow> plain c"
  by (simp add: is_digit_def plain_def)

lemma digit_val_digit: "is_digit c \<Longrightarrow> digit_val c = Some (of_char c - 48)"
  by (simp add: is_digit_def digit_val_def Let_def)

lemma digit_val_range:
  "is_digit c \<Longrightarrow> 0 \<le> (of_char c :: int) - 48 \<and> (of_char c :: int) - 48 < 10"
  by (simp add: is_digit_def)

lemma radix_val_digits:
  "list_all is_digit s \<Longrightarrow>
     radix_val 10 acc s = Some (foldl (\<lambda>a c. a * 10 + (of_char c - 48)) acc s)"
proof (induction s arbitrary: acc)
  case Nil
  then show ?case by simp
next
  case (Cons c s)
  then show ?case
    using digit_val_range [of c] by (simp add: digit_val_digit)
qed

lemma non_decimal_digits: "list_all is_digit s \<Longrightarrow> non_decimal s = None"
  by (auto simp add: non_decimal_def is_digit_def split: list.splits)

lemma unsigned_decimal_digits:
  assumes "s \<noteq> []" and "list_all is_digit s"
  shows "unsigned_decimal s = Some (of_int (foldl (\<lambda>a c. a * 10 + (of_char c - 48)) 0 s))"
proof -
  have t: "takeWhile is_digit s = s"
    using assms(2) by (simp add: list_all_iff)
  have d: "dropWhile is_digit s = []"
    using assms(2) by (simp add: list_all_iff)
  show ?thesis
    using assms by (simp add: unsigned_decimal_def t d radix_val_digits)
qed

lemma signed_decimal_digits:
  assumes "s \<noteq> []" and "list_all is_digit s"
  shows "signed_decimal s = number_of_rat (of_int (foldl (\<lambda>a c. a * 10 + (of_char c - 48)) 0 s))"
proof -
  obtain c r where s: "s = c # r"
    using assms(1) by (cases s) auto
  have c: "is_digit c"
    using assms(2) by (simp add: s)
  then have "c \<noteq> CHR ''+''" and "c \<noteq> CHR ''-''" and "c \<noteq> CHR ''I''"
    by (auto simp add: is_digit_def)
  then show ?thesis
    using unsigned_decimal_digits [OF assms] by (simp add: signed_decimal_def s)
qed

lemma js_Number_digits:
  assumes "s \<noteq> []" and "list_all is_digit s"
  shows "js_Number s = number_of_rat (of_int (foldl (\<lambda>a c. a * 10 + (of_char c - 48)) 0 s))"
proof -
  have "plain (hd s)" and "plain (last s)"
    using assms by (auto simp add: list_all_iff is_digit_plain)
  then have "js_trim s = s"
    using assms(1) by (rule js_trim_plain [rotated])
  then show ?thesis
    using assms by (simp add: js_Number_def non_decimal_digits signed_decimal_digits)
qed

lemma js_Number_digits_not_NaN:
  "s \<noteq> [] \<Longrightarrow> list_all is_digit s \<Longrightarrow> js_Number s \<noteq> NaN"
  by (simp add: js_Number_digits number_of_rat_not_NaN)

lemma js_Number_empty: "js_Number [] = Finite 0"
  by (simp add: js_Number_def js_trim_Nil)

lemmas number_eval = js_Number_digits is_digit_def number_of_rat_numeral

subsection \<open>Splitting\<close>

lemma js_split_no_sep: "c \<notin> set s \<Longrightarrow> js_split c s = [s]"
  by (induction s) auto

lemma js_split_append:
  "c \<notin> set a \<Longrightarrow> js_split c (a @ c # b) = a # js_split c b"
  by (induction a) auto

lemma js_split_not_Nil: "js_split c s \<noteq> []"
  by (induction s) (auto split: list.splits)

lemma js_split_length: "c \<in> set s \<Longrightarrow> 2 \<le> length (js_split c s)"
proof (induction s)
  case Nil
  then show ?case by simp
next
  case (Cons d s)
  show ?case
  proof (cases "d = c")
    case True
    then show ?thesis
      using js_split_not_Nil [of c s] by (cases "js_split c s") auto
  next
    case False
    with Cons show ?thesis
      by (cases "js_split c s") auto
  qed
qed

section \<open>The size parser\<close>

lemmas parse_eval =
  parse_size_def presetSizes_def object_prototype_keys_def js_includes_def nth_opt_def
  js_isNaN_def Let_def

lemma parse_thumbnail: "parse_size ''thumbnail'' = Inr (Some (Finite 150), Some (Finite 150))"
  by (simp add: parse_size_def presetSizes_def)

lemma parse_small: "parse_size ''small'' = Inr (Some (Finite 300), Some (Finite 300))"
  by (simp add: parse_size_def presetSizes_def)

lemma parse_medium: "parse_size ''medium'' = Inr (Some (Finite 800), Some (Finite 800))"
  by (simp add: parse_size_def presetSizes_def)

lemma parse_large: "parse_size ''large'' = Inr (Some (Finite 1920), Some (Finite 1080))"
  by (simp add: parse_size_def presetSizes_def)

lemma parse_150x150: "parse_size ''150x150'' = Inr (Some (Finite 150), Some (Finite 150))"
  by (simp add: parse_eval number_eval)

lemma parse_300x300: "parse_size ''300x300'' = Inr (Some (Finite 300), Some (Finite 300))"
  by (simp add: parse_eval number_eval)

lemma parse_800x800: "parse_size ''800x800'' = Inr (Some (Finite 800), Some (Finite 800))"
  by (simp add: parse_eval number_eval)

lemma parse_1920x1080: "parse_size ''1920x1080'' = Inr (Some (Finite 1920), Some (Finite 1080))"
  by (simp add: parse_eval number_eval)

lemma get_variant_cong_size:
  assumes "parse_size s1 = parse_size s2"
  shows "get_variant w image_id s1 format = get_variant w image_id s2 format"
  unfolding get_variant_def assms by (rule refl)

text \<open>
  C8.  The parser gives each preset name the same width and height as the explicit token
  it stands for (thumbnail and 150x150, small and 300x300, medium and 800x800, large and
  1920x1080), so for every image id and format both spellings make the same cache key,
  and the handler does the same on both: same cache entry looked up and written, same
  response.
\<close>

theorem preset_same_as_explicit:
  "parse_size ''thumbnail'' = Inr (Some (Finite 150), Some (Finite 150))
   \<and> parse_size ''150x150'' = Inr (Some (Finite 150), Some (Finite 150))
   \<and> parse_size ''small'' = Inr (Some (Finite 300), Some (Finite 300))
   \<and> parse_size ''300x300'' = Inr (Some (Finite 300), Some (Finite 300))
   \<and> parse_size ''medium'' = Inr (Some (Finite 800), Some (Finite 800))
   \<and> parse_size ''800x800'' = Inr (Some (Finite 800), Some (Finite 800))
   \<and> parse_size ''large'' = Inr (Some (Finite 1920), Some (Finite 1080))
   \<and> parse_size ''1920x1080'' = Inr (Some (Finite 1920), Some (Finite 1080))
   \<and> cacheKey image_id (Some (Finite 150)) (Some (Finite 150)) format
       = image_id @ ''_150x150_'' @ format
   \<and> cacheKey image_id (Some (Finite 300)) (Some (Finite 300)) format
       = image_id @ ''_300x300_'' @ format
   \<and> cacheKey image_id (Some (Finite 800)) (Some (Finite 800)) format
       = image_id @ ''_800x800_'' @ format
   \<and> cacheKey image_id (Some (Finite 1920)) (Some (Finite 1080)) format
       = image_id @ ''_1920x1080_'' @ format
   \<and> get_variant w image_id ''thumbnail'' format = get_variant w image_id ''150x150'' format
   \<and> get_variant w image_id ''small'' format = get_variant w image_id ''300x300'' format
   \<and> get_variant w image_id ''medium'' format = get_variant w image_id ''800x800'' format
   \<and> get_variant w image_id ''large'' format = get_variant w image_id ''1920x1080'' format"
proof -
  have keys:
    "cacheKey image_id (Some (Finite 150)) (Some (Finite 150)) format
       = image_id @ ''_150x150_'' @ format"
    "cacheKey image_id (Some (Finite 300)) (Some (Finite 300)) format
       = image_id @ ''_300x300_'' @ format"
    "cacheKey image_id (Some (Finite 800)) (Some (Finite 800)) format
       = image_id @ ''_800x800_'' @ format"
    "cacheKey image_id (Some (Finite 1920)) (Some (Finite 1080)) format
       = image_id @ ''_1920x1080_'' @ format"
    by (simp_all add: cacheKey_def dim_to_string_def to_string_150 to_string_300
        to_string_800 to_string_1920 to_string_1080)
  have same:
    "get_variant w image_id ''thumbnail'' format = get_variant w image_id ''150x150'' format"
    "get_variant w image_id ''small'' format = get_variant w image_id ''300x300'' format"
    "get_variant w image_id ''medium'' format = get_variant w image_id ''800x800'' format"
    "get_variant w image_id ''large'' format = get_variant w image_id ''1920x1080'' format"
    by (rule get_variant_cong_size,
        simp only: parse_thumbnail parse_150x150 parse_small parse_300x300 parse_medium
          parse_800x800 parse_large parse_1920x1080)+
  show ?thesis
    by (intro conjI parse_thumbnail parse_150x150 parse_small parse_300x300 parse_medium
        parse_800x800 parse_large parse_1920x1080 keys same)
qed

lemma lower_png: "js_toLowerCase ''png'' = ''png''"
  by (simp add: js_toLowerCase_def lower_char_def)

lemma get_variant_quiet_150:
  "get_variant (quiet_world [(''a1.png'', [137, 80, 78])]) ''a1'' ''150x150'' ''png''
     = (Send ''image/png'' ''public, max-age=31536000'' [137, 80, 78],
        (quiet_world [(''a1.png'', [137, 80, 78])])
          \<lparr>cache := [(''a1_150x150_png.png'', [137, 80, 78])]\<rparr>)"
  by (simp add: get_variant_def lower_png supportedFormats_def readdir_def quiet_world_def
      entries_def js_startsWith_def parse_150x150 cacheKey_def cachePath_def dim_to_string_def
      to_string_150 access_def toBuffer_def select_encoder_def writeFile_def set_entries_def
      contentType_def)

theorem preset_same_as_explicit_witness:
  "get_variant (quiet_world [(''a1.png'', [137, 80, 78])]) ''a1'' ''thumbnail'' ''png''
     = get_variant (quiet_world [(''a1.png'', [137, 80, 78])]) ''a1'' ''150x150'' ''png''
   \<and> fst (get_variant (quiet_world [(''a1.png'', [137, 80, 78])]) ''a1'' ''thumbnail'' ''png'')
     = Send ''image/png'' ''public, max-age=31536000'' [137, 80, 78]"
proof -
  have same:
    "get_variant (quiet_world [(''a1.png'', [137, 80, 78])]) ''a1'' ''thumbnail'' ''png''
       = get_variant (quiet_world [(''a1.png'', [137, 80, 78])]) ''a1'' ''150x150'' ''png''"
    using preset_same_as_explicit
      [of "''a1''" "''png''" "quiet_world [(''a1.png'', [137, 80, 78])]"]
    by (elim conjE)
  show ?thesis
    unfolding same by (simp add: get_variant_quiet_150)
qed

section \<open>The cache key\<close>


















lemmas handler_eval =
  get_variant_def supportedFormats_def readdir_def quiet_world_def entries_def
  js_startsWith_def cacheKey_def cachePath_def dim_to_string_def access_def toBuffer_def
  select_encoder_def writeFile_def set_entries_def contentType_def js_toLowerCase_def
  lower_char_def





section \<open>The \<^verbatim>\<open>url\<close> method of a disk\<close>

text \<open>
  Every constructor assigns \<^verbatim>\<open>this.url\<close>, so each driver object has an own property
  \<open>url\<close> that is a string or \<^verbatim>\<open>undefined\<close>, and that property hides the method.
\<close>

lemma field_no_method: "field c name \<noteq> Method k m"
  by (simp add: field_def split: option.splits)

lemma or_else_no_method:
  "x \<noteq> Method k m \<Longrightarrow> y \<noteq> Method k m \<Longrightarrow> or_else x y \<noteq> Method k m"
  by (simp add: or_else_def)

lemma own_url_no_method:
  assumes "new_FilesystemAdapter pf driver_arg config_arg = Inr a"
  shows "get_property (client a) ''url'' \<noteq> Method k m"
  using assms
  by (auto simp add: new_FilesystemAdapter_def new_LocalDriver_def new_S3Driver_def
      new_AzureDriver_def new_GCSDriver_def get_property_def Let_def
      field_no_method or_else_no_method
      split: if_splits option.splits sum.splits)

lemma resolve_url_fails:
  assumes "new_FilesystemAdapter pf driver_arg config_arg = Inr a"
  shows "resolve_method (client a) ''url'' expr = Inl (TypeError (expr @ '' is not a function''))"
proof (cases "get_property (client a) ''url''")
  case (Method k m)
  with own_url_no_method [OF assms, of k m] show ?thesis
    by simp
qed (simp_all add: resolve_method_def)

lemma FilesystemAdapter_url_fails:
  assumes "new_FilesystemAdapter pf driver_arg config_arg = Inr a"
  shows "FilesystemAdapter_url pf' a filePath
           = Inl (TypeError ''this.client.url is not a function'')"
  using resolve_url_fails [OF assms, of "''this.client.url''"]
  by (simp add: FilesystemAdapter_url_def call_url_def)

text \<open>Every disk of the registry was made by the adapter's constructor.\<close>

lemma builtI: "new_FilesystemAdapter pf driver_arg config_arg = Inr a \<Longrightarrow> built pf a"
  by (auto simp add: built_def)

lemma register_disks_built:
  assumes "register_disks pf configured acc = Inr ds"
    and "\<forall>(n, a) \<in> set acc. built pf a"
  shows "\<forall>(n, a) \<in> set ds. built pf a"
  using assms
proof (induction configured arbitrary: acc)
  case Nil
  then show ?case by simp
next
  case (Cons entry rest)
  obtain name dc where entry: "entry = (name, dc)"
    by (cases entry) auto
  from Cons.prems(1) obtain a where
    a: "new_FilesystemAdapter pf (dc_driver dc) (dc_config dc) = Inr a" and
    r: "register_disks pf rest ((name, a) # acc) = Inr ds"
    by (auto simp add: entry split: sum.splits)
  have "built pf a"
    using a by (auto simp add: built_def)
  with Cons.prems(2) have "\<forall>(n, a) \<in> set ((name, a) # acc). built pf a"
    by simp
  with Cons.IH r show ?case
    by blast
qed

lemma manager_disks_built:
  assumes "new_StorageManager pf cfg = Inr m"
  shows "\<forall>(n, a) \<in> set (disks m). built pf a"
proof -
  from assms obtain ds where
    i: "initializeDisks pf cfg (config_default cfg) = Inr ds" and m: "disks m = ds"
    by (auto simp add: new_StorageManager_def split: sum.splits)
  define configured where
    "configured = (case cfg of None \<Rightarrow> []
                   | Some sc \<Rightarrow> (case sc_disks sc of None \<Rightarrow> [] | Some ds \<Rightarrow> ds))"
  from i have "\<exists>registered. register_disks pf configured [] = Inr registered
      \<and> (ds = registered
           \<or> (\<exists>a. built pf a \<and> ds = (config_default cfg, a) # registered))"
    by (auto simp add: initializeDisks_def Let_def configured_def
        split: sum.splits if_splits intro: builtI)
  then obtain registered where
    r: "register_disks pf configured [] = Inr registered" and
    d: "ds = registered
        \<or> (\<exists>a. built pf a \<and> ds = (config_default cfg, a) # registered)"
    by blast
  have "\<forall>(n, a) \<in> set registered. built pf a"
    using register_disks_built [OF r] by simp
  with d show ?thesis
    unfolding m by auto
qed

lemma disk_built:
  assumes "new_StorageManager pf cfg = Inr m" and "disk m name = Inr (Disk a)"
  shows "built pf a"
proof -
  from assms(2) obtain n where "lookup_disk (disks m) n = Some (Disk a)"
    by (auto simp add: disk_def Let_def split: option.splits)
  then have "map_of (disks m) n = Some a"
    by (auto simp add: lookup_disk_def split: option.splits if_splits)
  then have "(n, a) \<in> set (disks m)"
    by (rule map_of_SomeD)
  with manager_disks_built [OF assms(1)] show ?thesis
    by auto
qed

lemma disk_url_fails:
  assumes "new_StorageManager pf cfg = Inr m" and "disk m name = Inr d"
  shows "\<exists>e. disk_url pf' d filePath = Inl (TypeError e)"
proof (cases d)
  case (Disk a)
  with disk_built [OF assms(1)] assms(2) have "built pf a"
    by simp
  then show ?thesis
    using FilesystemAdapter_url_fails by (auto simp add: built_def disk_url_def Disk)
next
  case (Inherited n)
  then show ?thesis
    by (simp add: disk_url_def)
qed

lemma upload_never_succeeds:
  assumes "new_StorageManager pf cfg = Inr m"
  shows "status (fst (upload_image \<lparr>app_platform = pf, app_config = cfg, storage = m\<rparr> w file body_disk
                        uniqueId userId now)) \<noteq> 200"
proof (cases "file")
  case None
  then show ?thesis
    by (simp add: upload_image_def)
next
  case (Some f)
  show ?thesis
  proof (cases "disk m (Some (request_disk
                  \<lparr>app_platform = pf, app_config = cfg, storage = m\<rparr> body_disk))")
    case (Inl e)
    then show ?thesis
      by (simp add: upload_image_def Some Let_def upload_failed_def)
  next
    case (Inr d)
    have "\<exists>e. disk_url pf d (''images/'' @ uniqueId @ extname (originalname f))
               = Inl (TypeError e)"
      using disk_url_fails [OF assms Inr] .
    then show ?thesis
      by (auto simp add: upload_image_def Some Inr Let_def upload_failed_def
          split: sum.splits prod.splits)
  qed
qed

text \<open>
  C1.  The claim is that \<^verbatim>\<open>url(p)\<close> returns a string for every driver and that the
  upload handler gets one from \<^verbatim>\<open>disk.url(filePath)\<close>.  The code does not do that: on
  every adapter the constructor makes, for each of the four drivers and every
  configuration, the call \<^verbatim>\<open>this.client.url(filePath)\<close> throws a TypeError, because the
  own property \<^verbatim>\<open>url\<close> hides the method; \<^verbatim>\<open>temporaryUrl\<close> of the local driver throws
  for the same reason; and the upload handler, which makes the call after it has stored
  the file, never answers with status 200.
\<close>

theorem url_call_throws:
  "(new_FilesystemAdapter pf driver_arg config_arg = Inr a \<longrightarrow>
      FilesystemAdapter_url pf a filePath
        = Inl (TypeError ''this.client.url is not a function'')
      \<and> LocalDriver_temporaryUrl pf (client a) filePath
        = Inl (TypeError ''this.url is not a function''))
   \<and> (new_StorageManager pf cfg = Inr m \<longrightarrow>
      status (fst (upload_image \<lparr>app_platform = pf, app_config = cfg, storage = m\<rparr> w file body_disk
                     uniqueId userId now)) \<noteq> 200)"
  using FilesystemAdapter_url_fails [of pf driver_arg config_arg a pf filePath]
    resolve_url_fails [of pf driver_arg config_arg a "''this.url''"]
    upload_never_succeeds [of pf cfg m w "file" body_disk uniqueId userId now]
  by (simp add: LocalDriver_temporaryUrl_def call_url_def)

lemma new_local_adapter:
  "new_FilesystemAdapter plain_platform (Some ''local'')
       (Some [(''root'', ''storage''), (''url'', ''/storage'')])
     = Inr local_adapter"
  by (simp add: new_FilesystemAdapter_def new_LocalDriver_def local_adapter_def field_def
      or_else_def)

lemma new_local_manager:
  "new_StorageManager plain_platform None
     = Inr \<lparr>disks = [(''local'', local_adapter)], defaultDisk = ''local''\<rparr>"
  by (simp add: new_StorageManager_def initializeDisks_def config_default_def
      config_local_def lookup_disk_def object_prototype_keys_def new_local_adapter)

lemma extname_cat: "extname ''cat.png'' = ''.png''"
  by (simp add: extname_def)

lemma upload_on_local_disk:
  "upload_image local_app (quiet_world [])
       (Some \<lparr>originalname = ''cat.png'', mimetype = ''image/png'', contents = [137, 80, 78]\<rparr>)
       None ''u1'' ''42'' ''2024-01-01T00:00:00.000Z''
     = (Json 500 (JObject [(''error'', JString ''Upload failed''),
                           (''message'', JString ''this.client.url is not a function'')]),
        (quiet_world [])
          \<lparr>uploads := [(''u1.png'', [137, 80, 78])],
           stores := (stores (quiet_world []))
             ((LocalDriver, [Str ''storage'']) :=
                quiet_store\<lparr>objects := [''images/u1.png'' \<mapsto> [137, 80, 78]]\<rparr>)\<rparr>)"
  by (simp add: upload_image_def local_app_def local_adapter_def request_disk_def
      config_default_def disk_def lookup_disk_def extname_cat disk_put_def
      FilesystemAdapter_put_def resolve_method_def get_property_def location_def
      LocalDriver_put_def ensureDirectory_def fs_mkdir_def fs_writeFile_def quiet_world_def
      quiet_store_def writeFile_def entries_def set_entries_def disk_url_def
      FilesystemAdapter_url_def call_url_def upload_failed_def error_message_body_def
      Let_def)

theorem url_call_throws_witness:
  "new_FilesystemAdapter plain_platform (Some ''local'')
       (Some [(''root'', ''storage''), (''url'', ''/storage'')])
     = Inr local_adapter
   \<and> FilesystemAdapter_url plain_platform local_adapter ''images/u1.png''
     = Inl (TypeError ''this.client.url is not a function'')
   \<and> new_StorageManager plain_platform None = Inr (storage local_app)
   \<and> status (fst (upload_image local_app (quiet_world [])
         (Some \<lparr>originalname = ''cat.png'', mimetype = ''image/png'',
                 contents = [137, 80, 78]\<rparr>)
         None ''u1'' ''42'' ''2024-01-01T00:00:00.000Z'')) = 500
   \<and> uploads (snd (upload_image local_app (quiet_world [])
         (Some \<lparr>originalname = ''cat.png'', mimetype = ''image/png'',
                 contents = [137, 80, 78]\<rparr>)
         None ''u1'' ''42'' ''2024-01-01T00:00:00.000Z'')) = [(''u1.png'', [137, 80, 78])]"
proof -
  have "FilesystemAdapter_url plain_platform local_adapter ''images/u1.png''
          = Inl (TypeError ''this.client.url is not a function'')"
    using url_call_throws [of plain_platform "Some ''local''"
        "Some [(''root'', ''storage''), (''url'', ''/storage'')]" local_adapter
        "''images/u1.png''"]
    by (simp add: new_local_adapter)
  moreover have "new_StorageManager plain_platform None = Inr (storage local_app)"
    by (simp add: new_local_manager local_app_def)
  ultimately show ?thesis
    by (simp add: new_local_adapter upload_on_local_disk)
qed

lemma new_s3_adapter:
  "new_FilesystemAdapter plain_platform (Some ''s3'') (Some [(''bucket'', ''assets'')])
     = Inr s3_adapter"
  by (simp add: new_FilesystemAdapter_def new_S3Driver_def s3_adapter_def field_def
      or_else_def plain_platform_def)

section \<open>Faults in \<^verbatim>\<open>exists\<close>, \<^verbatim>\<open>delete\<close> and \<^verbatim>\<open>move\<close>\<close>

text \<open>
  On an adapter made by the constructor the names \<^verbatim>\<open>exists\<close>, \<^verbatim>\<open>delete\<close>, \<^verbatim>\<open>copy\<close>
  and \<^verbatim>\<open>put\<close> are not own properties of the client, so they resolve to the methods.
\<close>

lemma built_methods:
  assumes "built pf a"
  shows "resolve_method (client a) ''exists'' expr = Inr ()"
    and "resolve_method (client a) ''delete'' expr = Inr ()"
    and "resolve_method (client a) ''copy'' expr = Inr ()"
    and "resolve_method (client a) ''put'' expr = Inr ()"
  using assms
  by (auto simp add: built_def new_FilesystemAdapter_def new_LocalDriver_def new_S3Driver_def
      new_AzureDriver_def new_GCSDriver_def resolve_method_def get_property_def Let_def
      split: if_splits option.splits sum.splits)

lemma exists_never_throws:
  "\<exists>b. LocalDriver_exists st p = Inr b"
  "\<exists>b. S3Driver_exists st p = Inr b"
  "\<exists>b. AzureDriver_exists st p = Inr b"
  by (auto simp add: LocalDriver_exists_def S3Driver_exists_def AzureDriver_exists_def
      split: sum.splits)

lemma exists_fault_false:
  assumes "fault st (Probe p) = Some e"
  shows "LocalDriver_exists st p = Inr False"
    and "S3Driver_exists st p = Inr False"
    and "AzureDriver_exists st p = Inr False"
  using assms
  by (simp_all add: LocalDriver_exists_def S3Driver_exists_def AzureDriver_exists_def
      fs_access_def sdk_head_def)

lemma remote_delete_never_throws:
  "\<exists>b. fst (S3Driver_delete st p) = Inr b"
  "\<exists>b. fst (AzureDriver_delete st p) = Inr b"
  "\<exists>b. fst (GCSDriver_delete st p) = Inr b"
  by (auto simp add: S3Driver_delete_def AzureDriver_delete_def GCSDriver_delete_def
      split: sum.splits prod.splits)

lemma remote_delete_fault_false:
  assumes "fault st (Remove p) = Some e"
  shows "S3Driver_delete st p = (Inr False, st)"
    and "AzureDriver_delete st p = (Inr False, st)"
    and "GCSDriver_delete st p = (Inr False, st)"
  using assms
  by (simp_all add: S3Driver_delete_def AzureDriver_delete_def GCSDriver_delete_def
      sdk_delete_def)

lemma local_delete_absent:
  "fault st (Remove p) = None \<Longrightarrow> objects st p = None \<Longrightarrow>
     LocalDriver_delete st p = (Inr False, st)"
  by (simp add: LocalDriver_delete_def fs_unlink_def)

lemma local_delete_fault:
  "fault st (Remove p) = Some e \<Longrightarrow>
     LocalDriver_delete st p = (if code e = Some ''ENOENT'' then Inr False else Inl e, st)"
  by (simp add: LocalDriver_delete_def fs_unlink_def)

lemma adapter_exists_never_throws:
  assumes "built pf a" and "cls (client a) \<noteq> GCSDriver"
  shows "\<exists>b. FilesystemAdapter_exists a st p = Inr b"
  using assms exists_never_throws [of st p]
  by (cases "cls (client a)") (auto simp add: FilesystemAdapter_exists_def built_methods)

lemma adapter_delete_never_throws:
  assumes "built pf a" and "cls (client a) \<noteq> LocalDriver"
  shows "\<exists>b. fst (FilesystemAdapter_delete a st p) = Inr b"
  using assms remote_delete_never_throws [of st p]
  by (cases "cls (client a)") (auto simp add: FilesystemAdapter_delete_def built_methods)

text \<open>
  C6, as the code has it.  \<^verbatim>\<open>exists\<close> of the local, S3 and Azure drivers never throws,
  and a fault of the probe gives \<^verbatim>\<open>false\<close>.  \<^verbatim>\<open>delete\<close> of the S3, Azure and GCS
  drivers never throws, and a fault of the removal gives \<^verbatim>\<open>false\<close>.  \<^verbatim>\<open>delete\<close> of the
  local driver gives \<^verbatim>\<open>false\<close> when the path is absent (the error code ENOENT) and
  throws every other fault again.  The same holds through the adapter.
\<close>

theorem exists_delete_faults:
  "(\<exists>b. LocalDriver_exists st p = Inr b)
   \<and> (\<exists>b. S3Driver_exists st p = Inr b)
   \<and> (\<exists>b. AzureDriver_exists st p = Inr b)
   \<and> (fault st (Probe p) = Some e \<longrightarrow>
        LocalDriver_exists st p = Inr False
        \<and> S3Driver_exists st p = Inr False
        \<and> AzureDriver_exists st p = Inr False)
   \<and> (\<exists>b. fst (S3Driver_delete st p) = Inr b)
   \<and> (\<exists>b. fst (AzureDriver_delete st p) = Inr b)
   \<and> (\<exists>b. fst (GCSDriver_delete st p) = Inr b)
   \<and> (fault st (Remove p) = Some e \<longrightarrow>
        S3Driver_delete st p = (Inr False, st)
        \<and> AzureDriver_delete st p = (Inr False, st)
        \<and> GCSDriver_delete st p = (Inr False, st)
        \<and> LocalDriver_delete st p
            = (if code e = Some ''ENOENT'' then Inr False else Inl e, st))
   \<and> (fault st (Remove p) = None \<and> objects st p = None \<longrightarrow>
        LocalDriver_delete st p = (Inr False, st))
   \<and> (built pf a \<and> cls (client a) \<noteq> GCSDriver \<longrightarrow>
        (\<exists>b. FilesystemAdapter_exists a st p = Inr b))
   \<and> (built pf a \<and> cls (client a) \<noteq> LocalDriver \<longrightarrow>
        (\<exists>b. fst (FilesystemAdapter_delete a st p) = Inr b))"
  using exists_never_throws [of st p] exists_fault_false [of st p e]
    remote_delete_never_throws [of st p] remote_delete_fault_false [of st p e]
    local_delete_absent [of st p] local_delete_fault [of st p e]
    adapter_exists_never_throws [of pf a st p] adapter_delete_never_throws [of pf a st p]
  by simp

text \<open>
  The claim itself fails on the local driver: a removal that fails for a reason other
  than absence (here a permission error) is thrown again, not turned into \<^verbatim>\<open>false\<close>.
\<close>

theorem local_delete_rethrows:
  "LocalDriver_delete
       (failing (Remove ''images/a.png'') (EACCES)
          (quiet_store\<lparr>objects := [''images/a.png'' \<mapsto> [137, 80, 78]]\<rparr>))
       ''images/a.png''
     = (Inl (EACCES),
        failing (Remove ''images/a.png'') (EACCES)
          (quiet_store\<lparr>objects := [''images/a.png'' \<mapsto> [137, 80, 78]]\<rparr>))"
  by (simp add: LocalDriver_delete_def fs_unlink_def failing_def quiet_store_def)

theorem exists_delete_faults_witness:
  "S3Driver_delete (failing (Remove ''images/a.png'') (Error ''AccessDenied'') quiet_store)
       ''images/a.png''
     = (Inr False, failing (Remove ''images/a.png'') (Error ''AccessDenied'') quiet_store)
   \<and> LocalDriver_delete quiet_store ''images/a.png'' = (Inr False, quiet_store)
   \<and> LocalDriver_exists (failing (Probe ''images/a.png'') (EACCES) quiet_store)
         ''images/a.png''
     = Inr False
   \<and> (\<exists>b. FilesystemAdapter_exists local_adapter quiet_store ''images/a.png'' = Inr b)
   \<and> (\<exists>b. fst (FilesystemAdapter_delete s3_adapter quiet_store ''images/a.png'') = Inr b)"
proof -
  have l: "built plain_platform local_adapter"
    using new_local_adapter by (rule builtI)
  have s: "built plain_platform s3_adapter"
    using new_s3_adapter by (rule builtI)
  have f1: "fault (failing (Remove ''images/a.png'') (Error ''AccessDenied'') quiet_store)
              (Remove ''images/a.png'') = Some (Error ''AccessDenied'')"
    by (simp add: failing_def)
  have f2: "fault (failing (Probe ''images/a.png'') (EACCES) quiet_store)
              (Probe ''images/a.png'') = Some (EACCES)"
    by (simp add: failing_def)
  have f3: "fault quiet_store (Remove ''images/a.png'') = None
            \<and> objects quiet_store ''images/a.png'' = None"
    by (simp add: quiet_store_def)
  show ?thesis
    using exists_delete_faults
        [of "failing (Remove ''images/a.png'') (Error ''AccessDenied'') quiet_store"
            "''images/a.png''" "Error ''AccessDenied''" plain_platform s3_adapter]
      exists_delete_faults
        [of "failing (Probe ''images/a.png'') (EACCES) quiet_store"
            "''images/a.png''" "EACCES" plain_platform s3_adapter]
      exists_delete_faults
        [of quiet_store "''images/a.png''" "EACCES" plain_platform local_adapter]
      exists_delete_faults
        [of quiet_store "''images/a.png''" "EACCES" plain_platform s3_adapter]
      l s f1 f2 f3
    by (simp add: local_adapter_def s3_adapter_def)
qed

lemma move_unfold:
  "FilesystemAdapter_move a st from to =
     (case FilesystemAdapter_copy a st from to of
        (Inl e, st1) \<Rightarrow> (Inl e, st1)
      | (Inr copied, st1) \<Rightarrow>
          (case FilesystemAdapter_delete a st1 from of
             (Inl e, st2) \<Rightarrow> (Inl e, st2)
           | (Inr deleted, st2) \<Rightarrow> (Inr True, st2)))"
  by (simp add: FilesystemAdapter_move_def)

lemma move_never_false: "fst (FilesystemAdapter_move a st from to) \<noteq> Inr False"
  by (simp add: FilesystemAdapter_move_def split: prod.splits sum.splits)

lemma move_true_iff:
  "fst (FilesystemAdapter_move a st from to) = Inr True \<longleftrightarrow>
     (\<exists>copied st1 deleted.
        FilesystemAdapter_copy a st from to = (Inr copied, st1)
        \<and> fst (FilesystemAdapter_delete a st1 from) = Inr deleted)"
  by (auto simp add: FilesystemAdapter_move_def split: prod.splits sum.splits)

lemma move_remote_ignores_delete:
  assumes "built pf a" and "cls (client a) \<noteq> LocalDriver"
    and "FilesystemAdapter_copy a st from to = (Inr copied, st1)"
  shows "fst (FilesystemAdapter_move a st from to) = Inr True"
  using adapter_delete_never_throws [OF assms(1,2), of st1 "from"] assms(3)
  by (auto simp add: move_true_iff)

lemma move_local_delete_fault:
  assumes "built pf a" and "cls (client a) = LocalDriver"
    and "FilesystemAdapter_copy a st from to = (Inr copied, st1)"
    and "fault st1 (Remove from) = Some e"
  shows "FilesystemAdapter_move a st from to
           = (if code e = Some ''ENOENT'' then Inr True else Inl e, st1)"
  using assms
  by (simp add: FilesystemAdapter_move_def FilesystemAdapter_delete_def built_methods
      local_delete_fault)

text \<open>
  C7, as the code has it.  \<^verbatim>\<open>move(from, to)\<close> is \<^verbatim>\<open>copy(from, to)\<close> followed by
  \<^verbatim>\<open>delete(from)\<close>, and it returns \<^verbatim>\<open>true\<close> whenever neither of the two throws: what
  \<^verbatim>\<open>delete\<close> returns is not looked at.  So the move fails only when the copy throws or
  the delete throws.  On the S3, Azure and GCS drivers \<^verbatim>\<open>delete\<close> never throws, so there
  a move whose copy went through reports success even when the source could not be
  removed; on the local driver a failed removal makes the move fail unless the failure
  is ENOENT, the source being absent already.
\<close>

theorem move_is_copy_then_delete:
  "FilesystemAdapter_move a st from to =
     (case FilesystemAdapter_copy a st from to of
        (Inl e, st1) \<Rightarrow> (Inl e, st1)
      | (Inr copied, st1) \<Rightarrow>
          (case FilesystemAdapter_delete a st1 from of
             (Inl e, st2) \<Rightarrow> (Inl e, st2)
           | (Inr deleted, st2) \<Rightarrow> (Inr True, st2)))
   \<and> fst (FilesystemAdapter_move a st from to) \<noteq> Inr False
   \<and> (fst (FilesystemAdapter_move a st from to) = Inr True \<longleftrightarrow>
        (\<exists>copied st1 deleted.
           FilesystemAdapter_copy a st from to = (Inr copied, st1)
           \<and> fst (FilesystemAdapter_delete a st1 from) = Inr deleted))
   \<and> (built pf a \<and> cls (client a) \<noteq> LocalDriver
        \<and> FilesystemAdapter_copy a st from to = (Inr copied, st1) \<longrightarrow>
        fst (FilesystemAdapter_move a st from to) = Inr True)
   \<and> (built pf a \<and> cls (client a) = LocalDriver
        \<and> FilesystemAdapter_copy a st from to = (Inr copied, st1)
        \<and> fault st1 (Remove from) = Some e \<longrightarrow>
        FilesystemAdapter_move a st from to
          = (if code e = Some ''ENOENT'' then Inr True else Inl e, st1))"
  using move_unfold [of a st "from" to] move_never_false [of a st "from" to]
    move_true_iff [of a st "from" to]
    move_remote_ignores_delete [of pf a st "from" to copied st1]
    move_local_delete_fault [of pf a st "from" to copied st1 e]
  by blast

text \<open>
  The claim itself fails on an S3 disk: the copy goes through, the removal of the source
  is refused, and the move still reports success.  The source is still there, and what
  the copy has put at the destination is an object of no bytes.
\<close>

theorem s3_move_reports_success:
  "FilesystemAdapter_move s3_adapter
       (failing (Remove ''a.png'') (Error ''AccessDenied'')
          (quiet_store\<lparr>objects := [''a.png'' \<mapsto> [137, 80, 78]]\<rparr>))
       ''a.png'' ''b.png''
     = (Inr True,
        failing (Remove ''a.png'') (Error ''AccessDenied'')
          (quiet_store\<lparr>objects := [''a.png'' \<mapsto> [137, 80, 78], ''b.png'' \<mapsto> []]\<rparr>))
   \<and> fst (FilesystemAdapter_delete s3_adapter
         (failing (Remove ''a.png'') (Error ''AccessDenied'')
            (quiet_store\<lparr>objects := [''a.png'' \<mapsto> [137, 80, 78], ''b.png'' \<mapsto> []]\<rparr>))
         ''a.png'')
     = Inr False"
  by (simp add: FilesystemAdapter_move_def FilesystemAdapter_copy_def
      FilesystemAdapter_delete_def s3_adapter_def resolve_method_def get_property_def
      S3Driver_copy_def S3Driver_delete_def sdk_put_def sdk_delete_def failing_def
      quiet_store_def)

theorem move_is_copy_then_delete_witness:
  "fst (FilesystemAdapter_move s3_adapter
          (failing (Remove ''a.png'') (Error ''AccessDenied'')
             (quiet_store\<lparr>objects := [''a.png'' \<mapsto> [137, 80, 78]]\<rparr>))
          ''a.png'' ''b.png'')
     = Inr True
   \<and> FilesystemAdapter_move local_adapter
         (failing (Remove ''a.png'') (EACCES)
            (quiet_store\<lparr>objects := [''a.png'' \<mapsto> [137, 80, 78]]\<rparr>))
         ''a.png'' ''b.png''
     = (Inl (EACCES),
        failing (Remove ''a.png'') (EACCES)
          (quiet_store\<lparr>objects := [''a.png'' \<mapsto> [137, 80, 78], ''b.png'' \<mapsto> [137, 80, 78]]\<rparr>))"
proof -
  let ?s3 = "failing (Remove ''a.png'') (Error ''AccessDenied'')
               (quiet_store\<lparr>objects := [''a.png'' \<mapsto> [137, 80, 78]]\<rparr>)"
  let ?s3' = "failing (Remove ''a.png'') (Error ''AccessDenied'')
               (quiet_store\<lparr>objects := [''a.png'' \<mapsto> [137, 80, 78], ''b.png'' \<mapsto> []]\<rparr>)"
  let ?l = "failing (Remove ''a.png'') (EACCES)
               (quiet_store\<lparr>objects := [''a.png'' \<mapsto> [137, 80, 78]]\<rparr>)"
  let ?l' = "failing (Remove ''a.png'') (EACCES)
               (quiet_store\<lparr>objects := [''a.png'' \<mapsto> [137, 80, 78], ''b.png'' \<mapsto> [137, 80, 78]]\<rparr>)"
  have bs: "built plain_platform s3_adapter"
    using new_s3_adapter by (rule builtI)
  have bl: "built plain_platform local_adapter"
    using new_local_adapter by (rule builtI)
  have cs: "FilesystemAdapter_copy s3_adapter ?s3 ''a.png'' ''b.png'' = (Inr True, ?s3')"
    by (simp add: FilesystemAdapter_copy_def s3_adapter_def resolve_method_def
        get_property_def S3Driver_copy_def sdk_put_def failing_def quiet_store_def)
  have cl: "FilesystemAdapter_copy local_adapter ?l ''a.png'' ''b.png'' = (Inr True, ?l')"
    by (simp add: FilesystemAdapter_copy_def local_adapter_def resolve_method_def
        get_property_def LocalDriver_copy_def ensureDirectory_def fs_mkdir_def
        fs_copyFile_def failing_def quiet_store_def)
  have ks: "cls (client s3_adapter) \<noteq> LocalDriver"
    by (simp add: s3_adapter_def)
  have kl: "cls (client local_adapter) = LocalDriver"
    by (simp add: local_adapter_def)
  have fl: "fault ?l' (Remove ''a.png'') = Some (EACCES)"
    by (simp add: failing_def)
  have "fst (FilesystemAdapter_move s3_adapter ?s3 ''a.png'' ''b.png'') = Inr True"
    using move_is_copy_then_delete
        [of s3_adapter ?s3 "''a.png''" "''b.png''" plain_platform True ?s3'] bs ks cs
    by blast
  moreover have "FilesystemAdapter_move local_adapter ?l ''a.png'' ''b.png''
      = (if code (EACCES) = Some ''ENOENT'' then Inr True
         else Inl (EACCES), ?l')"
    using move_is_copy_then_delete
        [of local_adapter ?l "''a.png''" "''b.png''" plain_platform True ?l'
            "EACCES"] bl kl cl fl
    by blast
  ultimately show ?thesis
    by simp
qed

section \<open>The variant handler: order of the checks and the cache write\<close>

lemma get_variant_unsupported:
  "js_toLowerCase format \<notin> set supportedFormats \<Longrightarrow>
     get_variant w image_id size_token format = (Json 400 (error_body ''Unsupported format''), w)"
  by (simp add: get_variant_def)

lemma get_variant_not_found:
  "js_toLowerCase format \<in> set supportedFormats \<Longrightarrow>
   readdir w UPLOAD_DIR = Inr files \<Longrightarrow>
   find (\<lambda>f. js_startsWith f image_id) files = None \<Longrightarrow>
     get_variant w image_id size_token format = (Json 404 (error_body ''Image not found''), w)"
  by (simp add: get_variant_def)

lemma get_variant_bad_size:
  "js_toLowerCase format \<in> set supportedFormats \<Longrightarrow>
   readdir w UPLOAD_DIR = Inr files \<Longrightarrow>
   find (\<lambda>f. js_startsWith f image_id) files = Some originalFile \<Longrightarrow>
   parse_size size_token = Inl msg \<Longrightarrow>
     get_variant w image_id size_token format = (Json 400 (error_body msg), w)"
  by (simp add: get_variant_def)

lemma get_variant_404:
  assumes "status (fst (get_variant w image_id size_token format)) = 404"
  shows "js_toLowerCase format \<in> set supportedFormats
         \<and> (\<exists>files. readdir w UPLOAD_DIR = Inr files
               \<and> find (\<lambda>f. js_startsWith f image_id) files = None)"
  using assms
  by (auto simp add: get_variant_def Let_def
      split: if_splits sum.splits option.splits prod.splits)

lemma get_variant_400:
  assumes "status (fst (get_variant w image_id size_token format)) = 400"
  shows "js_toLowerCase format \<notin> set supportedFormats
         \<or> (\<exists>files originalFile msg. readdir w UPLOAD_DIR = Inr files
               \<and> find (\<lambda>f. js_startsWith f image_id) files = Some originalFile
               \<and> parse_size size_token = Inl msg)"
  using assms
  by (auto simp add: get_variant_def Let_def
      split: if_splits sum.splits option.splits prod.splits)

text \<open>
  C3, as the code has it.  Only the format token is checked before the original is
  located: an unsupported format gives 400 for every id.  The size token is parsed after
  the original has been found: with a supported format, a request for an id without
  original gives 404 whatever the size token is, valid or not, and an invalid size token
  gives 400 only when the original exists.  So a 404 needs a supported format, not a
  valid size; and a 400 is an unsupported format, or an invalid size for an id whose
  original was found.
\<close>

theorem format_then_original_then_size:
  "(js_toLowerCase format \<notin> set supportedFormats \<longrightarrow>
      get_variant w image_id size_token format
        = (Json 400 (error_body ''Unsupported format''), w))
   \<and> (js_toLowerCase format \<in> set supportedFormats
        \<and> readdir w UPLOAD_DIR = Inr files
        \<and> find (\<lambda>f. js_startsWith f image_id) files = None \<longrightarrow>
      get_variant w image_id size_token format
        = (Json 404 (error_body ''Image not found''), w))
   \<and> (js_toLowerCase format \<in> set supportedFormats
        \<and> readdir w UPLOAD_DIR = Inr files
        \<and> find (\<lambda>f. js_startsWith f image_id) files = Some originalFile
        \<and> parse_size size_token = Inl msg \<longrightarrow>
      get_variant w image_id size_token format = (Json 400 (error_body msg), w))
   \<and> (status (fst (get_variant w image_id size_token format)) = 404 \<longrightarrow>
      js_toLowerCase format \<in> set supportedFormats
      \<and> (\<exists>fs. readdir w UPLOAD_DIR = Inr fs
            \<and> find (\<lambda>f. js_startsWith f image_id) fs = None))
   \<and> (status (fst (get_variant w image_id size_token format)) = 400 \<longrightarrow>
      js_toLowerCase format \<notin> set supportedFormats
      \<or> (\<exists>fs original m. readdir w UPLOAD_DIR = Inr fs
            \<and> find (\<lambda>f. js_startsWith f image_id) fs = Some original
            \<and> parse_size size_token = Inl m))"
  using get_variant_unsupported [of format w image_id size_token]
    get_variant_not_found [of format w files image_id size_token]
    get_variant_bad_size [of format w files image_id originalFile size_token msg]
    get_variant_404 [of w image_id size_token format]
    get_variant_400 [of w image_id size_token format]
  by blast

lemma parse_bogus: "parse_size ''bogus'' = Inl ''Invalid size parameter''"
  by (simp add: parse_eval)

text \<open>
  The claim itself fails for an invalid size token on an id that has no original: the
  answer is 404, not 400.
\<close>

theorem invalid_size_unknown_id_is_404:
  "parse_size ''bogus'' = Inl ''Invalid size parameter''
   \<and> get_variant (quiet_world []) ''nobody'' ''bogus'' ''png''
     = (Json 404 (error_body ''Image not found''), quiet_world [])"
  by (simp add: parse_bogus get_variant_def lower_png supportedFormats_def readdir_def
      quiet_world_def entries_def)

theorem format_then_original_then_size_witness:
  "get_variant (quiet_world []) ''nobody'' ''bogus'' ''png''
     = (Json 404 (error_body ''Image not found''), quiet_world [])
   \<and> get_variant (quiet_world []) ''nobody'' ''bogus'' ''bmp''
     = (Json 400 (error_body ''Unsupported format''), quiet_world [])
   \<and> get_variant (quiet_world [(''a1.png'', [137, 80, 78])]) ''a1'' ''bogus'' ''png''
     = (Json 400 (error_body ''Invalid size parameter''), quiet_world [(''a1.png'', [137, 80, 78])])"
proof -
  have png: "js_toLowerCase ''png'' \<in> set supportedFormats"
    by (simp add: lower_png supportedFormats_def)
  have bmp: "js_toLowerCase ''bmp'' \<notin> set supportedFormats"
    by (simp add: js_toLowerCase_def lower_char_def supportedFormats_def)
  have r0: "readdir (quiet_world []) UPLOAD_DIR = Inr []"
    by (simp add: readdir_def quiet_world_def entries_def)
  have r1: "readdir (quiet_world [(''a1.png'', [137, 80, 78])]) UPLOAD_DIR = Inr [''a1.png'']"
    by (simp add: readdir_def quiet_world_def entries_def)
  have f0: "find (\<lambda>f. js_startsWith f ''nobody'') [] = None"
    by simp
  have f1: "find (\<lambda>f. js_startsWith f ''a1'') [''a1.png''] = Some ''a1.png''"
    by (simp add: js_startsWith_def)
  have a: "get_variant (quiet_world []) ''nobody'' ''bogus'' ''png''
             = (Json 404 (error_body ''Image not found''), quiet_world [])"
    using format_then_original_then_size
        [of "''png''" "quiet_world []" "''nobody''" "''bogus''" "[]"] png r0 f0
    by blast
  have b: "get_variant (quiet_world []) ''nobody'' ''bogus'' ''bmp''
             = (Json 400 (error_body ''Unsupported format''), quiet_world [])"
    using format_then_original_then_size
        [of "''bmp''" "quiet_world []" "''nobody''" "''bogus''"] bmp
    by blast
  have c: "get_variant (quiet_world [(''a1.png'', [137, 80, 78])]) ''a1'' ''bogus'' ''png''
             = (Json 400 (error_body ''Invalid size parameter''),
                quiet_world [(''a1.png'', [137, 80, 78])])"
    using format_then_original_then_size
        [of "''png''" "quiet_world [(''a1.png'', [137, 80, 78])]" "''a1''" "''bogus''"
            "[''a1.png'']" "''a1.png''" "''Invalid size parameter''"] png r1 f1 parse_bogus
    by blast
  show ?thesis
    using a b c by simp
qed

lemma get_variant_write_fails:
  assumes "js_toLowerCase format \<in> set supportedFormats"
    and "readdir w UPLOAD_DIR = Inr files"
    and "find (\<lambda>f. js_startsWith f image_id) files = Some originalFile"
    and "parse_size size_token = Inr (width, height)"
    and "access w CACHE_DIR (cachePath (cacheKey image_id width height format) format) = Inl miss"
    and "toBuffer w originalFile width height (select_encoder format) = Inr processedBuffer"
    and "fs_fault w (WriteFile CACHE_DIR (cachePath (cacheKey image_id width height format) format))
           = Some e"
  shows "get_variant w image_id size_token format
           = (Json 500 (error_message_body ''Failed to process image'' e), w)"
  using assms by (simp add: get_variant_def writeFile_def Let_def)

lemma get_variant_write_succeeds:
  assumes "js_toLowerCase format \<in> set supportedFormats"
    and "readdir w UPLOAD_DIR = Inr files"
    and "find (\<lambda>f. js_startsWith f image_id) files = Some originalFile"
    and "parse_size size_token = Inr (width, height)"
    and "access w CACHE_DIR (cachePath (cacheKey image_id width height format) format) = Inl miss"
    and "toBuffer w originalFile width height (select_encoder format) = Inr processedBuffer"
    and "fs_fault w (WriteFile CACHE_DIR (cachePath (cacheKey image_id width height format) format))
           = None"
  shows "fst (get_variant w image_id size_token format)
           = Send (contentType format) ''public, max-age=31536000'' processedBuffer"
  using assms by (simp add: get_variant_def writeFile_def Let_def)

text \<open>
  C2, as the code has it.  The write of the rendered bytes to the cache is not guarded:
  when a request has reached the transform step, the bytes were rendered and the write
  to the cache file fails, the handler answers 500 with the message of the write error
  and the rendered bytes are not served.  The rendered bytes are served exactly when the
  write goes through.  (A write that fails is all or nothing here, so the world of the
  answer is the one of the request; what a failed write leaves of the file on a real
  disk is not part of the model.)
\<close>

theorem cache_write_failure_is_500:
  "js_toLowerCase format \<in> set supportedFormats
   \<and> readdir w UPLOAD_DIR = Inr files
   \<and> find (\<lambda>f. js_startsWith f image_id) files = Some originalFile
   \<and> parse_size size_token = Inr (width, height)
   \<and> access w CACHE_DIR (cachePath (cacheKey image_id width height format) format) = Inl miss
   \<and> toBuffer w originalFile width height (select_encoder format) = Inr processedBuffer
   \<longrightarrow>
     (fs_fault w (WriteFile CACHE_DIR (cachePath (cacheKey image_id width height format) format))
        = Some e \<longrightarrow>
      get_variant w image_id size_token format
        = (Json 500 (error_message_body ''Failed to process image'' e), w))
     \<and> (fs_fault w (WriteFile CACHE_DIR (cachePath (cacheKey image_id width height format) format))
          = None \<longrightarrow>
        fst (get_variant w image_id size_token format)
          = Send (contentType format) ''public, max-age=31536000'' processedBuffer)"
  using get_variant_write_fails
      [of format w files image_id originalFile size_token width height miss processedBuffer e]
    get_variant_write_succeeds
      [of format w files image_id originalFile size_token width height miss processedBuffer]
  by blast

text \<open>
  The claim itself fails: the original is there, the bytes are rendered, the disk is full
  when the cache file is written, and the request ends in a 500.
\<close>

theorem full_disk_fails_render:
  "toBuffer
       (failing_fs (WriteFile CACHE_DIR ''a1_150x150_png.png'')
          (SystemError ''ENOSPC'' ''ENOSPC: no space left on device, write'')
          (quiet_world [(''a1.png'', [137, 80, 78])]))
       ''a1.png'' (Some (Finite 150)) (Some (Finite 150)) (select_encoder ''png'')
     = Inr [137, 80, 78]
   \<and> get_variant
       (failing_fs (WriteFile CACHE_DIR ''a1_150x150_png.png'')
          (SystemError ''ENOSPC'' ''ENOSPC: no space left on device, write'')
          (quiet_world [(''a1.png'', [137, 80, 78])]))
       ''a1'' ''150x150'' ''png''
     = (Json 500 (JObject [(''error'', JString ''Failed to process image''),
                           (''message'', JString ''ENOSPC: no space left on device, write'')]),
        failing_fs (WriteFile CACHE_DIR ''a1_150x150_png.png'')
          (SystemError ''ENOSPC'' ''ENOSPC: no space left on device, write'')
          (quiet_world [(''a1.png'', [137, 80, 78])]))"
  by (simp add: handler_eval failing_fs_def parse_150x150 to_string_150
      error_message_body_def)

theorem cache_write_failure_is_500_witness:
  "get_variant
       (failing_fs (WriteFile CACHE_DIR ''a1_150x150_png.png'') EACCES
          (quiet_world [(''a1.png'', [137, 80, 78])]))
       ''a1'' ''thumbnail'' ''png''
     = (Json 500 (error_message_body ''Failed to process image'' EACCES),
        failing_fs (WriteFile CACHE_DIR ''a1_150x150_png.png'') EACCES
          (quiet_world [(''a1.png'', [137, 80, 78])]))
   \<and> fst (get_variant (quiet_world [(''a1.png'', [137, 80, 78])]) ''a1'' ''thumbnail'' ''png'')
     = Send ''image/png'' ''public, max-age=31536000'' [137, 80, 78]"
proof -
  let ?q = "quiet_world [(''a1.png'', [137, 80, 78])]"
  let ?w = "failing_fs (WriteFile CACHE_DIR ''a1_150x150_png.png'') EACCES ?q"
  let ?d = "Some (Finite 150)"
  have png: "js_toLowerCase ''png'' \<in> set supportedFormats"
    by (simp add: lower_png supportedFormats_def)
  have name: "cachePath (cacheKey ''a1'' ?d ?d ''png'') ''png'' = ''a1_150x150_png.png''"
    by (simp add: cachePath_def cacheKey_def dim_to_string_def to_string_150)
  have rw: "readdir ?w UPLOAD_DIR = Inr [''a1.png'']"
    and rq: "readdir ?q UPLOAD_DIR = Inr [''a1.png'']"
    by (simp_all add: readdir_def failing_fs_def quiet_world_def entries_def)
  have f: "find (\<lambda>f. js_startsWith f ''a1'') [''a1.png''] = Some ''a1.png''"
    by (simp add: js_startsWith_def)
  have aw: "access ?w CACHE_DIR ''a1_150x150_png.png'' = Inl ENOENT"
    and aq: "access ?q CACHE_DIR ''a1_150x150_png.png'' = Inl ENOENT"
    by (simp_all add: access_def failing_fs_def quiet_world_def entries_def)
  have tw: "toBuffer ?w ''a1.png'' ?d ?d (select_encoder ''png'') = Inr [137, 80, 78]"
    and tq: "toBuffer ?q ''a1.png'' ?d ?d (select_encoder ''png'') = Inr [137, 80, 78]"
    by (simp_all add: toBuffer_def failing_fs_def quiet_world_def)
  have fw: "fs_fault ?w (WriteFile CACHE_DIR ''a1_150x150_png.png'') = Some EACCES"
    and fq: "fs_fault ?q (WriteFile CACHE_DIR ''a1_150x150_png.png'') = None"
    by (simp_all add: failing_fs_def quiet_world_def)
  have ct: "contentType ''png'' = ''image/png''"
    by (simp add: contentType_def)
  have "get_variant ?w ''a1'' ''thumbnail'' ''png''
          = (Json 500 (error_message_body ''Failed to process image'' EACCES), ?w)"
    using cache_write_failure_is_500
        [of "''png''" ?w "[''a1.png'']" "''a1''" "''a1.png''" "''thumbnail''" ?d ?d ENOENT
            "[137, 80, 78]" EACCES]
      png rw f parse_thumbnail aw tw fw
    unfolding name by blast
  moreover have "fst (get_variant ?q ''a1'' ''thumbnail'' ''png'')
          = Send (contentType ''png'') ''public, max-age=31536000'' [137, 80, 78]"
    using cache_write_failure_is_500
        [of "''png''" ?q "[''a1.png'']" "''a1''" "''a1.png''" "''thumbnail''" ?d ?d ENOENT
            "[137, 80, 78]" EACCES]
      png rq f parse_thumbnail aq tq fq
    unfolding name by blast
  ultimately show ?thesis
    unfolding ct by simp
qed

section \<open>Which size tokens the parser takes\<close>

lemma names_start_with_no_digit:
  "\<forall>n \<in> fst ` set presetSizes \<union> set object_prototype_keys. \<not> is_digit (hd n)"
  by (simp add: presetSizes_def object_prototype_keys_def is_digit_def)

lemma digit_first_no_name:
  assumes "is_digit c"
  shows "map_of presetSizes (c # s) = None" and "c # s \<notin> set object_prototype_keys"
proof -
  have "c # s \<notin> fst ` set presetSizes \<union> set object_prototype_keys"
  proof
    assume "c # s \<in> fst ` set presetSizes \<union> set object_prototype_keys"
    with names_start_with_no_digit have "\<not> is_digit (hd (c # s))"
      by (rule bspec)
    with assms show False
      by simp
  qed
  then show "map_of presetSizes (c # s) = None" and "c # s \<notin> set object_prototype_keys"
    by (simp_all add: map_of_eq_None_iff)
qed

lemma digits_no_x: "list_all is_digit s \<Longrightarrow> CHR ''x'' \<notin> set s"
  by (auto simp add: list_all_iff is_digit_def)

lemma parse_size_no_x:
  assumes "map_of presetSizes size_token = None"
    and "size_token \<notin> set object_prototype_keys"
    and "\<not> js_includes size_token (CHR ''x'')"
  shows "parse_size size_token = Inl ''Invalid size parameter''"
  using assms by (simp add: parse_size_def)

lemma parse_size_with_x:
  assumes "map_of presetSizes size_token = None"
    and "size_token \<notin> set object_prototype_keys"
    and "js_includes size_token (CHR ''x'')"
  shows "\<exists>a b rest. js_split (CHR ''x'') size_token = a # b # rest
           \<and> parse_size size_token
               = (if js_Number a = NaN \<or> js_Number b = NaN then Inl ''Invalid size format''
                  else Inr (Some (js_Number a), Some (js_Number b)))"
proof -
  have "2 \<le> length (js_split (CHR ''x'') size_token)"
    using assms(3) by (simp add: js_includes_def js_split_length)
  then obtain a b rest where s: "js_split (CHR ''x'') size_token = a # b # rest"
    by (cases "js_split (CHR ''x'') size_token" rule: list.exhaust)
       (auto simp add: Suc_le_eq neq_Nil_conv)
  show ?thesis
    using assms by (simp add: parse_size_def s nth_opt_def js_isNaN_def)
qed

lemma parse_size_digits:
  assumes "a \<noteq> []" and "list_all is_digit a" and "b \<noteq> []" and "list_all is_digit b"
  shows "parse_size (a @ ''x'' @ b) = Inr (Some (js_Number a), Some (js_Number b))"
proof -
  obtain c r where a: "a = c # r" and c: "is_digit c"
    using assms(1,2) by (cases a) auto
  have s: "js_split (CHR ''x'') (a @ CHR ''x'' # b) = [a, b]"
    using digits_no_x [OF assms(2)] digits_no_x [OF assms(4)]
    by (simp add: js_split_append js_split_no_sep)
  have n: "js_Number a \<noteq> NaN" "js_Number b \<noteq> NaN"
    using assms by (simp_all add: js_Number_digits_not_NaN)
  have "map_of presetSizes (a @ ''x'' @ b) = None"
    and "a @ ''x'' @ b \<notin> set object_prototype_keys"
    using digit_first_no_name [OF c, of "r @ ''x'' @ b"] by (simp_all add: a)
  then show ?thesis
    using n by (simp add: parse_size_def js_includes_def s nth_opt_def js_isNaN_def Let_def)
qed

text \<open>
  C4, as the code has it.  For a size token that is neither a preset name nor a name the
  preset table inherits: a token without the letter x is refused (400, invalid size
  parameter); a token with an x is cut at every x, the first two pieces are converted
  with \<^verbatim>\<open>Number\<close>, and the token is refused (400, invalid size format) exactly when one
  of the two is NaN; otherwise it is taken with these two numbers as width and height.
  Nothing asks for positive integers.  In particular every token of digits, x, digits is
  taken, a zero component included.
\<close>

theorem size_token_needs_numbers_only:
  "(map_of presetSizes size_token = None \<and> size_token \<notin> set object_prototype_keys
      \<and> \<not> js_includes size_token (CHR ''x'') \<longrightarrow>
      parse_size size_token = Inl ''Invalid size parameter'')
   \<and> (map_of presetSizes size_token = None \<and> size_token \<notin> set object_prototype_keys
      \<and> js_includes size_token (CHR ''x'') \<longrightarrow>
      (\<exists>p q rest. js_split (CHR ''x'') size_token = p # q # rest
         \<and> parse_size size_token
             = (if js_Number p = NaN \<or> js_Number q = NaN then Inl ''Invalid size format''
                else Inr (Some (js_Number p), Some (js_Number q)))))
   \<and> (a \<noteq> [] \<and> list_all is_digit a \<and> b \<noteq> [] \<and> list_all is_digit b \<longrightarrow>
      parse_size (a @ ''x'' @ b) = Inr (Some (js_Number a), Some (js_Number b))
      \<and> js_Number a \<noteq> NaN \<and> js_Number b \<noteq> NaN)"
proof (intro conjI impI)
  assume "map_of presetSizes size_token = None \<and> size_token \<notin> set object_prototype_keys
      \<and> \<not> js_includes size_token (CHR ''x'')"
  then show "parse_size size_token = Inl ''Invalid size parameter''"
    by (simp add: parse_size_no_x)
next
  assume "map_of presetSizes size_token = None \<and> size_token \<notin> set object_prototype_keys
      \<and> js_includes size_token (CHR ''x'')"
  then show "\<exists>p q rest. js_split (CHR ''x'') size_token = p # q # rest
         \<and> parse_size size_token
             = (if js_Number p = NaN \<or> js_Number q = NaN then Inl ''Invalid size format''
                else Inr (Some (js_Number p), Some (js_Number q)))"
    using parse_size_with_x [of size_token] by simp
next
  assume d: "a \<noteq> [] \<and> list_all is_digit a \<and> b \<noteq> [] \<and> list_all is_digit b"
  then show "parse_size (a @ ''x'' @ b) = Inr (Some (js_Number a), Some (js_Number b))"
    using parse_size_digits [of a b] by simp
  from d show "js_Number a \<noteq> NaN"
    by (simp add: js_Number_digits_not_NaN)
  from d show "js_Number b \<noteq> NaN"
    by (simp add: js_Number_digits_not_NaN)
qed

lemma quotient_of_3_2: "quotient_of (3 / 2) = (3, 2)"
proof -
  have e: "(3 / 2 :: rat) = Fract 3 2"
    by (simp add: Fract_of_int_quotient)
  show ?thesis
    unfolding e by (simp only: quotient_of_Fract) (simp add: Rat.normalize_def)
qed

lemma round_half_even_numeral: "round_half_even (numeral k) = numeral k"
  using round_half_even_of_int [of "numeral k"] by simp

lemma number_of_rat_3_2: "number_of_rat (3 / 2) = Finite (3 / 2)"
proof -
  have b: "bitlen 3 = 2" "bitlen 2 = 2"
    by (simp_all add: compute_bitlen)
  have f: "floor_log2 (3 / 2) = 0"
    by (simp add: floor_log2_def quotient_of_3_2 b pow2_def)
  show ?thesis
    by (simp add: number_of_rat_def round_pos_def Let_def f pow2_def round_half_even_numeral)
qed

lemma js_Number_fraction: "js_Number ''1.5'' = Finite (3 / 2)"
proof -
  have t: "js_trim ''1.5'' = ''1.5''"
    by (rule js_trim_plain) (simp_all add: plain_def)
  have u: "unsigned_decimal ''1.5'' = Some (3 / 2)"
    by (simp add: unsigned_decimal_def is_digit_def digit_val_def parse_exponent_def
        pow10_def Let_def)
  show ?thesis
    by (simp add: js_Number_def t non_decimal_def signed_decimal_def u number_of_rat_3_2)
qed

lemma js_Number_negative: "js_Number ''-5'' = Finite (- 5)"
proof -
  have t: "js_trim ''-5'' = ''-5''"
    by (rule js_trim_plain) (simp_all add: plain_def)
  have u: "unsigned_decimal ''5'' = Some 5"
    by (simp add: unsigned_decimal_digits is_digit_def)
  show ?thesis
    by (simp add: js_Number_def t non_decimal_def signed_decimal_def u number_of_rat_numeral
        negate_def)
qed

text \<open>
  The claim itself fails: tokens with a zero, an empty, a negative and a fractional
  component are taken.
\<close>

theorem zero_empty_negative_fraction_taken:
  "parse_size ''0x0'' = Inr (Some (Finite 0), Some (Finite 0))
   \<and> parse_size ''x'' = Inr (Some (Finite 0), Some (Finite 0))
   \<and> parse_size ''-5x10'' = Inr (Some (Finite (- 5)), Some (Finite 10))
   \<and> parse_size ''1.5x2'' = Inr (Some (Finite (3 / 2)), Some (Finite 2))"
proof -
  have z: "js_Number ''0'' = Finite 0"
    by (simp add: js_Number_digits is_digit_def number_of_rat_def)
  have n: "js_Number ''10'' = Finite 10" "js_Number ''2'' = Finite 2"
    by (simp_all add: number_eval)
  show ?thesis
    by (simp add: parse_eval z n js_Number_empty js_Number_negative js_Number_fraction)
qed

theorem size_token_needs_numbers_only_witness:
  "parse_size ''12x0'' = Inr (Some (Finite 12), Some (Finite 0))
   \<and> parse_size ''wide'' = Inl ''Invalid size parameter''
   \<and> parse_size ''abcxdef'' = Inl ''Invalid size format''"
proof -
  have d: "''12'' \<noteq> [] \<and> list_all is_digit ''12'' \<and> ''0'' \<noteq> [] \<and> list_all is_digit ''0''"
    by (simp add: is_digit_def)
  have n: "js_Number ''12'' = Finite 12"
    by (simp add: number_eval)
  have z: "js_Number ''0'' = Finite 0"
    by (simp add: js_Number_digits is_digit_def number_of_rat_def)
  have a: "parse_size (''12'' @ ''x'' @ ''0'') = Inr (Some (Finite 12), Some (Finite 0))"
    using size_token_needs_numbers_only [of _ "''12''" "''0''"] d
    unfolding n z by blast
  have w: "map_of presetSizes ''wide'' = None \<and> ''wide'' \<notin> set object_prototype_keys
           \<and> \<not> js_includes ''wide'' (CHR ''x'')"
    by (simp add: presetSizes_def object_prototype_keys_def js_includes_def)
  have b: "parse_size ''wide'' = Inl ''Invalid size parameter''"
    using size_token_needs_numbers_only [of "''wide''"] w by blast
  have c: "parse_size ''abcxdef'' = Inl ''Invalid size format''"
  proof -
    have t: "js_trim ''abc'' = ''abc''"
      by (rule js_trim_plain) (simp_all add: plain_def)
    have "js_Number ''abc'' = NaN"
      by (simp add: js_Number_def t non_decimal_def signed_decimal_def unsigned_decimal_def
          is_digit_def)
    then show ?thesis
      by (simp add: parse_eval)
  qed
  show ?thesis
    using a b c by simp
qed

section \<open>The registry of disks\<close>

lemma register_disks_names:
  "register_disks pf items acc = Inr ds \<Longrightarrow>
     fst ` set ds = fst ` set items \<union> fst ` set acc"
proof (induction items arbitrary: acc)
  case Nil
  then show ?case by simp
next
  case (Cons entry rest)
  obtain name dc where entry: "entry = (name, dc)"
    by (cases entry) auto
  from Cons.prems obtain a where
    r: "register_disks pf rest ((name, a) # acc) = Inr ds"
    by (auto simp add: entry split: sum.splits)
  from Cons.IH [OF r] show ?case
    by (auto simp add: entry)
qed

lemma lookup_disk_None:
  "lookup_disk ds name = None \<longleftrightarrow> name \<notin> fst ` set ds \<and> name \<notin> set object_prototype_keys"
proof (cases "map_of ds name")
  case None
  then have "name \<notin> fst ` set ds"
    by (simp add: map_of_eq_None_iff)
  with None show ?thesis
    by (simp add: lookup_disk_def)
next
  case (Some a)
  then have "map_of ds name \<noteq> None"
    by simp
  then have "name \<in> fst ` set ds"
    by (simp add: map_of_eq_None_iff)
  with Some show ?thesis
    by (simp add: lookup_disk_def)
qed

lemma lookup_disk_registered:
  "name \<in> fst ` set ds \<Longrightarrow> \<exists>a. lookup_disk ds name = Some (Disk a)"
  by (cases "map_of ds name") (auto simp add: lookup_disk_def map_of_eq_None_iff)

lemma adapter_of_local:
  assumes "new_FilesystemAdapter pf (Some ''local'') c = Inr a"
  shows "driver_name a = ''local'' \<and> cls (client a) = LocalDriver"
  using assms
  by (auto simp add: new_FilesystemAdapter_def new_LocalDriver_def Let_def split: sum.splits)

lemma manager_parts:
  assumes "new_StorageManager pf cfg = Inr m"
  shows "defaultDisk m = config_default cfg
         \<and> (\<exists>registered. fst ` set registered = fst ` set (configured_disks cfg)
              \<and> (if lookup_disk registered (config_default cfg) = None
                  then \<exists>a. driver_name a = ''local'' \<and> cls (client a) = LocalDriver
                         \<and> disks m = (config_default cfg, a) # registered
                  else disks m = registered))"
proof -
  from assms obtain ds where
    i: "initializeDisks pf cfg (config_default cfg) = Inr ds" and
    m: "m = \<lparr>disks = ds, defaultDisk = config_default cfg\<rparr>"
    by (auto simp add: new_StorageManager_def split: sum.splits)
  from i obtain registered where
    r: "register_disks pf (configured_disks cfg) [] = Inr registered"
    by (auto simp add: initializeDisks_def configured_disks_def Let_def split: sum.splits)
  have n: "fst ` set registered = fst ` set (configured_disks cfg)"
    using register_disks_names [OF r] by simp
  have c: "if lookup_disk registered (config_default cfg) = None
        then \<exists>a. driver_name a = ''local'' \<and> cls (client a) = LocalDriver
               \<and> ds = (config_default cfg, a) # registered
        else ds = registered"
    using i r adapter_of_local
    by (auto simp add: initializeDisks_def configured_disks_def [symmetric] Let_def
        split: sum.splits if_splits)
  have d: "defaultDisk m = config_default cfg" "disks m = ds"
    by (simp_all add: m)
  show ?thesis
    unfolding d
    by (rule conjI, rule refl, rule exI [of _ registered], rule conjI, rule n, rule c)
qed

lemma manager_names:
  assumes "new_StorageManager pf cfg = Inr m"
  shows "fst ` set (configured_disks cfg) \<subseteq> fst ` set (disks m)"
    and "fst ` set (disks m) \<subseteq> insert (config_default cfg) (fst ` set (configured_disks cfg))"
proof -
  from manager_parts [OF assms] obtain registered where
    n: "fst ` set registered = fst ` set (configured_disks cfg)" and
    c: "if lookup_disk registered (config_default cfg) = None
        then \<exists>a. driver_name a = ''local'' \<and> cls (client a) = LocalDriver
               \<and> disks m = (config_default cfg, a) # registered
        else disks m = registered"
    by blast
  have "fst ` set (disks m) = fst ` set registered
        \<or> fst ` set (disks m) = insert (config_default cfg) (fst ` set registered)"
  proof (cases "lookup_disk registered (config_default cfg) = None")
    case True
    with c obtain a where "disks m = (config_default cfg, a) # registered"
      by auto
    then show ?thesis
      by simp
  next
    case False
    with c show ?thesis
      by simp
  qed
  then show "fst ` set (configured_disks cfg) \<subseteq> fst ` set (disks m)"
    and "fst ` set (disks m) \<subseteq> insert (config_default cfg) (fst ` set (configured_disks cfg))"
    unfolding n by auto
qed

lemma config_default_not_Nil: "config_default cfg \<noteq> []"
  by (simp add: config_default_def split: option.splits)

lemma disk_default: "disk m None = disk m (Some (defaultDisk m))"
  by (simp add: disk_def)

lemma disk_unknown:
  assumes "new_StorageManager pf cfg = Inr m"
    and "name \<noteq> []" and "name \<notin> fst ` set (configured_disks cfg)"
    and "name \<noteq> config_default cfg" and "name \<notin> set object_prototype_keys"
  shows "disk m (Some name)
           = Inl (Error (''Storage disk '' @ [CHR 0x22] @ name @ [CHR 0x22]
                         @ '' is not configured''))"
proof -
  from manager_names(2) [OF assms(1)] have "name \<notin> fst ` set (disks m)"
    using assms(3,4) by auto
  then have "lookup_disk (disks m) name = None"
    using assms(5) by (simp add: lookup_disk_None)
  then show ?thesis
    using assms(2) by (simp add: disk_def)
qed

lemma disk_configured:
  assumes "new_StorageManager pf cfg = Inr m"
    and "name \<noteq> []" and "name \<in> fst ` set (configured_disks cfg)"
  shows "\<exists>a. disk m (Some name) = Inr (Disk a)"
proof -
  from manager_names(1) [OF assms(1)] have "name \<in> fst ` set (disks m)"
    using assms(3) by auto
  from lookup_disk_registered [OF this] obtain a where
    "lookup_disk (disks m) name = Some (Disk a)"
    by blast
  then show ?thesis
    using assms(2) by (simp add: disk_def)
qed

lemma disk_fallback:
  assumes "new_StorageManager pf cfg = Inr m"
    and "config_default cfg \<notin> fst ` set (configured_disks cfg)"
    and "config_default cfg \<notin> set object_prototype_keys"
  shows "\<exists>a. disk m (Some (config_default cfg)) = Inr (Disk a) \<and> disk m None = Inr (Disk a)
           \<and> driver_name a = ''local'' \<and> cls (client a) = LocalDriver"
proof -
  from manager_parts [OF assms(1)] obtain registered where
    d: "defaultDisk m = config_default cfg" and
    n: "fst ` set registered = fst ` set (configured_disks cfg)" and
    c: "if lookup_disk registered (config_default cfg) = None
        then \<exists>a. driver_name a = ''local'' \<and> cls (client a) = LocalDriver
               \<and> disks m = (config_default cfg, a) # registered
        else disks m = registered"
    by blast
  have "lookup_disk registered (config_default cfg) = None"
    using assms(2,3) n by (simp add: lookup_disk_None)
  with c obtain a where
    a: "driver_name a = ''local''" "cls (client a) = LocalDriver" and
    m: "disks m = (config_default cfg, a) # registered"
    by auto
  have "lookup_disk (disks m) (config_default cfg) = Some (Disk a)"
    by (simp add: m lookup_disk_def)
  then have "disk m (Some (config_default cfg)) = Inr (Disk a)"
    using config_default_not_Nil [of cfg] by (simp add: disk_def)
  then show ?thesis
    using a d by (auto simp add: disk_default)
qed

lemma local_not_inherited: "''local'' \<notin> set object_prototype_keys"
  by (simp add: object_prototype_keys_def)

lemma disk_local:
  assumes "new_StorageManager pf cfg = Inr m"
  shows "(\<exists>d. disk m (Some ''local'') = Inr d)
         \<longleftrightarrow> ''local'' \<in> fst ` set (configured_disks cfg) \<or> config_default cfg = ''local''"
proof (cases "''local'' \<in> fst ` set (configured_disks cfg)")
  case True
  with disk_configured [OF assms, of "''local''"] show ?thesis
    by auto
next
  case False
  show ?thesis
  proof (cases "config_default cfg = ''local''")
    case True
    with disk_fallback [OF assms] False local_not_inherited show ?thesis
      by auto
  next
    case d: False
    have "disk m (Some ''local'')
            = Inl (Error (''Storage disk '' @ [CHR 0x22] @ ''local'' @ [CHR 0x22]
                          @ '' is not configured''))"
      using disk_unknown [OF assms, of "''local''"] False d local_not_inherited by simp
    with False d show ?thesis
      by simp
  qed
qed

text \<open>The configuration that \<^verbatim>\<open>config/index.js\<close> gives.\<close>

lemma validate_vars:
  assumes "validate env = Inr vars"
  shows "vars ''STORAGE_DEFAULT''
           = Some (case env ''STORAGE_DEFAULT'' of None \<Rightarrow> ''local'' | Some d \<Rightarrow> d)"
    and "env ''STORAGE_DEFAULT'' \<noteq> Some []"
    and "env_set vars ''STORAGE_S3_BUCKET'' \<longleftrightarrow> env ''STORAGE_S3_BUCKET'' \<noteq> None"
    and "env_set vars ''STORAGE_AZURE_CONNECTION_STRING''
           \<longleftrightarrow> env ''STORAGE_AZURE_CONNECTION_STRING'' \<noteq> None"
    and "env_set vars ''STORAGE_GCS_BUCKET'' \<longleftrightarrow> env ''STORAGE_GCS_BUCKET'' \<noteq> None"
proof -
  from assms have
    n: "find (\<lambda>(key, dflt). env key = Some []) joi_strings = None" and
    v: "vars = (\<lambda>key. case env key of
                        Some v \<Rightarrow> Some v
                      | None \<Rightarrow> (case map_of joi_strings key of
                                   Some dflt \<Rightarrow> dflt
                                 | None \<Rightarrow> None))"
    by (auto simp add: validate_def split: option.splits)
  from n have e: "(key, dflt) \<in> set joi_strings \<Longrightarrow> env key \<noteq> Some []" for key dflt
    by (auto simp add: find_None_iff)
  show "env ''STORAGE_DEFAULT'' \<noteq> Some []"
    by (rule e [of _ "Some ''local''"]) (simp add: joi_strings_def)
  show "vars ''STORAGE_DEFAULT''
          = Some (case env ''STORAGE_DEFAULT'' of None \<Rightarrow> ''local'' | Some d \<Rightarrow> d)"
    by (simp add: v joi_strings_def split: option.splits)
  have s: "env ''STORAGE_S3_BUCKET'' \<noteq> Some []"
    by (rule e [of _ None]) (simp add: joi_strings_def)
  have a: "env ''STORAGE_AZURE_CONNECTION_STRING'' \<noteq> Some []"
    by (rule e [of _ None]) (simp add: joi_strings_def)
  have g: "env ''STORAGE_GCS_BUCKET'' \<noteq> Some []"
    by (rule e [of _ None]) (simp add: joi_strings_def)
  show "env_set vars ''STORAGE_S3_BUCKET'' \<longleftrightarrow> env ''STORAGE_S3_BUCKET'' \<noteq> None"
    using s by (auto simp add: env_set_def v joi_strings_def split: option.splits)
  show "env_set vars ''STORAGE_AZURE_CONNECTION_STRING''
          \<longleftrightarrow> env ''STORAGE_AZURE_CONNECTION_STRING'' \<noteq> None"
    using a by (auto simp add: env_set_def v joi_strings_def split: option.splits)
  show "env_set vars ''STORAGE_GCS_BUCKET'' \<longleftrightarrow> env ''STORAGE_GCS_BUCKET'' \<noteq> None"
    using g by (auto simp add: env_set_def v joi_strings_def split: option.splits)
qed

lemma loaded_default:
  assumes "load_storage env = Inr cfg"
  shows "config_default (Some cfg)
           = (case env ''STORAGE_DEFAULT'' of None \<Rightarrow> ''local'' | Some d \<Rightarrow> d)"
proof -
  from assms obtain vars where v: "validate env = Inr vars" and c: "cfg = storage_section vars"
    by (auto simp add: load_storage_def split: sum.splits)
  show ?thesis
    using validate_vars(1,2) [OF v]
    by (auto simp add: c storage_section_def config_default_def split: option.splits)
qed

lemma loaded_disks:
  assumes "load_storage env = Inr cfg"
  shows "map fst (configured_disks (Some cfg))
           = [''local'']
             @ (if env ''STORAGE_S3_BUCKET'' \<noteq> None then [''s3''] else [])
             @ (if env ''STORAGE_AZURE_CONNECTION_STRING'' \<noteq> None then [''azure''] else [])
             @ (if env ''STORAGE_GCS_BUCKET'' \<noteq> None then [''gcs''] else [])"
    and "\<forall>(name, dc) \<in> set (configured_disks (Some cfg)).
           name = ''local'' \<longrightarrow> dc_driver dc = Some ''local''"
proof -
  from assms obtain vars where v: "validate env = Inr vars" and c: "cfg = storage_section vars"
    by (auto simp add: load_storage_def split: sum.splits)
  show "map fst (configured_disks (Some cfg))
           = [''local'']
             @ (if env ''STORAGE_S3_BUCKET'' \<noteq> None then [''s3''] else [])
             @ (if env ''STORAGE_AZURE_CONNECTION_STRING'' \<noteq> None then [''azure''] else [])
             @ (if env ''STORAGE_GCS_BUCKET'' \<noteq> None then [''gcs''] else [])"
    using validate_vars(3,4,5) [OF v]
    by (simp add: c storage_section_def configured_disks_def)
  show "\<forall>(name, dc) \<in> set (configured_disks (Some cfg)).
           name = ''local'' \<longrightarrow> dc_driver dc = Some ''local''"
    by (auto simp add: c storage_section_def configured_disks_def)
qed

lemma loaded_names:
  assumes "load_storage env = Inr cfg"
  shows "''local'' \<in> fst ` set (configured_disks (Some cfg))"
    and "fst ` set (configured_disks (Some cfg)) \<subseteq> {''local'', ''s3'', ''azure'', ''gcs''}"
    and "''s3'' \<in> fst ` set (configured_disks (Some cfg))
           \<longleftrightarrow> env ''STORAGE_S3_BUCKET'' \<noteq> None"
    and "''azure'' \<in> fst ` set (configured_disks (Some cfg))
           \<longleftrightarrow> env ''STORAGE_AZURE_CONNECTION_STRING'' \<noteq> None"
    and "''gcs'' \<in> fst ` set (configured_disks (Some cfg))
           \<longleftrightarrow> env ''STORAGE_GCS_BUCKET'' \<noteq> None"
proof -
  have s: "fst ` set (configured_disks (Some cfg)) = set (map fst (configured_disks (Some cfg)))"
    by simp
  show "''local'' \<in> fst ` set (configured_disks (Some cfg))"
    unfolding s loaded_disks(1) [OF assms] by simp
  show "fst ` set (configured_disks (Some cfg)) \<subseteq> {''local'', ''s3'', ''azure'', ''gcs''}"
    unfolding s loaded_disks(1) [OF assms] by auto
  show "''s3'' \<in> fst ` set (configured_disks (Some cfg))
          \<longleftrightarrow> env ''STORAGE_S3_BUCKET'' \<noteq> None"
    unfolding s loaded_disks(1) [OF assms] by simp
  show "''azure'' \<in> fst ` set (configured_disks (Some cfg))
          \<longleftrightarrow> env ''STORAGE_AZURE_CONNECTION_STRING'' \<noteq> None"
    unfolding s loaded_disks(1) [OF assms] by simp
  show "''gcs'' \<in> fst ` set (configured_disks (Some cfg))
          \<longleftrightarrow> env ''STORAGE_GCS_BUCKET'' \<noteq> None"
    unfolding s loaded_disks(1) [OF assms] by simp
qed

lemma register_disks_map_of:
  assumes "register_disks pf items acc = Inr ds" and "map_of ds name = Some a"
  shows "(\<exists>dc. (name, dc) \<in> set items
            \<and> new_FilesystemAdapter pf (dc_driver dc) (dc_config dc) = Inr a)
         \<or> map_of acc name = Some a"
  using assms
proof (induction items arbitrary: acc)
  case Nil
  then show ?case by simp
next
  case (Cons item rest)
  obtain n dc where item: "item = (n, dc)"
    by (cases item) auto
  from Cons.prems(1) obtain a' where
    a': "new_FilesystemAdapter pf (dc_driver dc) (dc_config dc) = Inr a'" and
    r: "register_disks pf rest ((n, a') # acc) = Inr ds"
    by (auto simp add: item split: sum.splits)
  from Cons.IH [OF r Cons.prems(2)] show ?case
  proof
    assume "\<exists>dc. (name, dc) \<in> set rest
              \<and> new_FilesystemAdapter pf (dc_driver dc) (dc_config dc) = Inr a"
    then show ?thesis
      by auto
  next
    assume m: "map_of ((n, a') # acc) name = Some a"
    show ?thesis
    proof (cases "name = n")
      case True
      with m a' show ?thesis
        by (auto simp add: item)
    next
      case False
      with m show ?thesis
        by simp
    qed
  qed
qed

lemma manager_registered:
  assumes "new_StorageManager pf cfg = Inr m"
  shows "\<exists>registered. register_disks pf (configured_disks cfg) [] = Inr registered
           \<and> (if lookup_disk registered (config_default cfg) = None
                then \<exists>a. driver_name a = ''local'' \<and> cls (client a) = LocalDriver
                       \<and> disks m = (config_default cfg, a) # registered
                else disks m = registered)"
proof -
  from assms obtain ds where
    i: "initializeDisks pf cfg (config_default cfg) = Inr ds" and
    m: "m = \<lparr>disks = ds, defaultDisk = config_default cfg\<rparr>"
    by (auto simp add: new_StorageManager_def split: sum.splits)
  from i obtain registered where
    r: "register_disks pf (configured_disks cfg) [] = Inr registered"
    by (auto simp add: initializeDisks_def configured_disks_def Let_def split: sum.splits)
  have c: "if lookup_disk registered (config_default cfg) = None
        then \<exists>a. driver_name a = ''local'' \<and> cls (client a) = LocalDriver
               \<and> ds = (config_default cfg, a) # registered
        else ds = registered"
    using i r adapter_of_local
    by (auto simp add: initializeDisks_def configured_disks_def [symmetric] Let_def
        split: sum.splits if_splits)
  have d: "disks m = ds"
    by (simp add: m)
  show ?thesis
    unfolding d
    by (rule exI [of _ registered], rule conjI, rule r, rule c)
qed

lemma disk_local_loaded:
  assumes "load_storage env = Inr cfg" and "new_StorageManager pf (Some cfg) = Inr m"
  shows "\<exists>a. disk m (Some ''local'') = Inr (Disk a) \<and> driver_name a = ''local''
           \<and> cls (client a) = LocalDriver"
proof -
  from disk_configured [OF assms(2), of "''local''"] loaded_names(1) [OF assms(1)]
  obtain a where d: "disk m (Some ''local'') = Inr (Disk a)"
    by auto
  then have l: "map_of (disks m) ''local'' = Some a"
    by (auto simp add: disk_def lookup_disk_def Let_def split: option.splits if_splits)
  from manager_registered [OF assms(2)] obtain registered where
    r: "register_disks pf (configured_disks (Some cfg)) [] = Inr registered" and
    c: "if lookup_disk registered (config_default (Some cfg)) = None
        then \<exists>b. driver_name b = ''local'' \<and> cls (client b) = LocalDriver
               \<and> disks m = (config_default (Some cfg), b) # registered
        else disks m = registered"
    by blast
  have local_registered: "driver_name a = ''local'' \<and> cls (client a) = LocalDriver"
    if "map_of registered ''local'' = Some a"
  proof -
    from register_disks_map_of [OF r that] obtain dc where
      dc: "(''local'', dc) \<in> set (configured_disks (Some cfg))" and
      n: "new_FilesystemAdapter pf (dc_driver dc) (dc_config dc) = Inr a"
      by auto
    from loaded_disks(2) [OF assms(1)] dc have "dc_driver dc = Some ''local''"
      by auto
    with n show ?thesis
      by (simp add: adapter_of_local)
  qed
  have "driver_name a = ''local'' \<and> cls (client a) = LocalDriver"
  proof (cases "lookup_disk registered (config_default (Some cfg)) = None")
    case True
    with c obtain b where
      b: "driver_name b = ''local''" "cls (client b) = LocalDriver" and
      e: "disks m = (config_default (Some cfg), b) # registered"
      by auto
    show ?thesis
    proof (cases "config_default (Some cfg) = ''local''")
      case True
      with l e b show ?thesis
        by simp
    next
      case False
      with l e have "map_of registered ''local'' = Some a"
        by simp
      then show ?thesis
        by (rule local_registered)
    qed
  next
    case False
    with c l have "map_of registered ''local'' = Some a"
      by simp
    then show ?thesis
      by (rule local_registered)
  qed
  with d show ?thesis
    by blast
qed

lemma disk_inherited:
  assumes "new_StorageManager pf cfg = Inr m"
    and "name \<in> set object_prototype_keys" and "name \<notin> fst ` set (configured_disks cfg)"
  shows "disk m (Some name) = Inr (Inherited name)"
proof -
  from manager_parts [OF assms(1)] obtain registered where
    n: "fst ` set registered = fst ` set (configured_disks cfg)" and
    c: "if lookup_disk registered (config_default cfg) = None
        then \<exists>a. driver_name a = ''local'' \<and> cls (client a) = LocalDriver
               \<and> disks m = (config_default cfg, a) # registered
        else disks m = registered"
    by blast
  have "name \<notin> fst ` set (disks m)"
  proof (cases "lookup_disk registered (config_default cfg) = None")
    case True
    then have "config_default cfg \<notin> set object_prototype_keys"
      by (simp add: lookup_disk_None)
    with assms(2) have "name \<noteq> config_default cfg"
      by auto
    moreover from True c obtain a where "disks m = (config_default cfg, a) # registered"
      by auto
    ultimately show ?thesis
      using assms(3) n by simp
  next
    case False
    with c assms(3) n show ?thesis
      by simp
  qed
  then have "map_of (disks m) name = None"
    by (simp add: map_of_eq_None_iff)
  moreover have "name \<noteq> []"
    using assms(2) by (auto simp add: object_prototype_keys_def)
  ultimately show ?thesis
    using assms(2) by (simp add: disk_def lookup_disk_def)
qed

lemma inherited_not_loaded:
  assumes "load_storage env = Inr cfg" and "name \<in> set object_prototype_keys"
  shows "name \<notin> fst ` set (configured_disks (Some cfg))"
proof
  assume "name \<in> fst ` set (configured_disks (Some cfg))"
  with loaded_names(2) [OF assms(1)] have "name \<in> {''local'', ''s3'', ''azure'', ''gcs''}"
    by blast
  with assms(2) show False
    by (auto simp add: object_prototype_keys_def)
qed

text \<open>
  C5, as the code has it.  The registry is the one the service builds from the
  configuration that \<^verbatim>\<open>config/index.js\<close> loads.  That configuration always has a disk
  \<^verbatim>\<open>local\<close>, so \<^verbatim>\<open>local\<close> always resolves, to a backend of the local driver.  The implicit
  fallback is another thing: it is a local backend registered under the name of the
  default disk when no disk of that name is configured.  So a name that is not configured
  fails with the error that the disk is not configured unless it is the name of the
  default disk, which resolves to the fallback, also when no name is given, or a name
  that every object inherits from \<^verbatim>\<open>Object.prototype\<close>, for which the lookup hands back
  the inherited value.  The configured names are \<^verbatim>\<open>local\<close> and, each when its variable
  is set, \<^verbatim>\<open>s3\<close>, \<^verbatim>\<open>azure\<close> and \<^verbatim>\<open>gcs\<close>; the default disk is \<^verbatim>\<open>STORAGE_DEFAULT\<close>, or
  \<^verbatim>\<open>local\<close> when that is not set.
\<close>

theorem fallback_serves_default_disk:
  "load_storage env = Inr cfg \<and> new_StorageManager pf (Some cfg) = Inr m \<longrightarrow>
     (\<exists>a. disk m (Some ''local'') = Inr (Disk a) \<and> driver_name a = ''local''
         \<and> cls (client a) = LocalDriver)
     \<and> (name \<noteq> [] \<and> name \<notin> fst ` set (configured_disks (Some cfg))
          \<and> name \<noteq> config_default (Some cfg) \<and> name \<notin> set object_prototype_keys \<longrightarrow>
        disk m (Some name)
          = Inl (Error (''Storage disk '' @ [CHR 0x22] @ name @ [CHR 0x22]
                        @ '' is not configured'')))
     \<and> (name \<noteq> [] \<and> name \<in> fst ` set (configured_disks (Some cfg)) \<longrightarrow>
        (\<exists>a. disk m (Some name) = Inr (Disk a)))
     \<and> (config_default (Some cfg) \<notin> fst ` set (configured_disks (Some cfg))
          \<and> config_default (Some cfg) \<notin> set object_prototype_keys \<longrightarrow>
        (\<exists>a. disk m (Some (config_default (Some cfg))) = Inr (Disk a)
           \<and> disk m None = Inr (Disk a)
           \<and> driver_name a = ''local'' \<and> cls (client a) = LocalDriver))
     \<and> (name \<in> set object_prototype_keys \<longrightarrow> disk m (Some name) = Inr (Inherited name))
     \<and> map fst (configured_disks (Some cfg))
         = [''local'']
           @ (if env ''STORAGE_S3_BUCKET'' \<noteq> None then [''s3''] else [])
           @ (if env ''STORAGE_AZURE_CONNECTION_STRING'' \<noteq> None then [''azure''] else [])
           @ (if env ''STORAGE_GCS_BUCKET'' \<noteq> None then [''gcs''] else [])
     \<and> config_default (Some cfg)
         = (case env ''STORAGE_DEFAULT'' of None \<Rightarrow> ''local'' | Some d \<Rightarrow> d)"
proof (intro impI)
  assume "load_storage env = Inr cfg \<and> new_StorageManager pf (Some cfg) = Inr m"
  then have l: "load_storage env = Inr cfg" and m: "new_StorageManager pf (Some cfg) = Inr m"
    by simp_all
  have i: "name \<in> set object_prototype_keys \<longrightarrow> disk m (Some name) = Inr (Inherited name)"
    using disk_inherited [OF m, of name] inherited_not_loaded [OF l, of name] by blast
  show "(\<exists>a. disk m (Some ''local'') = Inr (Disk a) \<and> driver_name a = ''local''
         \<and> cls (client a) = LocalDriver)
     \<and> (name \<noteq> [] \<and> name \<notin> fst ` set (configured_disks (Some cfg))
          \<and> name \<noteq> config_default (Some cfg) \<and> name \<notin> set object_prototype_keys \<longrightarrow>
        disk m (Some name)
          = Inl (Error (''Storage disk '' @ [CHR 0x22] @ name @ [CHR 0x22]
                        @ '' is not configured'')))
     \<and> (name \<noteq> [] \<and> name \<in> fst ` set (configured_disks (Some cfg)) \<longrightarrow>
        (\<exists>a. disk m (Some name) = Inr (Disk a)))
     \<and> (config_default (Some cfg) \<notin> fst ` set (configured_disks (Some cfg))
          \<and> config_default (Some cfg) \<notin> set object_prototype_keys \<longrightarrow>
        (\<exists>a. disk m (Some (config_default (Some cfg))) = Inr (Disk a)
           \<and> disk m None = Inr (Disk a)
           \<and> driver_name a = ''local'' \<and> cls (client a) = LocalDriver))
     \<and> (name \<in> set object_prototype_keys \<longrightarrow> disk m (Some name) = Inr (Inherited name))
     \<and> map fst (configured_disks (Some cfg))
         = [''local'']
           @ (if env ''STORAGE_S3_BUCKET'' \<noteq> None then [''s3''] else [])
           @ (if env ''STORAGE_AZURE_CONNECTION_STRING'' \<noteq> None then [''azure''] else [])
           @ (if env ''STORAGE_GCS_BUCKET'' \<noteq> None then [''gcs''] else [])
     \<and> config_default (Some cfg)
         = (case env ''STORAGE_DEFAULT'' of None \<Rightarrow> ''local'' | Some d \<Rightarrow> d)"
    using disk_local_loaded [OF l m] disk_unknown [OF m, of name]
      disk_configured [OF m, of name] disk_fallback [OF m] i
      loaded_disks(1) [OF l] loaded_default [OF l]
    by blast
qed

lemma load_default_s3:
  "load_storage default_s3_env
     = Inr \<lparr>sc_default = Some ''s3'',
            sc_local = Some [(''root'', ''storage''), (''url'', ''/storage'')],
            sc_disks = Some [(''local'',
                              \<lparr>dc_driver = Some ''local'',
                               dc_config = Some [(''root'', ''storage''),
                                                 (''url'', ''/storage'')]\<rparr>)]\<rparr>"
  by (simp add: load_storage_def validate_def joi_strings_def default_s3_env_def
      storage_section_def config_field_def env_set_def)

lemma singleton_default_s3:
  "storage_singleton plain_platform default_s3_env
     = Inr \<lparr>disks = [(''s3'', local_adapter), (''local'', local_adapter)],
            defaultDisk = ''s3''\<rparr>"
  by (simp add: storage_singleton_def load_default_s3 new_StorageManager_def
      initializeDisks_def config_default_def config_local_def lookup_disk_def
      object_prototype_keys_def new_local_adapter)

text \<open>
  The claim itself fails: with \<^verbatim>\<open>STORAGE_DEFAULT=s3\<close> and no bucket set, the only
  configured disk is \<^verbatim>\<open>local\<close>; the name \<^verbatim>\<open>s3\<close> is not configured and is not
  \<^verbatim>\<open>local\<close>, and it resolves, to the fallback.  So does \<^verbatim>\<open>constructor\<close>, to what the
  registry object inherits.
\<close>

theorem unconfigured_default_resolves:
  "storage_singleton plain_platform default_s3_env
     = Inr \<lparr>disks = [(''s3'', local_adapter), (''local'', local_adapter)],
            defaultDisk = ''s3''\<rparr>
   \<and> (case load_storage default_s3_env of
         Inl e \<Rightarrow> []
       | Inr cfg \<Rightarrow> map fst (configured_disks (Some cfg))) = [''local'']
   \<and> disk \<lparr>disks = [(''s3'', local_adapter), (''local'', local_adapter)],
            defaultDisk = ''s3''\<rparr> (Some ''s3'')
     = Inr (Disk local_adapter)
   \<and> disk \<lparr>disks = [(''s3'', local_adapter), (''local'', local_adapter)],
            defaultDisk = ''s3''\<rparr> (Some ''constructor'')
     = Inr (Inherited ''constructor'')"
  by (simp add: singleton_default_s3 load_default_s3 configured_disks_def disk_def
      lookup_disk_def object_prototype_keys_def)

theorem fallback_serves_default_disk_witness:
  "(\<exists>a. disk \<lparr>disks = [(''s3'', local_adapter), (''local'', local_adapter)],
               defaultDisk = ''s3''\<rparr> (Some ''local'') = Inr (Disk a)
        \<and> driver_name a = ''local'' \<and> cls (client a) = LocalDriver)
   \<and> disk \<lparr>disks = [(''s3'', local_adapter), (''local'', local_adapter)],
            defaultDisk = ''s3''\<rparr> (Some ''cdn'')
     = Inl (Error (''Storage disk '' @ [CHR 0x22] @ ''cdn'' @ [CHR 0x22]
                   @ '' is not configured''))
   \<and> (\<exists>a. disk \<lparr>disks = [(''s3'', local_adapter), (''local'', local_adapter)],
                 defaultDisk = ''s3''\<rparr> None = Inr (Disk a)
          \<and> driver_name a = ''local'' \<and> cls (client a) = LocalDriver)"
proof -
  let ?cfg = "\<lparr>sc_default = Some ''s3'',
               sc_local = Some [(''root'', ''storage''), (''url'', ''/storage'')],
               sc_disks = Some [(''local'',
                                 \<lparr>dc_driver = Some ''local'',
                                  dc_config = Some [(''root'', ''storage''),
                                                    (''url'', ''/storage'')]\<rparr>)]\<rparr>"
  let ?m = "\<lparr>disks = [(''s3'', local_adapter), (''local'', local_adapter)],
             defaultDisk = ''s3''\<rparr>"
  have m: "new_StorageManager plain_platform (Some ?cfg) = Inr ?m"
    using singleton_default_s3 by (simp add: storage_singleton_def load_default_s3)
  have c: "fst ` set (configured_disks (Some ?cfg)) = {''local''}"
    "config_default (Some ?cfg) = ''s3''"
    by (simp_all add: configured_disks_def config_default_def)
  have k: "''cdn'' \<notin> set object_prototype_keys" "''s3'' \<notin> set object_prototype_keys"
    by (simp_all add: object_prototype_keys_def)
  note t = fallback_serves_default_disk
      [of default_s3_env ?cfg plain_platform ?m "''cdn''", THEN mp,
       OF conjI [OF load_default_s3 m]]
  have a: "\<exists>a. disk ?m (Some ''local'') = Inr (Disk a) \<and> driver_name a = ''local''
             \<and> cls (client a) = LocalDriver"
    using t by (rule conjunct1)
  have b: "disk ?m (Some ''cdn'')
             = Inl (Error (''Storage disk '' @ [CHR 0x22] @ ''cdn'' @ [CHR 0x22]
                           @ '' is not configured''))"
    using t [THEN conjunct2, THEN conjunct1] c k by simp
  have "\<exists>a. disk ?m (Some (config_default (Some ?cfg))) = Inr (Disk a)
           \<and> disk ?m None = Inr (Disk a)
           \<and> driver_name a = ''local'' \<and> cls (client a) = LocalDriver"
    using t [THEN conjunct2, THEN conjunct2, THEN conjunct2, THEN conjunct1] c k by simp
  then have d: "\<exists>a. disk ?m None = Inr (Disk a) \<and> driver_name a = ''local''
             \<and> cls (client a) = LocalDriver"
    by blast
  show ?thesis
    using a b d by blast
qed

section \<open>\<^verbatim>\<open>DELETE /api/image/:id\<close>\<close>

lemma purge_cache_status:
  "\<exists>msg. fst (purge_cache w image_id userId) = Json 200 (deleted_body msg userId)"
  by (auto simp add: purge_cache_def split: sum.splits prod.splits)

lemma delete_unresolved:
  "disk (storage ap) (Some (request_disk ap query_disk)) = Inl e \<Longrightarrow>
     delete_image ap w query_disk image_id userId
       = (Json 500 (error_message_body ''Failed to delete image'' e), w)"
  by (simp add: delete_image_def)

lemma delete_resolved:
  "disk (storage ap) (Some (request_disk ap query_disk)) = Inr d \<Longrightarrow>
     \<exists>msg. fst (delete_image ap w query_disk image_id userId)
             = Json 200 (deleted_body msg userId)"
  by (simp add: delete_image_def purge_cache_status)

text \<open>The loop over the cache files, when no call fails.\<close>

lemma unlink_cache_present:
  assumes "fs_fault w = (\<lambda>c. None)" and "name \<in> fst ` set (cache w)"
  shows "unlink w CACHE_DIR name
           = (Inr (), w\<lparr>cache := filter (\<lambda>(n, c). n \<noteq> name) (cache w)\<rparr>)"
  using assms by (simp add: unlink_def entries_def set_entries_def)

lemma filter_other_names:
  "filter (\<lambda>(n, c). n \<notin> set rest) (filter (\<lambda>(n, c). n \<noteq> name) xs)
     = filter (\<lambda>(n, c). n \<notin> set (name # rest)) xs"
  by (induction xs) auto

lemma unlink_each_all:
  assumes "fs_fault w = (\<lambda>c. None)" and "distinct names"
    and "set names \<subseteq> fst ` set (cache w)"
  shows "unlink_each w names
           = (Inr (), w\<lparr>cache := filter (\<lambda>(n, c). n \<notin> set names) (cache w)\<rparr>)"
  using assms
proof (induction names arbitrary: w)
  case Nil
  have "filter (\<lambda>(n, c). True) (cache w) = cache w"
    by (induction "cache w") auto
  then show ?case
    by simp
next
  case (Cons name rest)
  let ?w = "w\<lparr>cache := filter (\<lambda>(n, c). n \<noteq> name) (cache w)\<rparr>"
  have u: "unlink w CACHE_DIR name = (Inr (), ?w)"
    using Cons.prems(1,3) by (simp add: unlink_cache_present)
  have f: "fs_fault ?w = (\<lambda>c. None)"
    using Cons.prems(1) by simp
  have d: "distinct rest" and n: "name \<notin> set rest"
    using Cons.prems(2) by simp_all
  have s: "set rest \<subseteq> fst ` set (cache ?w)"
  proof
    fix r
    assume r: "r \<in> set rest"
    with Cons.prems(3) obtain c where "(r, c) \<in> set (cache w)"
      by auto
    moreover have "r \<noteq> name"
      using r n by auto
    ultimately have "(r, c) \<in> set (cache ?w)"
      by simp
    then show "r \<in> fst ` set (cache ?w)"
      by (rule rev_image_eqI) simp
  qed
  show ?case
    using Cons.IH [OF f d s] by (simp add: u filter_other_names del: filter_filter)
qed

lemma purge_cache_quiet:
  assumes "fs_fault w = (\<lambda>c. None)" and "distinct (map fst (cache w))"
  shows "purge_cache w image_id userId
           = (Json 200 (deleted_body ''Image deleted successfully'' userId),
              w\<lparr>cache := filter (\<lambda>(n, c). \<not> js_startsWith n image_id) (cache w)\<rparr>)"
proof -
  let ?names = "filter (\<lambda>f. js_startsWith f image_id) (map fst (cache w))"
  have r: "readdir w CACHE_DIR = Inr (map fst (cache w))"
    using assms(1) by (simp add: readdir_def entries_def)
  have "distinct ?names" and "set ?names \<subseteq> fst ` set (cache w)"
    using assms(2) by auto
  then have u: "unlink_each w ?names
                  = (Inr (), w\<lparr>cache := filter (\<lambda>(n, c). n \<notin> set ?names) (cache w)\<rparr>)"
    using assms(1) by (simp add: unlink_each_all)
  have "filter (\<lambda>(n, c). n \<notin> set ?names) (cache w)
          = filter (\<lambda>(n, c). \<not> js_startsWith n image_id) (cache w)"
    by (rule filter_cong) (auto intro: rev_image_eqI)
  with u show ?thesis
    by (simp add: purge_cache_def r)
qed

text \<open>The calls on the disk, when no call on its backend fails.\<close>

lemma disk_exists_quiet:
  assumes "built pf a" and "fault (stores w (location (client a))) = (\<lambda>c. None)"
  shows "disk_exists (Disk a) w p
           = Inr (objects (stores w (location (client a))) p \<noteq> None)"
  using assms(2)
  by (cases "cls (client a)")
     (simp_all add: disk_exists_def FilesystemAdapter_exists_def built_methods [OF assms(1)]
        LocalDriver_exists_def S3Driver_exists_def AzureDriver_exists_def GCSDriver_exists_def
        fs_access_def sdk_head_def sdk_exists_def)

lemma disk_delete_quiet:
  assumes "built pf a" and "fault (stores w (location (client a))) = (\<lambda>c. None)"
    and "objects (stores w (location (client a))) p \<noteq> None"
  shows "disk_delete (Disk a) w p
           = (Inr True,
              w\<lparr>stores := (stores w)
                   (location (client a) :=
                      (stores w (location (client a)))
                        \<lparr>objects := (objects (stores w (location (client a))))(p := None)\<rparr>)\<rparr>)"
  using assms(2,3)
  by (cases "cls (client a)")
     (simp_all add: disk_delete_def FilesystemAdapter_delete_def built_methods [OF assms(1)]
        LocalDriver_delete_def S3Driver_delete_def AzureDriver_delete_def GCSDriver_delete_def
        fs_unlink_def sdk_delete_def Let_def)

lemma unlink_local_present:
  assumes "fs_fault w = (\<lambda>c. None)" and "name \<in> fst ` set (uploads w)"
  shows "unlink_local w name = w\<lparr>uploads := filter (\<lambda>(n, c). n \<noteq> name) (uploads w)\<rparr>"
  using assms by (simp add: unlink_local_def unlink_def entries_def set_entries_def)

lemma remove_original_absent:
  assumes "fs_fault w = (\<lambda>c. None)"
    and "find (\<lambda>f. js_startsWith f image_id) (map fst (uploads w)) = None"
  shows "remove_original d w image_id = w"
  using assms by (simp add: remove_original_def readdir_def entries_def)

lemma remove_original_found:
  assumes "readdir w UPLOAD_DIR = Inr files"
    and "find (\<lambda>f. js_startsWith f image_id) files = Some originalFile"
  shows "remove_original d w image_id
           = (case disk_exists d w (''images/'' @ originalFile) of
                Inl e \<Rightarrow> w
              | Inr False \<Rightarrow> unlink_local w originalFile
              | Inr True \<Rightarrow>
                  (case disk_delete d w (''images/'' @ originalFile) of
                     (Inl e, w') \<Rightarrow> w'
                   | (Inr deleted, w') \<Rightarrow> unlink_local w' originalFile))"
  unfolding remove_original_def assms sum.case option.case Let_def by (rule refl)

lemma remove_original_quiet:
  assumes "built pf a" and "fs_fault w = (\<lambda>c. None)"
    and "fault (stores w (location (client a))) = (\<lambda>c. None)"
    and "find (\<lambda>f. js_startsWith f image_id) (map fst (uploads w)) = Some originalFile"
  shows "uploads (remove_original (Disk a) w image_id)
           = filter (\<lambda>(n, c). n \<noteq> originalFile) (uploads w)"
    and "cache (remove_original (Disk a) w image_id) = cache w"
    and "fs_fault (remove_original (Disk a) w image_id) = fs_fault w"
    and "objects (stores (remove_original (Disk a) w image_id) (location (client a)))
           (''images/'' @ originalFile) = None"
proof -
  let ?l = "location (client a)"
  let ?p = "''images/'' @ originalFile"
  let ?w = "w\<lparr>stores := (stores w)
                 (?l := (stores w ?l)\<lparr>objects := (objects (stores w ?l))(?p := None)\<rparr>)\<rparr>"
  have r: "readdir w UPLOAD_DIR = Inr (map fst (uploads w))"
    using assms(2) by (simp add: readdir_def entries_def)
  have "originalFile \<in> set (map fst (uploads w))"
    using assms(4) by (auto simp add: find_Some_iff)
  then have m: "originalFile \<in> fst ` set (uploads w)"
    by simp
  have e: "disk_exists (Disk a) w ?p = Inr (objects (stores w ?l) ?p \<noteq> None)"
    using disk_exists_quiet [OF assms(1,3)] .
  have w: "remove_original (Disk a) w image_id
             = (if objects (stores w ?l) ?p = None then unlink_local w originalFile
                else unlink_local ?w originalFile)"
  proof (cases "objects (stores w ?l) ?p = None")
    case True
    then show ?thesis
      unfolding remove_original_found [OF r assms(4)] e by simp
  next
    case False
    then have x: "disk_delete (Disk a) w ?p = (Inr True, ?w)"
      using disk_delete_quiet [OF assms(1,3)] by simp
    from False show ?thesis
      unfolding remove_original_found [OF r assms(4)] e x by auto
  qed
  have u: "unlink_local w originalFile
             = w\<lparr>uploads := filter (\<lambda>(n, c). n \<noteq> originalFile) (uploads w)\<rparr>"
    using assms(2) m by (rule unlink_local_present)
  have v: "unlink_local ?w originalFile
             = ?w\<lparr>uploads := filter (\<lambda>(n, c). n \<noteq> originalFile) (uploads ?w)\<rparr>"
    by (rule unlink_local_present) (simp_all add: assms(2) m)
  show "uploads (remove_original (Disk a) w image_id)
          = filter (\<lambda>(n, c). n \<noteq> originalFile) (uploads w)"
    unfolding w u v by simp
  show "cache (remove_original (Disk a) w image_id) = cache w"
    unfolding w u v by simp
  show "fs_fault (remove_original (Disk a) w image_id) = fs_fault w"
    unfolding w u v by simp
  show "objects (stores (remove_original (Disk a) w image_id) ?l) ?p = None"
    unfolding w u v by simp
qed

lemma find_after_removal:
  assumes "\<forall>n \<in> fst ` set ups. P n \<longrightarrow> n = f"
  shows "find P (map fst (filter (\<lambda>(n, c). n \<noteq> f) ups)) = None"
  using assms by (auto simp add: find_None_iff)

lemma delete_image_quiet:
  assumes "disk (storage ap) (Some (request_disk ap query_disk)) = Inr d"
    and "fs_fault (remove_original d w image_id) = (\<lambda>c. None)"
    and "cache (remove_original d w image_id) = cache w"
    and "distinct (map fst (cache w))"
  shows "delete_image ap w query_disk image_id userId
           = (Json 200 (deleted_body ''Image deleted successfully'' userId),
              (remove_original d w image_id)
                \<lparr>cache := filter (\<lambda>(n, c). \<not> js_startsWith n image_id) (cache w)\<rparr>)"
  using purge_cache_quiet [of "remove_original d w image_id" image_id userId] assms
  by (simp add: delete_image_def)

lemma delete_absent:
  assumes "disk (storage ap) (Some (request_disk ap query_disk)) = Inr d"
    and "fs_fault w = (\<lambda>c. None)" and "distinct (map fst (cache w))"
    and "find (\<lambda>f. js_startsWith f image_id) (map fst (uploads w)) = None"
  shows "delete_image ap w query_disk image_id userId
           = (Json 200 (deleted_body ''Image deleted successfully'' userId),
              w\<lparr>cache := filter (\<lambda>(n, c). \<not> js_startsWith n image_id) (cache w)\<rparr>)"
    and "get_image (snd (delete_image ap w query_disk image_id userId)) image_id
           = Json 404 (error_body ''Image not found'')"
proof -
  have r: "remove_original d w image_id = w"
    using assms(2,4) by (rule remove_original_absent)
  show d: "delete_image ap w query_disk image_id userId
           = (Json 200 (deleted_body ''Image deleted successfully'' userId),
              w\<lparr>cache := filter (\<lambda>(n, c). \<not> js_startsWith n image_id) (cache w)\<rparr>)"
    using delete_image_quiet [OF assms(1), of w image_id userId] assms(2,3)
    by (simp add: r)
  show "get_image (snd (delete_image ap w query_disk image_id userId)) image_id
          = Json 404 (error_body ''Image not found'')"
    using assms(2,4) by (simp add: d get_image_def readdir_def entries_def)
qed

lemma delete_present:
  assumes "built pf a"
    and "disk (storage ap) (Some (request_disk ap query_disk)) = Inr (Disk a)"
    and "fs_fault w = (\<lambda>c. None)"
    and "fault (stores w (location (client a))) = (\<lambda>c. None)"
    and "distinct (map fst (cache w))"
    and "find (\<lambda>f. js_startsWith f image_id) (map fst (uploads w)) = Some originalFile"
  shows "fst (delete_image ap w query_disk image_id userId)
           = Json 200 (deleted_body ''Image deleted successfully'' userId)"
    and "cache (snd (delete_image ap w query_disk image_id userId))
           = filter (\<lambda>(n, c). \<not> js_startsWith n image_id) (cache w)"
    and "uploads (snd (delete_image ap w query_disk image_id userId))
           = filter (\<lambda>(n, c). n \<noteq> originalFile) (uploads w)"
    and "objects (stores (snd (delete_image ap w query_disk image_id userId))
                    (location (client a))) (''images/'' @ originalFile) = None"
    and "(\<forall>n \<in> fst ` set (uploads w). js_startsWith n image_id \<longrightarrow> n = originalFile) \<Longrightarrow>
           get_image (snd (delete_image ap w query_disk image_id userId)) image_id
             = Json 404 (error_body ''Image not found'')"
proof -
  note r = remove_original_quiet [OF assms(1,3,4,6)]
  have d: "delete_image ap w query_disk image_id userId
           = (Json 200 (deleted_body ''Image deleted successfully'' userId),
              (remove_original (Disk a) w image_id)
                \<lparr>cache := filter (\<lambda>(n, c). \<not> js_startsWith n image_id) (cache w)\<rparr>)"
    using delete_image_quiet [OF assms(2), of w image_id userId] r(2,3) assms(3,5)
    by simp
  show "fst (delete_image ap w query_disk image_id userId)
          = Json 200 (deleted_body ''Image deleted successfully'' userId)"
    by (simp add: d)
  show "cache (snd (delete_image ap w query_disk image_id userId))
          = filter (\<lambda>(n, c). \<not> js_startsWith n image_id) (cache w)"
    by (simp add: d)
  show "uploads (snd (delete_image ap w query_disk image_id userId))
          = filter (\<lambda>(n, c). n \<noteq> originalFile) (uploads w)"
    by (simp add: d r(1))
  show "objects (stores (snd (delete_image ap w query_disk image_id userId))
                   (location (client a))) (''images/'' @ originalFile) = None"
    using r(4) by (simp add: d)
  show "get_image (snd (delete_image ap w query_disk image_id userId)) image_id
          = Json 404 (error_body ''Image not found'')"
    if "\<forall>n \<in> fst ` set (uploads w). js_startsWith n image_id \<longrightarrow> n = originalFile"
    using find_after_removal [OF that] r(3) assms(3)
    by (simp add: d get_image_def readdir_def entries_def r(1))
qed

text \<open>
  C9, as the code has it.  The handler answers 500 when the disk of the request is not
  in the registry, and in every other case 200 with \<^verbatim>\<open>success: true\<close>, whatever fails
  on the way.  When no call fails, on a disk the registry built: every cache entry whose
  name starts with the id is removed; the first upload whose name starts with the id,
  and only that one, is removed from the upload directory and from the backend; and a
  later \<^verbatim>\<open>GET /api/image/:id\<close> yields 404 when no upload or only that one had a name
  starting with the id.
\<close>

theorem delete_removes_first_match:
  "(disk (storage ap) (Some (request_disk ap query_disk)) = Inl e \<longrightarrow>
      delete_image ap w query_disk image_id userId
        = (Json 500 (error_message_body ''Failed to delete image'' e), w))
   \<and> (disk (storage ap) (Some (request_disk ap query_disk)) = Inr d \<longrightarrow>
      (\<exists>msg. fst (delete_image ap w query_disk image_id userId)
               = Json 200 (deleted_body msg userId)))
   \<and> (new_StorageManager (app_platform ap) (app_config ap) = Inr (storage ap)
      \<and> disk (storage ap) (Some (request_disk ap query_disk)) = Inr (Disk a)
      \<and> fs_fault w = (\<lambda>c. None)
      \<and> fault (stores w (location (client a))) = (\<lambda>c. None)
      \<and> distinct (map fst (cache w)) \<longrightarrow>
      fst (delete_image ap w query_disk image_id userId)
        = Json 200 (deleted_body ''Image deleted successfully'' userId)
      \<and> cache (snd (delete_image ap w query_disk image_id userId))
          = filter (\<lambda>(n, c). \<not> js_startsWith n image_id) (cache w)
      \<and> (find (\<lambda>f. js_startsWith f image_id) (map fst (uploads w)) = None \<longrightarrow>
          uploads (snd (delete_image ap w query_disk image_id userId)) = uploads w
          \<and> get_image (snd (delete_image ap w query_disk image_id userId)) image_id
              = Json 404 (error_body ''Image not found''))
      \<and> (find (\<lambda>f. js_startsWith f image_id) (map fst (uploads w)) = Some originalFile \<longrightarrow>
          uploads (snd (delete_image ap w query_disk image_id userId))
            = filter (\<lambda>(n, c). n \<noteq> originalFile) (uploads w)
          \<and> objects (stores (snd (delete_image ap w query_disk image_id userId))
                        (location (client a))) (''images/'' @ originalFile) = None
          \<and> ((\<forall>n \<in> fst ` set (uploads w). js_startsWith n image_id \<longrightarrow> n = originalFile) \<longrightarrow>
              get_image (snd (delete_image ap w query_disk image_id userId)) image_id
                = Json 404 (error_body ''Image not found''))))"
proof (intro conjI impI)
  assume "disk (storage ap) (Some (request_disk ap query_disk)) = Inl e"
  then show "delete_image ap w query_disk image_id userId
               = (Json 500 (error_message_body ''Failed to delete image'' e), w)"
    by (rule delete_unresolved)
next
  assume "disk (storage ap) (Some (request_disk ap query_disk)) = Inr d"
  then show "\<exists>msg. fst (delete_image ap w query_disk image_id userId)
                    = Json 200 (deleted_body msg userId)"
    by (rule delete_resolved)
next
  assume h: "new_StorageManager (app_platform ap) (app_config ap) = Inr (storage ap)
      \<and> disk (storage ap) (Some (request_disk ap query_disk)) = Inr (Disk a)
      \<and> fs_fault w = (\<lambda>c. None)
      \<and> fault (stores w (location (client a))) = (\<lambda>c. None)
      \<and> distinct (map fst (cache w))"
  then have m: "new_StorageManager (app_platform ap) (app_config ap) = Inr (storage ap)"
    and d: "disk (storage ap) (Some (request_disk ap query_disk)) = Inr (Disk a)"
    and f: "fs_fault w = (\<lambda>c. None)"
    and s: "fault (stores w (location (client a))) = (\<lambda>c. None)"
    and c: "distinct (map fst (cache w))"
    by simp_all
  have b: "built (app_platform ap) a"
    using m d by (rule disk_built)
  show "fst (delete_image ap w query_disk image_id userId)
          = Json 200 (deleted_body ''Image deleted successfully'' userId)"
  proof (cases "find (\<lambda>f. js_startsWith f image_id) (map fst (uploads w))")
    case None
    with delete_absent(1) [OF d f c] show ?thesis
      by simp
  next
    case (Some original)
    with delete_present(1) [OF b d f s c] show ?thesis
      by simp
  qed
  show "cache (snd (delete_image ap w query_disk image_id userId))
          = filter (\<lambda>(n, c). \<not> js_startsWith n image_id) (cache w)"
  proof (cases "find (\<lambda>f. js_startsWith f image_id) (map fst (uploads w))")
    case None
    with delete_absent(1) [OF d f c] show ?thesis
      by simp
  next
    case (Some original)
    with delete_present(2) [OF b d f s c] show ?thesis
      by simp
  qed
  {
    assume n: "find (\<lambda>f. js_startsWith f image_id) (map fst (uploads w)) = None"
    show "uploads (snd (delete_image ap w query_disk image_id userId)) = uploads w"
      using delete_absent(1) [OF d f c n] by simp
    show "get_image (snd (delete_image ap w query_disk image_id userId)) image_id
            = Json 404 (error_body ''Image not found'')"
      using d f c n by (rule delete_absent(2))
  }
  {
    assume o: "find (\<lambda>f. js_startsWith f image_id) (map fst (uploads w)) = Some originalFile"
    show "uploads (snd (delete_image ap w query_disk image_id userId))
            = filter (\<lambda>(n, c). n \<noteq> originalFile) (uploads w)"
      using b d f s c o by (rule delete_present(3))
    show "objects (stores (snd (delete_image ap w query_disk image_id userId))
                     (location (client a))) (''images/'' @ originalFile) = None"
      using b d f s c o by (rule delete_present(4))
    assume "\<forall>n \<in> fst ` set (uploads w). js_startsWith n image_id \<longrightarrow> n = originalFile"
    with b d f s c o
    show "get_image (snd (delete_image ap w query_disk image_id userId)) image_id
            = Json 404 (error_body ''Image not found'')"
      by (rule delete_present(5))
  }
qed

lemma local_app_built:
  "new_StorageManager (app_platform local_app) (app_config local_app) = Inr (storage local_app)"
  by (simp add: local_app_def new_local_manager)

lemma local_app_default_disk:
  "disk (storage local_app) (Some (request_disk local_app None)) = Inr (Disk local_adapter)"
  by (simp add: local_app_def request_disk_def config_default_def disk_def lookup_disk_def)

lemma local_app_unknown_disk:
  "disk (storage local_app) (Some (request_disk local_app (Some ''cdn'')))
     = Inl (Error (''Storage disk '' @ [CHR 0x22] @ ''cdn'' @ [CHR 0x22]
                   @ '' is not configured''))"
  by (simp add: local_app_def request_disk_def disk_def lookup_disk_def
      object_prototype_keys_def)

text \<open>
  The claim itself fails: two uploads have names starting with \<^verbatim>\<open>ab\<close>; the delete of
  \<^verbatim>\<open>ab\<close> reports success and removes the first of them, and the request for the
  original of \<^verbatim>\<open>ab\<close> that follows is answered with the second, not with 404.
\<close>

theorem delete_leaves_second_match:
  "delete_image local_app
       (quiet_world [(''ab1.png'', [137, 80, 78]), (''ab2.png'', [71, 73, 70])])
       None ''ab'' ''42''
     = (Json 200 (deleted_body ''Image deleted successfully'' ''42''),
        quiet_world [(''ab2.png'', [71, 73, 70])])
   \<and> get_image (quiet_world [(''ab2.png'', [71, 73, 70])]) ''ab''
     = SendFile UPLOAD_DIR ''ab2.png''"
  by (simp add: delete_image_def local_app_default_disk remove_original_def readdir_def
      entries_def quiet_world_def js_startsWith_def disk_exists_def
      FilesystemAdapter_exists_def resolve_method_def get_property_def local_adapter_def
      LocalDriver_exists_def fs_access_def quiet_store_def
      location_def unlink_local_def unlink_def set_entries_def purge_cache_def
      get_image_def Let_def)

theorem delete_removes_first_match_witness:
  "fst (delete_image local_app (quiet_world [(''a1.png'', [137, 80, 78])]) None ''a1'' ''42'')
     = Json 200 (deleted_body ''Image deleted successfully'' ''42'')
   \<and> uploads (snd (delete_image local_app (quiet_world [(''a1.png'', [137, 80, 78])])
                     None ''a1'' ''42'')) = []
   \<and> get_image (snd (delete_image local_app (quiet_world [(''a1.png'', [137, 80, 78])])
                       None ''a1'' ''42'')) ''a1''
     = Json 404 (error_body ''Image not found'')
   \<and> delete_image local_app (quiet_world [(''a1.png'', [137, 80, 78])]) (Some ''cdn'')
         ''a1'' ''42''
     = (Json 500 (error_message_body ''Failed to delete image''
                    (Error (''Storage disk '' @ [CHR 0x22] @ ''cdn'' @ [CHR 0x22]
                            @ '' is not configured''))),
        quiet_world [(''a1.png'', [137, 80, 78])])"
proof -
  let ?w = "quiet_world [(''a1.png'', [137, 80, 78])]"
  have h: "new_StorageManager (app_platform local_app) (app_config local_app)
             = Inr (storage local_app)
           \<and> disk (storage local_app) (Some (request_disk local_app None))
             = Inr (Disk local_adapter)
           \<and> fs_fault ?w = (\<lambda>c. None)
           \<and> fault (stores ?w (location (client local_adapter))) = (\<lambda>c. None)
           \<and> distinct (map fst (cache ?w))"
    by (simp add: local_app_built local_app_default_disk quiet_world_def quiet_store_def)
  have o: "find (\<lambda>f. js_startsWith f ''a1'') (map fst (uploads ?w)) = Some ''a1.png''"
    by (simp add: quiet_world_def js_startsWith_def)
  have n: "\<forall>n \<in> fst ` set (uploads ?w). js_startsWith n ''a1'' \<longrightarrow> n = ''a1.png''"
    by (simp add: quiet_world_def)
  have u: "filter (\<lambda>(n, c). n \<noteq> ''a1.png'') (uploads ?w) = []"
    by (simp add: quiet_world_def)
  note t = delete_removes_first_match
      [of local_app None _ ?w "''a1''" "''42''" _ local_adapter "''a1.png''"]
  have a: "fst (delete_image local_app ?w None ''a1'' ''42'')
             = Json 200 (deleted_body ''Image deleted successfully'' ''42'')"
    and b: "uploads (snd (delete_image local_app ?w None ''a1'' ''42'')) = []"
    and c: "get_image (snd (delete_image local_app ?w None ''a1'' ''42'')) ''a1''
             = Json 404 (error_body ''Image not found'')"
    using t h o n unfolding u by blast+
  note k = delete_removes_first_match
      [of local_app "Some ''cdn''"
          "Error (''Storage disk '' @ [CHR 0x22] @ ''cdn'' @ [CHR 0x22] @ '' is not configured'')"
          ?w "''a1''" "''42''"]
  have d: "delete_image local_app ?w (Some ''cdn'') ''a1'' ''42''
     = (Json 500 (error_message_body ''Failed to delete image''
                    (Error (''Storage disk '' @ [CHR 0x22] @ ''cdn'' @ [CHR 0x22]
                            @ '' is not configured''))), ?w)"
    using k local_app_unknown_disk by blast
  show ?thesis
    using a b c d by simp
qed

end
